theory Spec2Isabelle
  imports Main "HOL-Library.Word" "HOL-Library.Sublist" "HOL-Library.AList"
begin

unbundle bit_operations_syntax

section \<open>Python values, bytes and exceptions\<close>

text \<open>
  The driver of \<^verbatim>\<open>pycomm3/ab_comm/clx.py\<close> is embedded function by function.
  A \<^verbatim>\<open>bytes\<close> object is a list of 8-bit words, a Python integer is an \<open>int\<close>,
  and every exception the source can raise is a value on the left of a sum.
  \<open>CommError\<close> is what the transport raises when the target stops answering;
  \<open>NonTermination\<close> stands for a loop of the source that never returns.
\<close>

type_synonym byte = "8 word"
type_synonym bytes = "byte list"

datatype error =
    DataError
  | StructError
  | KeyError
  | IndexError
  | ValueError
  | TypeError
  | AttributeError
  | UnicodeDecodeError
  | CommError
  | NonTermination

text \<open>
  The values a tag can hold. A floating-point value (\<^verbatim>\<open>REAL\<close>) is kept as the
  little-endian IEEE bytes it was decoded from and is never interpreted.
\<close>

datatype pyval = PInt int | PBool bool | PFloat bytes

text \<open>Python truthiness (\<^verbatim>\<open>if value:\<close>); a float is false exactly when it is plus or minus zero.\<close>

fun truthy :: "pyval \<Rightarrow> bool" where
  "truthy (PInt i) = (i \<noteq> 0)"
| "truthy (PBool b) = b"
| "truthy (PFloat bs) = (bs \<noteq> [] \<and> ((\<exists>b \<in> set (butlast bs). b \<noteq> 0) \<or> last bs AND 0x7F \<noteq> 0))"

text \<open>\<^verbatim>\<open>xs[a:b]\<close> for non-negative bounds: Python clips a slice to the sequence.\<close>

definition py_slice :: "'a list \<Rightarrow> nat \<Rightarrow> nat \<Rightarrow> 'a list" where
  "py_slice xs a b = take (b - a) (drop a xs)"

text \<open>
  A method of the driver returns a value or raises, and in both cases leaves a state
  behind: attributes assigned before a \<^verbatim>\<open>raise\<close> stay assigned.
\<close>

datatype ('a, 's) outcome = Return 'a 's | Raise error 's

definition then_do :: "('a, 's) outcome \<Rightarrow> ('a \<Rightarrow> 's \<Rightarrow> ('b, 's) outcome) \<Rightarrow> ('b, 's) outcome" where
  "then_do m f = (case m of Raise e s \<Rightarrow> Raise e s | Return v s \<Rightarrow> f v s)"

definition lift_sum :: "error + 'a \<Rightarrow> 's \<Rightarrow> ('a, 's) outcome" where
  "lift_sum r s = (case r of Inl e \<Rightarrow> Raise e s | Inr v \<Rightarrow> Return v s)"

definition sum_bind :: "error + 'a \<Rightarrow> ('a \<Rightarrow> error + 'b) \<Rightarrow> error + 'b" where
  "sum_bind r f = (case r of Inl e \<Rightarrow> Inl e | Inr v \<Rightarrow> f v)"

text \<open>\<^verbatim>\<open>try: ... except Exception as e: raise DataError(e)\<close>\<close>

definition as_DataError :: "('a, 's) outcome \<Rightarrow> ('a, 's) outcome" where
  "as_DataError m = (case m of Raise e s \<Rightarrow> Raise DataError s | Return v s \<Rightarrow> Return v s)"

definition state_of :: "('a, 's) outcome \<Rightarrow> 's" where
  "state_of m = (case m of Raise e s \<Rightarrow> s | Return v s \<Rightarrow> s)"

definition value_of :: "('a, 's) outcome \<Rightarrow> 'a option" where
  "value_of m = (case m of Raise e s \<Rightarrow> None | Return v s \<Rightarrow> Some v)"

definition raised :: "('a, 's) outcome \<Rightarrow> error option" where
  "raised m = (case m of Raise e s \<Rightarrow> Some e | Return v s \<Rightarrow> None)"

section \<open>The codec of \<^verbatim>\<open>pycomm3.cip.cip_base\<close>\<close>

text \<open>
  Modelled from the spec: the scalar packers and unpackers (\<^verbatim>\<open>pack_uint\<close>,
  \<^verbatim>\<open>pack_udint\<close>, \<^verbatim>\<open>pack_dint\<close>, \<^verbatim>\<open>pack_usint\<close>, \<^verbatim>\<open>unpack_uint\<close>,
  \<^verbatim>\<open>unpack_usint\<close>, \<^verbatim>\<open>unpack_dint\<close>) live in \<^verbatim>\<open>pycomm3/cip/cip_base.py\<close>, which is
  not among the sources. The spec (4.1 Codec) gives them as little-endian encoders and
  decoders of fixed width that fail when a value does not fit the declared type; a decoder
  fails on an input shorter than its width.
\<close>

fun le_val :: "bytes \<Rightarrow> nat" where
  "le_val [] = 0"
| "le_val (b # bs) = unat b + 256 * le_val bs"

fun le_bytes :: "nat \<Rightarrow> int \<Rightarrow> bytes" where
  "le_bytes 0 k = []"
| "le_bytes (Suc n) k = word_of_int k # le_bytes n (k div 256)"


definition pack_uint :: "int \<Rightarrow> error + bytes" where
  "pack_uint n = (if 0 \<le> n \<and> n < 2 ^ 16 then Inr (le_bytes 2 n) else Inl StructError)"

definition pack_udint :: "int \<Rightarrow> error + bytes" where
  "pack_udint n = (if 0 \<le> n \<and> n < 2 ^ 32 then Inr (le_bytes 4 n) else Inl StructError)"

definition pack_dint :: "int \<Rightarrow> error + bytes" where
  "pack_dint n =
     (if - (2 ^ 31) \<le> n \<and> n < 2 ^ 31 then Inr (le_bytes 4 (n mod 2 ^ 32)) else Inl StructError)"

definition unpack_usint :: "bytes \<Rightarrow> error + int" where
  "unpack_usint st = (if length st < 1 then Inl StructError else Inr (int (le_val (take 1 st))))"

definition unpack_uint :: "bytes \<Rightarrow> error + int" where
  "unpack_uint st = (if length st < 2 then Inl StructError else Inr (int (le_val (take 2 st))))"

definition unpack_dint :: "bytes \<Rightarrow> error + int" where
  "unpack_dint st =
     (if length st < 4 then Inl StructError
      else let u = int (le_val (take 4 st)) in Inr (if u < 2 ^ 31 then u else u - 2 ^ 32))"

section \<open>Bit writes: \<^verbatim>\<open>_make_write_bit_data\<close>\<close>

text \<open>
  \<^verbatim>\<open>1 << bit\<close> raises \<^verbatim>\<open>ValueError\<close> on a negative shift count. The two masks start
  as \<^verbatim>\<open>0\<close> and \<^verbatim>\<open>0xFFFFFFFF\<close>; the result is the list of the three byte strings.
\<close>

definition shl1 :: "int \<Rightarrow> error + int" where
  "shl1 b = (if b < 0 then Inl ValueError else Inr (push_bit (nat b) 1))"

definition make_write_bit_data :: "int \<Rightarrow> pyval \<Rightarrow> bool \<Rightarrow> error + bytes list" where
  "make_write_bit_data b0 v bool_ary =
     (let or_mask = 0 :: int; and_mask = 0xFFFFFFFF :: int;
          mask_size = (if bool_ary then 4 else if b0 < 8 then 1 else if b0 < 16 then 2 else 4 :: int);
          b = (if bool_ary then b0 mod 32 else b0)
      in case shl1 b of
           Inl e \<Rightarrow> Inl e
         | Inr m \<Rightarrow>
            (let or_mask = (if truthy v then or_mask OR m else or_mask);
                 and_mask = (if truthy v then and_mask else and_mask AND NOT m)
             in case pack_uint mask_size of
                  Inl e \<Rightarrow> Inl e
                | Inr sz \<Rightarrow>
                   (case pack_udint or_mask of
                      Inl e \<Rightarrow> Inl e
                    | Inr om \<Rightarrow>
                       (case pack_udint and_mask of
                          Inl e \<Rightarrow> Inl e
                        | Inr am \<Rightarrow>
                            Inr [sz, take (nat mask_size) om, take (nat mask_size) am]))))"


section \<open>What the driver takes from outside \<^verbatim>\<open>clx.py\<close>\<close>

text \<open>
  \<^verbatim>\<open>clx.py\<close> starts with \<^verbatim>\<open>from pycomm3.cip.cip_base import *\<close>; that module is not
  among the sources. Its tables, constants and helpers are parameters of the embedding,
  collected in one record, so that every theorem holds whatever their contents. A table
  indexed by a value read at run time is a partial map (a missing key is a
  \<^verbatim>\<open>KeyError\<close>); a table indexed by a literal key of the source is a total function.
  Python's own \<^verbatim>\<open>int(str)\<close>, \<^verbatim>\<open>str(int)\<close>, \<^verbatim>\<open>bytes.decode()\<close> and
  \<^verbatim>\<open>str.encode('utf-8')\<close> are kept abstract in the same record.
\<close>

record extern =
  I_DATA_TYPE :: "int \<rightharpoonup> string"
  S_DATA_TYPE :: "string \<rightharpoonup> int"
  DATA_FUNCTION_SIZE :: "string \<rightharpoonup> nat"
  UNPACK_DATA_FUNCTION :: "string \<rightharpoonup> (bytes \<Rightarrow> error + pyval)"
  PACK_DATA_FUNCTION :: "string \<rightharpoonup> (pyval \<Rightarrow> error + bytes)"
  BITS_PER_INT_TYPE :: "string \<rightharpoonup> int"
  SERVICE_STATUS :: "int \<rightharpoonup> string"
  REPLAY_INFO :: "int \<rightharpoonup> string"
  ENCAPSULATION_COMMAND :: "string \<Rightarrow> bytes"
  I_TAG_SERVICES_REPLY :: "string \<Rightarrow> int"
  TAG_SERVICES_REQUEST :: "string \<Rightarrow> byte"
  CLASS_ID :: "string \<Rightarrow> bytes"
  CLASS_CODE :: "string \<Rightarrow> bytes"
  INSTANCE_ID :: "string \<Rightarrow> bytes"
  EXTENDED_SYMBOL :: bytes
  get_extended_status :: "bytes \<Rightarrow> nat \<Rightarrow> error + string"
  create_tag_rp :: "string \<Rightarrow> bool \<Rightarrow> bytes option"
  build_multiple_service :: "bytes list \<Rightarrow> int \<Rightarrow> bytes list"
  build_common_packet_format :: "bytes \<Rightarrow> bytes \<Rightarrow> bytes"
  py_int :: "string \<Rightarrow> int option"
  py_str :: "int \<Rightarrow> string"
  bytes_decode :: "bytes \<Rightarrow> string option"
  str_encode :: "string \<Rightarrow> bytes"

text \<open>\<^verbatim>\<open>bytes([n])\<close> raises \<^verbatim>\<open>ValueError\<close> unless \<^verbatim>\<open>n\<close> is in \<^verbatim>\<open>range(256)\<close>.\<close>

definition bytes1 :: "int \<Rightarrow> error + bytes" where
  "bytes1 n = (if 0 \<le> n \<and> n < 256 then Inr [word_of_int n] else Inl ValueError)"

section \<open>The state of a \<^verbatim>\<open>Driver\<close> object\<close>

text \<open>
  The dictionaries the driver builds are records. An entry appended by
  \<^verbatim>\<open>_parse_instance_attribute_list\<close> has the keys \<^verbatim>\<open>instance_id\<close>, \<^verbatim>\<open>tag_name\<close>
  (still bytes) and \<^verbatim>\<open>symbol_type\<close>. An entry produced by \<^verbatim>\<open>_isolating_user_tag\<close> has
  \<^verbatim>\<open>instance_id\<close>, \<^verbatim>\<open>tag_name\<close>, \<^verbatim>\<open>dim\<close>, \<^verbatim>\<open>tag_type\<close>, \<^verbatim>\<open>data_type\<close> and, depending
  on its shape, \<^verbatim>\<open>template_instance_id\<close> or \<^verbatim>\<open>bit_position\<close>; an absent key is \<open>None\<close>.
  The keys \<^verbatim>\<open>template\<close> and \<^verbatim>\<open>udt\<close> of a struct entry, both \<^verbatim>\<open>{}\<close> when the entry is
  produced, are filled by \<^verbatim>\<open>_get_tag_list\<close> and are left out.
\<close>

record symbol_entry =
  sym_instance_id :: int
  sym_tag_name :: bytes
  symbol_type :: int

record tag_entry =
  instance_id :: int
  template_instance_id :: "int option"
  tag_name :: string
  dim :: int
  tag_type :: string
  data_type :: string
  bit_position :: "int option"

text \<open>
  \<^verbatim>\<open>_tag_list\<close> is the empty \<^verbatim>\<open>str\<close> after a raw \<^verbatim>\<open>read_array\<close> starts and a list
  otherwise; the list holds whatever the parsers appended.
\<close>

datatype tl_item =
    Value_item int pyval
  | Byte_item int
  | Symbol_item symbol_entry
  | Tag_item tag_entry

datatype tag_list_t = Str string | Lst "tl_item list"

text \<open>\<^verbatim>\<open>_buffer\<close> is a dictionary (structure makeup) or the bytes of a template.\<close>

datatype dval = DInt int | DStr string

datatype buffer_t = Buf_dict "(string \<times> dval) list" | Buf_bytes bytes

type_synonym result_tuple = "string \<times> pyval option \<times> string option"

record driver =
  reply :: "bytes option"
  status :: "int \<times> string"
  more_packets_available :: bool
  target_is_connected :: bool
  target_cid :: bytes
  buffer :: buffer_t
  get_template_in_progress :: bool
  struct_cache :: "(int \<times> buffer_t) list"
  template_cache :: "(int \<times> buffer_t) list"
  program_names :: "string list"
  tag_list :: tag_list_t
  last_instance :: int
  byte_offset :: int
  last_position :: int
  output_raw :: bool
  last_tag_read :: "result_tuple option"
  last_tag_write :: "(string \<times> pyval \<times> string \<times> string) option"

text \<open>
  The text of a status message is kept as the format string of the source; the lookups
  made while formatting it are modelled, since they can raise.
\<close>

text \<open>\<^verbatim>\<open>self._reply[a:b]\<close>: subscripting \<^verbatim>\<open>None\<close> raises \<^verbatim>\<open>TypeError\<close>.\<close>

definition reply_slice :: "driver \<Rightarrow> nat \<Rightarrow> nat \<Rightarrow> error + bytes" where
  "reply_slice d a b = (case reply d of None \<Rightarrow> Inl TypeError | Some r \<Rightarrow> Inr (py_slice r a b))"

definition reply_from :: "driver \<Rightarrow> nat \<Rightarrow> error + bytes" where
  "reply_from d a = (case reply d of None \<Rightarrow> Inl TypeError | Some r \<Rightarrow> Inr (drop a r))"

section \<open>The reply parsers\<close>

subsection \<open>\<^verbatim>\<open>_parse_instance_attribute_list\<close>\<close>

function parse_instance_attribute_list_loop ::
  "bytes \<Rightarrow> nat \<Rightarrow> int \<Rightarrow> driver \<Rightarrow> (int, driver) outcome" where
  "parse_instance_attribute_list_loop tags_returned idx instance d =
     (if idx < length tags_returned then
        (case unpack_dint (py_slice tags_returned idx (idx + 4)) of
           Inl e \<Rightarrow> Raise e d
         | Inr inst \<Rightarrow>
            (case unpack_uint (py_slice tags_returned (idx + 4) (idx + 6)) of
               Inl e \<Rightarrow> Raise e d
             | Inr tag_length \<Rightarrow>
                (let n = nat tag_length;
                     name = py_slice tags_returned (idx + 6) (idx + 6 + n)
                 in case unpack_uint (py_slice tags_returned (idx + 6 + n) (idx + 8 + n)) of
                      Inl e \<Rightarrow> Raise e d
                    | Inr st \<Rightarrow>
                       (case tag_list d of
                          Str s \<Rightarrow> Raise AttributeError d
                        | Lst xs \<Rightarrow>
                            parse_instance_attribute_list_loop tags_returned (idx + 8 + n) inst
                              (d\<lparr>tag_list := Lst (xs @ [Symbol_item
                                   \<lparr>sym_instance_id = inst, sym_tag_name = name, symbol_type = st\<rparr>])\<rparr>)))))
      else Return instance d)"
  by pat_completeness auto
termination
  by (relation "measure (\<lambda>(tr, idx, inst, d). length tr - idx)") auto

declare parse_instance_attribute_list_loop.simps [simp del]

definition parse_instance_attribute_list :: "nat \<Rightarrow> int \<Rightarrow> driver \<Rightarrow> (unit, driver) outcome" where
  "parse_instance_attribute_list start_tag_ptr st d =
     then_do (lift_sum (reply_from d start_tag_ptr) d) (\<lambda>tags_returned d.
     then_do (as_DataError (parse_instance_attribute_list_loop tags_returned 0 0 d)) (\<lambda>instance d.
       if st = 0 then Return () (d\<lparr>last_instance := - 1\<rparr>)
       else if st = 0x06 then Return () (d\<lparr>last_instance := instance + 1\<rparr>)
       else Return () (d\<lparr>status := (1, ''unknown status during _parse_tag_list''),
                          last_instance := - 1\<rparr>)))"


subsection \<open>\<^verbatim>\<open>_parse_structure_makeup_attributes\<close>\<close>

definition parse_structure_makeup_attributes ::
  "nat \<Rightarrow> int \<Rightarrow> driver \<Rightarrow> (buffer_t option, driver) outcome" where
  "parse_structure_makeup_attributes start_tag_ptr st d0 =
     (let d = d0\<lparr>buffer := Buf_dict []\<rparr> in
      if st \<noteq> 0 then Return None (d\<lparr>buffer := Buf_dict [(''Error'', DInt st)]\<rparr>)
      else
        then_do (lift_sum (reply_from d start_tag_ptr) d) (\<lambda>attribute d.
        as_DataError (
          then_do (lift_sum (unpack_uint (py_slice attribute 4 6)) d) (\<lambda>s1 d.
          if s1 \<noteq> 0 then
            Return None (d\<lparr>buffer := Buf_dict [(''Error'', DStr ''object_definition Error'')]\<rparr>)
          else
          then_do (lift_sum (unpack_dint (py_slice attribute 6 10)) d) (\<lambda>v1 d.
          let b1 = [(''object_definition_size'', DInt v1)]; d = d\<lparr>buffer := Buf_dict b1\<rparr> in
          then_do (lift_sum (unpack_uint (py_slice attribute 12 14)) d) (\<lambda>s2 d.
          if s2 \<noteq> 0 then
            Return None (d\<lparr>buffer := Buf_dict (b1 @ [(''Error'', DStr ''structure Error'')])\<rparr>)
          else
          then_do (lift_sum (unpack_dint (py_slice attribute 14 18)) d) (\<lambda>v2 d.
          let b2 = b1 @ [(''structure_size'', DInt v2)]; d = d\<lparr>buffer := Buf_dict b2\<rparr> in
          then_do (lift_sum (unpack_uint (py_slice attribute 20 22)) d) (\<lambda>s3 d.
          if s3 \<noteq> 0 then
            Return None (d\<lparr>buffer := Buf_dict (b2 @ [(''Error'', DStr ''member_count Error'')])\<rparr>)
          else
          then_do (lift_sum (unpack_uint (py_slice attribute 22 24)) d) (\<lambda>v3 d.
          let b3 = b2 @ [(''member_count'', DInt v3)]; d = d\<lparr>buffer := Buf_dict b3\<rparr> in
          then_do (lift_sum (unpack_uint (py_slice attribute 26 28)) d) (\<lambda>s4 d.
          if s4 \<noteq> 0 then
            Return None (d\<lparr>buffer := Buf_dict (b3 @ [(''Error'', DStr ''structure_handle Error'')])\<rparr>)
          else
          then_do (lift_sum (unpack_uint (py_slice attribute 28 30)) d) (\<lambda>v4 d.
          let b4 = b3 @ [(''structure_handle'', DInt v4)] in
          Return (Some (Buf_dict b4)) (d\<lparr>buffer := Buf_dict b4\<rparr>))))))))))))"

subsection \<open>\<^verbatim>\<open>_parse_template\<close>\<close>

text \<open>\<^verbatim>\<open>self._buffer += tags_returned\<close> raises \<^verbatim>\<open>TypeError\<close> when the buffer is a dictionary.\<close>

definition parse_template :: "nat \<Rightarrow> int \<Rightarrow> driver \<Rightarrow> (unit, driver) outcome" where
  "parse_template start_tag_ptr st d =
     then_do (lift_sum (reply_from d start_tag_ptr) d) (\<lambda>tags_returned d.
       let bytes_received = int (length tags_returned) in
       case buffer d of
         Buf_dict al \<Rightarrow> Raise TypeError d
       | Buf_bytes b \<Rightarrow>
          (let d = d\<lparr>buffer := Buf_bytes (b @ tags_returned)\<rparr> in
           if st = 0 then Return () (d\<lparr>get_template_in_progress := False\<rparr>)
           else if st = 0x06 then Return () (d\<lparr>byte_offset := byte_offset d + bytes_received\<rparr>)
           else Return () (d\<lparr>status := (1, ''unknown status {0} during _parse_template''),
                              last_instance := - 1\<rparr>)))"

subsection \<open>\<^verbatim>\<open>_parse_fragment\<close>\<close>

text \<open>
  One turn of the \<^verbatim>\<open>while idx < fragment_returned_length\<close> loop; the result is the
  width by which \<^verbatim>\<open>idx\<close> advances. In raw mode \<^verbatim>\<open>self._tag_list += value\<close> adds bytes to
  a \<^verbatim>\<open>str\<close> (\<^verbatim>\<open>TypeError\<close>) or extends a list by the integers of the bytes; otherwise
  \<^verbatim>\<open>append\<close> needs a list (\<^verbatim>\<open>AttributeError\<close> on a \<^verbatim>\<open>str\<close>).
\<close>

definition parse_fragment_step ::
  "extern \<Rightarrow> int \<Rightarrow> bytes \<Rightarrow> nat \<Rightarrow> driver \<Rightarrow> (nat, driver) outcome" where
  "parse_fragment_step C dtype fragment_returned idx d =
     (case I_DATA_TYPE C dtype of
        None \<Rightarrow> Raise DataError d
      | Some typ \<Rightarrow>
         if output_raw d then
           (case DATA_FUNCTION_SIZE C typ of
              None \<Rightarrow> Raise DataError d
            | Some sz \<Rightarrow>
               (let v = py_slice fragment_returned idx (idx + sz) in
                case tag_list d of
                  Str s \<Rightarrow> Raise TypeError d
                | Lst xs \<Rightarrow> Return sz (d\<lparr>tag_list := Lst (xs @ map (\<lambda>b. Byte_item (uint b)) v)\<rparr>)))
         else
           (case UNPACK_DATA_FUNCTION C typ of
              None \<Rightarrow> Raise DataError d
            | Some unpack \<Rightarrow>
               (case DATA_FUNCTION_SIZE C typ of
                  None \<Rightarrow> Raise DataError d
                | Some sz \<Rightarrow>
                   (case unpack (py_slice fragment_returned idx (idx + sz)) of
                      Inl e \<Rightarrow> Raise DataError d
                    | Inr v \<Rightarrow>
                       (case tag_list d of
                          Str s \<Rightarrow> Raise AttributeError d
                        | Lst xs \<Rightarrow>
                            Return sz (d\<lparr>tag_list := Lst (xs @ [Value_item (last_position d) v]),
                                         last_position := last_position d + 1\<rparr>))))))"

text \<open>A type of width 0 would keep \<^verbatim>\<open>idx\<close> where it is: the loop of the source never ends.\<close>

function parse_fragment_loop ::
  "extern \<Rightarrow> int \<Rightarrow> bytes \<Rightarrow> nat \<Rightarrow> driver \<Rightarrow> (unit, driver) outcome" where
  "parse_fragment_loop C dtype fragment_returned idx d =
     (if idx < length fragment_returned then
        (case parse_fragment_step C dtype fragment_returned idx d of
           Raise e d' \<Rightarrow> Raise e d'
         | Return sz d' \<Rightarrow>
             if sz = 0 then Raise NonTermination d'
             else parse_fragment_loop C dtype fragment_returned (idx + sz) d')
      else Return () d)"
  by pat_completeness auto
termination
  by (relation "measure (\<lambda>(C, dtype, fr, idx, d). length fr - idx)") auto

declare parse_fragment_loop.simps [simp del]

definition parse_fragment :: "extern \<Rightarrow> nat \<Rightarrow> int \<Rightarrow> driver \<Rightarrow> (unit, driver) outcome" where
  "parse_fragment C start_ptr st d =
     then_do (as_DataError (lift_sum
        (sum_bind (reply_slice d start_ptr (start_ptr + 2)) (\<lambda>s.
         sum_bind (unpack_uint s) (\<lambda>dtype.
         sum_bind (reply_from d (start_ptr + 2)) (\<lambda>fragment_returned.
         Inr (dtype, fragment_returned))))) d)) (\<lambda>(dtype, fragment_returned) d.
     let fragment_returned_length = int (length fragment_returned) in
     then_do (parse_fragment_loop C dtype fragment_returned 0 d) (\<lambda>_ d.
       if st = 0 then Return () (d\<lparr>byte_offset := - 1\<rparr>)
       else if st = 0x06 then
         Return () (d\<lparr>byte_offset := byte_offset d + fragment_returned_length\<rparr>)
       else
         (case SERVICE_STATUS C st of
            None \<Rightarrow> Raise KeyError d
          | Some txt \<Rightarrow>
             (case reply d of
                None \<Rightarrow> Raise TypeError d
              | Some r \<Rightarrow>
                 (case get_extended_status C r 48 of
                    Inl e \<Rightarrow> Raise e d
                  | Inr ext \<Rightarrow>
                      Return () (d\<lparr>status := (2, ''{0}: {1}''), byte_offset := - 1\<rparr>))))))"


subsection \<open>\<^verbatim>\<open>_parse_multiple_request_read\<close>\<close>

text \<open>
  The expression
  \<^verbatim>\<open>bool(value & (1 << bit)) if bit < BITS_PER_INT_TYPE[typ] else None\<close>,
  which \<^verbatim>\<open>read_tag\<close> and \<^verbatim>\<open>_parse_multiple_request_read\<close> both evaluate.
\<close>

definition bit_value :: "extern \<Rightarrow> string \<Rightarrow> pyval \<Rightarrow> int \<Rightarrow> error + pyval option" where
  "bit_value C typ v b =
     (case BITS_PER_INT_TYPE C typ of
        None \<Rightarrow> Inl KeyError
      | Some w \<Rightarrow>
         if b < w then
           (case shl1 b of
              Inl e \<Rightarrow> Inl e
            | Inr m \<Rightarrow>
               (case v of
                  PInt i \<Rightarrow> Inr (Some (PBool (i AND m \<noteq> 0)))
                | PBool t \<Rightarrow> Inr (Some (PBool ((if t then 1 else 0) AND m \<noteq> 0)))
                | PFloat f \<Rightarrow> Inl TypeError))
         else Inr None)"

text \<open>\<^verbatim>\<open>for bit in tag_bits[tag]: ... tag_list.append((name, val, 'BOOL'))\<close>\<close>

fun bits_tuples :: "extern \<Rightarrow> string \<Rightarrow> string \<Rightarrow> pyval \<Rightarrow> int list \<Rightarrow> error + result_tuple list" where
  "bits_tuples C tag typ v [] = Inr []"
| "bits_tuples C tag typ v (b # bs) =
     (case bit_value C typ v b of
        Inl e \<Rightarrow> Inl e
      | Inr val \<Rightarrow>
         (case bits_tuples C tag typ v bs of
            Inl e \<Rightarrow> Inl e
          | Inr rest \<Rightarrow> Inr ((tag @ ''.'' @ py_str C b, val, Some ''BOOL'') # rest)))"

text \<open>
  The body of \<^verbatim>\<open>for index in range(number_of_service_replies)\<close>: the tuples appended
  for one sub-response. \<^verbatim>\<open>position\<close> is 50 before the loop and grows by 2 per turn.
\<close>

definition parse_multiple_request_read_step ::
  "extern \<Rightarrow> string list \<Rightarrow> (string \<times> int list) list \<Rightarrow> nat \<Rightarrow> driver
     \<Rightarrow> (result_tuple list, driver) outcome" where
  "parse_multiple_request_read_step C tags tag_bits index d =
     (let position = 50 + 2 * (index + 1) in
      then_do (lift_sum (sum_bind (reply_slice d position (position + 2)) unpack_uint) d) (\<lambda>off d.
      let start = 50 + nat off in
      then_do (lift_sum (sum_bind (reply_slice d (start + 2) (start + 3)) unpack_usint) d)
        (\<lambda>general_status d.
      if length tags \<le> index then Raise IndexError d
      else
        let tag = tags ! index in
        if general_status = 0 then
          then_do (lift_sum (sum_bind (reply_slice d (start + 4) (start + 6)) unpack_uint) d) (\<lambda>code d.
          case I_DATA_TYPE C code of
            None \<Rightarrow> Raise KeyError d
          | Some typ \<Rightarrow>
             (case DATA_FUNCTION_SIZE C typ of
                None \<Rightarrow> Raise KeyError d
              | Some sz \<Rightarrow>
                 (case UNPACK_DATA_FUNCTION C typ of
                    None \<Rightarrow> Raise KeyError d
                  | Some unpack \<Rightarrow>
                     then_do (lift_sum
                        (sum_bind (reply_slice d (start + 6) (start + 6 + sz)) unpack) d) (\<lambda>v d.
                     case map_of tag_bits tag of
                       Some bits \<Rightarrow> lift_sum (bits_tuples C tag typ v bits) d
                     | None \<Rightarrow>
                         Return [(tag, Some v, Some typ)]
                           (d\<lparr>last_tag_read := Some (tag, Some v, Some typ)\<rparr>)))))
        else Return [(tag, None, None)] (d\<lparr>last_tag_read := Some (tag, None, None)\<rparr>))))"

fun parse_multiple_request_read_loop ::
  "extern \<Rightarrow> string list \<Rightarrow> (string \<times> int list) list \<Rightarrow> nat \<Rightarrow> nat \<Rightarrow> result_tuple list
     \<Rightarrow> driver \<Rightarrow> (result_tuple list, driver) outcome" where
  "parse_multiple_request_read_loop C tags tag_bits 0 index acc d = Return acc d"
| "parse_multiple_request_read_loop C tags tag_bits (Suc k) index acc d =
     (case parse_multiple_request_read_step C tags tag_bits index d of
        Raise e d' \<Rightarrow> Raise e d'
      | Return new d' \<Rightarrow>
          parse_multiple_request_read_loop C tags tag_bits k (Suc index) (acc @ new) d')"

definition parse_multiple_request_read ::
  "extern \<Rightarrow> string list \<Rightarrow> (string \<times> int list) list \<Rightarrow> driver
     \<Rightarrow> (result_tuple list, driver) outcome" where
  "parse_multiple_request_read C tags tag_bits d =
     as_DataError (
       then_do (lift_sum (sum_bind (reply_slice d 50 52) unpack_uint) d)
         (\<lambda>number_of_service_replies d.
       parse_multiple_request_read_loop C tags tag_bits (nat number_of_service_replies) 0 [] d))"

text \<open>
  The general status of the sub-response of one index, as the loop reads it from the
  reply: the offset stands at \<^verbatim>\<open>50 + 2 * (index + 1)\<close>, the sub-response starts at 50 plus
  that offset, and its status is the byte at \<^verbatim>\<open>start + 2\<close>.
\<close>

definition sub_response_status :: "bytes \<Rightarrow> nat \<Rightarrow> error + int" where
  "sub_response_status r index =
     (let position = 50 + 2 * (index + 1) in
      sum_bind (unpack_uint (py_slice r position (position + 2))) (\<lambda>off.
      let start = 50 + nat off in
      unpack_usint (py_slice r (start + 2) (start + 3))))"

subsection \<open>\<^verbatim>\<open>_parse_multiple_request_write\<close>\<close>

type_synonym write_tuple = "string \<times> pyval \<times> string"

definition parse_multiple_request_write_step ::
  "write_tuple list \<Rightarrow> nat \<Rightarrow> driver \<Rightarrow> (string \<times> pyval \<times> string \<times> string, driver) outcome" where
  "parse_multiple_request_write_step tags index d =
     (let position = 50 + 2 * (index + 1) in
      then_do (lift_sum (sum_bind (reply_slice d position (position + 2)) unpack_uint) d) (\<lambda>off d.
      let start = 50 + nat off in
      then_do (lift_sum (sum_bind (reply_slice d (start + 2) (start + 3)) unpack_usint) d)
        (\<lambda>general_status d.
      if length tags \<le> index then Raise IndexError d
      else
        (case tags ! index of (name, v, typ) \<Rightarrow>
           let t = (name, v, typ, if general_status = 0 then ''GOOD'' else ''BAD'')
           in Return t (d\<lparr>last_tag_write := Some t\<rparr>)))))"

fun parse_multiple_request_write_loop ::
  "write_tuple list \<Rightarrow> nat \<Rightarrow> nat \<Rightarrow> (string \<times> pyval \<times> string \<times> string) list \<Rightarrow> driver
     \<Rightarrow> ((string \<times> pyval \<times> string \<times> string) list, driver) outcome" where
  "parse_multiple_request_write_loop tags 0 index acc d = Return acc d"
| "parse_multiple_request_write_loop tags (Suc k) index acc d =
     (case parse_multiple_request_write_step tags index d of
        Raise e d' \<Rightarrow> Raise e d'
      | Return t d' \<Rightarrow> parse_multiple_request_write_loop tags k (Suc index) (acc @ [t]) d')"

definition parse_multiple_request_write ::
  "write_tuple list \<Rightarrow> driver \<Rightarrow> ((string \<times> pyval \<times> string \<times> string) list, driver) outcome" where
  "parse_multiple_request_write tags d =
     as_DataError (
       then_do (lift_sum (sum_bind (reply_slice d 50 52) unpack_uint) d)
         (\<lambda>number_of_service_replies d.
       parse_multiple_request_write_loop tags (nat number_of_service_replies) 0 [] d))"

subsection \<open>\<^verbatim>\<open>_check_reply\<close>\<close>

text \<open>
  With no reply the source evaluates \<^verbatim>\<open>unpack_dint(self._message[:2])\<close>: at most two
  bytes for a four-byte decoder, so the branch always ends in the \<^verbatim>\<open>except\<close> clause.
\<close>

definition check_reply :: "extern \<Rightarrow> driver \<Rightarrow> (bool, driver) outcome" where
  "check_reply C d0 =
     (let d = d0\<lparr>more_packets_available := False\<rparr> in
      as_DataError (
        case reply d of
          None \<Rightarrow> Raise StructError d
        | Some r \<Rightarrow>
           then_do (lift_sum (unpack_uint (py_slice r 0 2)) d) (\<lambda>typ d.
           then_do (lift_sum (unpack_dint (py_slice r 8 12)) d) (\<lambda>enc d.
           if enc \<noteq> 0 then
             (case REPLAY_INFO C typ of
                None \<Rightarrow> Raise KeyError d
              | Some info \<Rightarrow>
                 (case SERVICE_STATUS C enc of
                    None \<Rightarrow> Raise KeyError d
                  | Some txt \<Rightarrow> Return False (d\<lparr>status := (3, ''{0} reply status:{1}'')\<rparr>)))
           else
           then_do (lift_sum (unpack_uint (ENCAPSULATION_COMMAND C ''send_rr_data'')) d) (\<lambda>rr d.
           if typ = rr then
             then_do (lift_sum (unpack_usint (py_slice r 42 43)) d) (\<lambda>st d.
             if st \<noteq> 0 then
               (case SERVICE_STATUS C st of
                  None \<Rightarrow> Raise KeyError d
                | Some txt \<Rightarrow>
                   (case get_extended_status C r 42 of
                      Inl e \<Rightarrow> Raise e d
                    | Inr ext \<Rightarrow>
                        Return False
                          (d\<lparr>status := (3, ''send_rr_data reply:{0} - Extend status:{1}'')\<rparr>)))
             else Return True d)
           else
           then_do (lift_sum (unpack_uint (ENCAPSULATION_COMMAND C ''send_unit_data'')) d) (\<lambda>ud d.
           if typ = ud then
             then_do (lift_sum (unpack_usint (py_slice r 48 49)) d) (\<lambda>st d.
             then_do (lift_sum (unpack_usint (py_slice r 46 47)) d) (\<lambda>service d.
             if service = I_TAG_SERVICES_REPLY C ''Read Tag Fragmented'' then
               then_do (parse_fragment C 50 st d) (\<lambda>_ d. Return True d)
             else if service = I_TAG_SERVICES_REPLY C ''Get Instance Attributes List'' then
               then_do (parse_instance_attribute_list 50 st d) (\<lambda>_ d. Return True d)
             else if service = I_TAG_SERVICES_REPLY C ''Get Attributes'' then
               then_do (parse_structure_makeup_attributes 50 st d) (\<lambda>_ d. Return True d)
             else if service = I_TAG_SERVICES_REPLY C ''Read Template''
                     \<and> get_template_in_progress d then
               then_do (parse_template 50 st d) (\<lambda>_ d. Return True d)
             else if st = 0x06 then
               Return True (d\<lparr>status := (3, ''Insufficient Packet Space''),
                              more_packets_available := True\<rparr>)
             else if st \<noteq> 0 then
               (case SERVICE_STATUS C st of
                  None \<Rightarrow> Raise KeyError d
                | Some txt \<Rightarrow>
                   (case get_extended_status C r 48 of
                      Inl e \<Rightarrow> Raise e d
                    | Inr ext \<Rightarrow>
                        Return False
                          (d\<lparr>status := (3, ''send_unit_data reply:{0} - Extend status:{1}'')\<rparr>)))
             else Return True d))
           else Return True d))))))"

text \<open>
  What \<^verbatim>\<open>_check_reply\<close> reads of a frame on its way to the parsers: the command at
  offset 0 is \<^verbatim>\<open>send_unit_data\<close> and not \<^verbatim>\<open>send_rr_data\<close>, the encapsulation status at
  offset 8 is 0, the byte at offset 46 is the reply service and the byte at offset 48 the
  general status.
\<close>

definition is_unit_data_reply :: "extern \<Rightarrow> bytes \<Rightarrow> int \<Rightarrow> int \<Rightarrow> bool" where
  "is_unit_data_reply C r service st \<longleftrightarrow>
     unpack_dint (py_slice r 8 12) = Inr 0
     \<and> (case unpack_uint (py_slice r 0 2) of
          Inl e \<Rightarrow> False
        | Inr typ \<Rightarrow>
           (case unpack_uint (ENCAPSULATION_COMMAND C ''send_rr_data'') of
              Inl e \<Rightarrow> False
            | Inr rr \<Rightarrow>
                typ \<noteq> rr \<and> unpack_uint (ENCAPSULATION_COMMAND C ''send_unit_data'') = Inr typ))
     \<and> unpack_usint (py_slice r 48 49) = Inr st
     \<and> unpack_usint (py_slice r 46 47) = Inr service"

section \<open>The transport\<close>

text \<open>
  Modelled from the spec: \<^verbatim>\<open>Base\<close>, the parent class of \<^verbatim>\<open>Driver\<close>
  (\<^verbatim>\<open>pycomm3/cip/cip_base.py\<close>), is not among the sources; only its calls are. Its
  methods \<^verbatim>\<open>forward_open\<close>, \<^verbatim>\<open>send_unit_data\<close>, \<^verbatim>\<open>_get_sequence\<close> and \<^verbatim>\<open>clear\<close>
  follow the spec (6 External interfaces, 4.5, 4.9, 7): \<^verbatim>\<open>forward_open\<close> opens the
  session and on success sets \<^verbatim>\<open>target_is_connected\<close> and \<^verbatim>\<open>target_cid\<close>;
  \<^verbatim>\<open>send_unit_data\<close> ships a frame, stores the reply in \<^verbatim>\<open>_reply\<close>, has every incoming
  reply classified by \<^verbatim>\<open>_check_reply\<close>, and returns the raw reply, \<^verbatim>\<open>None\<close> on a
  transport failure; \<^verbatim>\<open>_get_sequence\<close> is a 16-bit counter; \<^verbatim>\<open>clear\<close> resets
  \<^verbatim>\<open>_status\<close>. The target is a script: the answers it will give to the successive
  \<^verbatim>\<open>send_unit_data\<close> and \<^verbatim>\<open>forward_open\<close> calls. When the script of replies is used
  up the target has stopped answering and the transport raises. \<open>sent\<close> logs every frame
  handed to \<^verbatim>\<open>send_unit_data\<close>.
\<close>

record net =
  replies :: "bytes option list"
  opens :: "bytes option list"
  sent :: "bytes list"
  sequence :: int

type_synonym world = "driver \<times> net"

definition on_driver :: "('a, driver) outcome \<Rightarrow> net \<Rightarrow> ('a, world) outcome" where
  "on_driver m w = (case m of Raise e d \<Rightarrow> Raise e (d, w) | Return v d \<Rightarrow> Return v (d, w))"

definition clear :: "driver \<Rightarrow> driver" where
  "clear d = d\<lparr>status := (0, [])\<rparr>"

definition get_sequence :: "net \<Rightarrow> int \<times> net" where
  "get_sequence w = (sequence w mod 65536, w\<lparr>sequence := sequence w + 1\<rparr>)"

fun forward_open :: "world \<Rightarrow> bool \<times> world" where
  "forward_open (d, w) =
     (case opens w of
        [] \<Rightarrow> (False, (d, w))
      | None # os \<Rightarrow> (False, (d, w\<lparr>opens := os\<rparr>))
      | Some cid # os \<Rightarrow>
          (True, (d\<lparr>target_is_connected := True, target_cid := cid\<rparr>, w\<lparr>opens := os\<rparr>)))"

fun send_unit_data :: "extern \<Rightarrow> bytes \<Rightarrow> world \<Rightarrow> (bytes option, world) outcome" where
  "send_unit_data C message (d, w) =
     (let w1 = w\<lparr>sent := sent w @ [message]\<rparr> in
      case replies w1 of
        [] \<Rightarrow> Raise CommError (d, w1)
      | r # rs \<Rightarrow>
         (let w2 = w1\<lparr>replies := rs\<rparr> in
          case check_reply C (d\<lparr>reply := r\<rparr>) of
            Raise e d' \<Rightarrow> Raise e (d', w2)
          | Return ok d' \<Rightarrow> Return r (d', w2)))"

text \<open>
  The guard every public method starts with:
  \<^verbatim>\<open>if not self._target_is_connected: if not self.forward_open(): self._status = (code, msg); raise DataError(msg)\<close>.
\<close>

fun session_gate :: "int \<Rightarrow> string \<Rightarrow> world \<Rightarrow> (unit, world) outcome" where
  "session_gate code msg (d, w) =
     (if \<not> target_is_connected d then
        (case forward_open (d, w) of
           (True, s) \<Rightarrow> Return () s
         | (False, (d', w')) \<Rightarrow> Raise DataError (d'\<lparr>status := (code, msg)\<rparr>, w'))
      else Return () (d, w))"

text \<open>
  \<^verbatim>\<open>self.send_unit_data(build_common_packet_format(DATA_ITEM['Connected'], b''.join(message_request), ADDRESS_ITEM['Connection Based'], addr_data=self._target_cid))\<close>
\<close>

fun send_request :: "extern \<Rightarrow> bytes list \<Rightarrow> world \<Rightarrow> (bytes option, world) outcome" where
  "send_request C message_request (d, w) =
     send_unit_data C (build_common_packet_format C (concat message_request) (target_cid d)) (d, w)"

section \<open>Tag names\<close>

text \<open>
  \<^verbatim>\<open>sub in s\<close> on strings, and \<^verbatim>\<open>s.rsplit(sep, maxsplit=1)\<close> unpacked into two names
  (\<open>None\<close> when the separator does not occur and the unpacking raises).
\<close>

fun contains :: "'a list \<Rightarrow> 'a list \<Rightarrow> bool" where
  "contains sub [] = (sub = [])"
| "contains sub (x # xs) = (prefix sub (x # xs) \<or> contains sub xs)"

definition rsplit1 :: "string \<Rightarrow> char \<Rightarrow> (string \<times> string) option" where
  "rsplit1 s sep =
     (case dropWhile (\<lambda>c. c \<noteq> sep) (rev s) of
        [] \<Rightarrow> None
      | c # prefix_rev \<Rightarrow> Some (rev prefix_rev, rev (takeWhile (\<lambda>c. c \<noteq> sep) (rev s))))"

definition prep_bools :: "extern \<Rightarrow> string \<Rightarrow> string \<Rightarrow> bool \<Rightarrow> string \<times> int option" where
  "prep_bools C tag typ bits_only =
     (if typ \<noteq> ''BOOL'' then (tag, None)
      else if \<not> bits_only \<and> tag \<noteq> [] \<and> last tag = CHR '']'' then
        (case rsplit1 (butlast tag) CHR ''['' of
           None \<Rightarrow> (tag, None)
         | Some (base, idx) \<Rightarrow>
            (case py_int C idx of
               None \<Rightarrow> (tag, None)
             | Some i \<Rightarrow> (base @ ''['' @ py_str C (i div 32) @ '']'', Some i)))
      else
        (case rsplit1 tag CHR ''.'' of
           None \<Rightarrow> (tag, None)
         | Some (base, b) \<Rightarrow>
            (case py_int C b of
               None \<Rightarrow> (tag, None)
             | Some i \<Rightarrow> (base, Some i))))"

definition dword_to_boolarray :: "extern \<Rightarrow> string \<Rightarrow> int \<Rightarrow> error + string" where
  "dword_to_boolarray C tag b =
     (case rsplit1 tag CHR ''['' of
        None \<Rightarrow> Inl ValueError
      | Some (base, tmp) \<Rightarrow>
         (case py_int C (butlast tmp) of
            None \<Rightarrow> Inl ValueError
          | Some i \<Rightarrow> Inr (base @ ''['' @ py_str C (i * 32 + b) @ '']'')))"

section \<open>Reading\<close>

subsection \<open>\<^verbatim>\<open>read_tag\<close>\<close>

datatype tag_arg = Single string | Multi "string list"

datatype read_tag_result =
    RT_None
  | RT_Value "pyval option" string
  | RT_List "result_tuple list"

text \<open>
  The \<^verbatim>\<open>for t in tag\<close> loop of a multi read. \<^verbatim>\<open>tag_bits\<close> is a
  \<^verbatim>\<open>defaultdict(list)\<close>: \<^verbatim>\<open>tag_bits[t].append(bit)\<close> creates the entry when it is missing.
\<close>

fun read_tag_multi_loop ::
  "extern \<Rightarrow> string list \<Rightarrow> (string \<times> int list) list \<Rightarrow> string list \<Rightarrow> bytes list \<Rightarrow> driver
     \<Rightarrow> ((string \<times> int list) list \<times> string list \<times> bytes list, driver) outcome" where
  "read_tag_multi_loop C [] tag_bits tags_read rp_list d = Return (tag_bits, tags_read, rp_list) d"
| "read_tag_multi_loop C (t0 # ts) tag_bits tags_read rp_list d =
     (case prep_bools C t0 ''BOOL'' True of
        (t, b) \<Rightarrow>
          (let read = (b = None \<or> map_of tag_bits t = None);
               tag_bits' =
                 (case b of
                    None \<Rightarrow> tag_bits
                  | Some n \<Rightarrow>
                      AList.update t ((case map_of tag_bits t of None \<Rightarrow> [] | Some bs \<Rightarrow> bs) @ [n]) tag_bits)
           in if read then
                (case create_tag_rp C t True of
                   None \<Rightarrow>
                     Raise DataError
                       (d\<lparr>status := (6, ''Cannot create tag {0} request packet. read_tag will not be executed.'')\<rparr>)
                 | Some rp \<Rightarrow>
                    (case pack_uint 1 of
                       Inl e \<Rightarrow> Raise e d
                     | Inr one \<Rightarrow>
                         read_tag_multi_loop C ts tag_bits' (tags_read @ [t])
                           (rp_list @ [[TAG_SERVICES_REQUEST C ''Read Tag''] @ rp @ one]) d))
              else read_tag_multi_loop C ts tag_bits' tags_read rp_list d))"

definition read_tag_message :: "extern \<Rightarrow> int \<Rightarrow> bytes \<Rightarrow> error + bytes list" where
  "read_tag_message C seq rp =
     sum_bind (pack_uint seq) (\<lambda>s.
     sum_bind (bytes1 (int (length rp) div 2)) (\<lambda>n.
     sum_bind (pack_uint 1) (\<lambda>one.
     Inr [s, [TAG_SERVICES_REQUEST C ''Read Tag''], n, rp, one])))"

text \<open>The end of a single read, from \<^verbatim>\<open>if self._status[0] == SUCCESS\<close> on.\<close>

definition read_tag_value :: "extern \<Rightarrow> int option \<Rightarrow> driver \<Rightarrow> (read_tag_result, driver) outcome" where
  "read_tag_value C b d =
     (if fst (status d) = 0 then
        then_do (lift_sum (sum_bind (reply_slice d 50 52) unpack_uint) d) (\<lambda>dtype d.
        case I_DATA_TYPE C dtype of
          None \<Rightarrow> Raise KeyError d
        | Some typ \<Rightarrow>
           as_DataError (
             case UNPACK_DATA_FUNCTION C typ of
               None \<Rightarrow> Raise KeyError d
             | Some unpack \<Rightarrow>
                then_do (lift_sum (sum_bind (reply_from d 52) unpack) d) (\<lambda>v d.
                case b of
                  None \<Rightarrow> Return (RT_Value (Some v) typ) d
                | Some n \<Rightarrow>
                   then_do (lift_sum (bit_value C typ v n) d) (\<lambda>val d.
                   Return (RT_Value val typ) d))))
      else Return RT_None d)"

fun read_tag :: "extern \<Rightarrow> tag_arg \<Rightarrow> world \<Rightarrow> (read_tag_result, world) outcome" where
  "read_tag C tag (d0, w0) =
     then_do (session_gate 6 ''Target did not connected. read_tag will not be executed.'' (clear d0, w0))
       (\<lambda>_ (d, w).
     case tag of
       Multi ts \<Rightarrow>
         then_do (on_driver (read_tag_multi_loop C ts [] [] [] d) w)
           (\<lambda>(tag_bits, tags_read, rp_list) (d, w).
         case get_sequence w of
           (seq, w) \<Rightarrow>
             then_do (send_request C (build_multiple_service C rp_list seq) (d, w)) (\<lambda>ret (d, w).
             if ret = None then Raise DataError (d, w)
             else on_driver
                    (then_do (parse_multiple_request_read C tags_read tag_bits d)
                       (\<lambda>l d. Return (RT_List l) d)) w))
     | Single t0 \<Rightarrow>
        (case prep_bools C t0 ''BOOL'' True of
           (t, b) \<Rightarrow>
            (case create_tag_rp C t False of
               None \<Rightarrow>
                 Return RT_None
                   (d\<lparr>status := (6, ''Cannot create tag {0} request packet. read_tag will not be executed.'')\<rparr>, w)
             | Some rp \<Rightarrow>
                (case get_sequence w of
                   (seq, w) \<Rightarrow>
                     then_do (lift_sum (read_tag_message C seq rp) (d, w)) (\<lambda>message_request (d, w).
                     then_do (send_request C message_request (d, w)) (\<lambda>ret (d, w).
                     if ret = None then Raise DataError (d, w)
                     else on_driver (read_tag_value C b d) w))))))"

subsection \<open>\<^verbatim>\<open>read_array\<close>\<close>

text \<open>\<^verbatim>\<open>struct.pack\<close> of an integer format takes an \<^verbatim>\<open>int\<close> (a \<^verbatim>\<open>bool\<close> is one) and refuses a float.\<close>

definition pack_uint_val :: "pyval \<Rightarrow> error + bytes" where
  "pack_uint_val v =
     (case v of
        PInt i \<Rightarrow> pack_uint i
      | PBool t \<Rightarrow> pack_uint (if t then 1 else 0)
      | PFloat f \<Rightarrow> Inl StructError)"

definition read_array_message :: "extern \<Rightarrow> int \<Rightarrow> bytes \<Rightarrow> pyval \<Rightarrow> int \<Rightarrow> error + bytes list" where
  "read_array_message C seq rp counts offset =
     sum_bind (pack_uint seq) (\<lambda>s.
     sum_bind (bytes1 (int (length rp) div 2)) (\<lambda>n.
     sum_bind (pack_uint_val counts) (\<lambda>c.
     sum_bind (pack_dint offset) (\<lambda>off.
     Inr [s, [TAG_SERVICES_REQUEST C ''Read Tag Fragmented''], n, rp, c, off]))))"

text \<open>\<^verbatim>\<open>while self._byte_offset != -1\<close>: each turn sends one request.\<close>

function read_array_loop :: "extern \<Rightarrow> string \<Rightarrow> pyval \<Rightarrow> world \<Rightarrow> (tag_list_t option, world) outcome" where
  "read_array_loop C tag counts (d, w) =
     (if byte_offset d \<noteq> - 1 then
        (case create_tag_rp C tag False of
           None \<Rightarrow>
             Return None
               (d\<lparr>status := (7, ''Cannot create tag {0} request packet. read_tag will not be executed.'')\<rparr>, w)
         | Some rp \<Rightarrow>
            (case get_sequence w of
               (seq, w1) \<Rightarrow>
                (case read_array_message C seq rp counts (byte_offset d) of
                   Inl e \<Rightarrow> Raise e (d, w1)
                 | Inr message_request \<Rightarrow>
                    (case send_request C message_request (d, w1) of
                       Raise e s \<Rightarrow> Raise e s
                     | Return ret (d', w') \<Rightarrow>
                         if ret = None then Raise DataError (d', w')
                         else read_array_loop C tag counts (d', w')))))
      else Return (Some (tag_list d)) (d, w))"
  by pat_completeness auto
termination
  by (relation "measure (\<lambda>(C, tag, counts, d, w). length (replies w))")
     (auto simp: get_sequence_def Let_def split: list.splits outcome.splits)

declare read_array_loop.simps [simp del]

fun read_array :: "extern \<Rightarrow> string \<Rightarrow> pyval \<Rightarrow> bool \<Rightarrow> world \<Rightarrow> (tag_list_t option, world) outcome" where
  "read_array C tag counts raw (d0, w0) =
     then_do (session_gate 7 ''Target did not connected. read_tag will not be executed.'' (clear d0, w0))
       (\<lambda>_ (d, w).
     read_array_loop C tag counts
       (d\<lparr>byte_offset := 0, last_position := 0, output_raw := raw,
          tag_list := (if raw then Str [] else Lst [])\<rparr>, w))"

section \<open>The symbol catalogue and the templates\<close>

subsection \<open>\<^verbatim>\<open>_get_instance_attribute_list_service\<close>\<close>







subsection \<open>\<^verbatim>\<open>_get_structure_makeup\<close>\<close>

definition structure_makeup_message :: "extern \<Rightarrow> int \<Rightarrow> int \<Rightarrow> error + bytes list" where
  "structure_makeup_message C seq inst =
     sum_bind (pack_uint seq) (\<lambda>s.
     sum_bind (bytes1 3) (\<lambda>three.
     sum_bind (pack_uint inst) (\<lambda>i.
     sum_bind (pack_uint 4) (\<lambda>p4.
     sum_bind (pack_uint 5) (\<lambda>p5.
     sum_bind (pack_uint 2) (\<lambda>p2.
     sum_bind (pack_uint 1) (\<lambda>p1.
     Inr [s, [TAG_SERVICES_REQUEST C ''Get Attributes''], three,
          CLASS_ID C ''8-bit'', CLASS_CODE C ''Template Object'', INSTANCE_ID C ''16-bit'', [0],
          i, p4, p4, p5, p2, p1])))))))"

fun get_structure_makeup :: "extern \<Rightarrow> int \<Rightarrow> world \<Rightarrow> (buffer_t, world) outcome" where
  "get_structure_makeup C inst (d0, w0) =
     (case map_of (struct_cache d0) inst of
        Some cached \<Rightarrow> Return cached (d0, w0)
      | None \<Rightarrow>
         then_do (session_gate 10 ''Target did not connected. get_tag_list will not be executed.'' (d0, w0))
           (\<lambda>_ (d, w).
         case get_sequence w of
           (seq, w) \<Rightarrow>
             then_do (lift_sum (structure_makeup_message C seq inst) (d, w)) (\<lambda>message_request (d, w).
             then_do (send_request C message_request (d, w)) (\<lambda>ret (d, w).
             if ret = None then Raise DataError (d, w)
             else Return (buffer d)
                    (d\<lparr>struct_cache := AList.update inst (buffer d) (struct_cache d)\<rparr>, w)))))"

subsection \<open>\<^verbatim>\<open>_read_template\<close>\<close>

definition read_template_message :: "extern \<Rightarrow> int \<Rightarrow> int \<Rightarrow> int \<Rightarrow> int \<Rightarrow> error + bytes list" where
  "read_template_message C seq inst object_definition_size offset =
     sum_bind (pack_uint seq) (\<lambda>s.
     sum_bind (bytes1 3) (\<lambda>three.
     sum_bind (pack_uint inst) (\<lambda>i.
     sum_bind (pack_dint offset) (\<lambda>off.
     sum_bind (pack_uint (((object_definition_size * 4) - 21) - offset)) (\<lambda>n.
     Inr [s, [TAG_SERVICES_REQUEST C ''Read Template''], three,
          CLASS_ID C ''8-bit'', CLASS_CODE C ''Template Object'', INSTANCE_ID C ''16-bit'', [0],
          i, off, n])))))"

text \<open>
  \<^verbatim>\<open>while self._get_template_in_progress\<close>; \<^verbatim>\<open>if not self.send_unit_data(...)\<close> is true
  of \<^verbatim>\<open>None\<close> and of empty bytes.
\<close>

function read_template_loop :: "extern \<Rightarrow> int \<Rightarrow> int \<Rightarrow> world \<Rightarrow> (unit, world) outcome" where
  "read_template_loop C inst object_definition_size (d, w) =
     (if get_template_in_progress d then
        (case get_sequence w of
           (seq, w1) \<Rightarrow>
            (case read_template_message C seq inst object_definition_size (byte_offset d) of
               Inl e \<Rightarrow> Raise e (d, w1)
             | Inr message_request \<Rightarrow>
                (case send_request C message_request (d, w1) of
                   Raise e s \<Rightarrow> Raise e s
                 | Return ret (d', w') \<Rightarrow>
                     if ret = None \<or> ret = Some [] then Raise DataError (d', w')
                     else read_template_loop C inst object_definition_size (d', w'))))
      else Return () (d, w))"
  by pat_completeness auto
termination
  by (relation "measure (\<lambda>(C, inst, ods, d, w). length (replies w))")
     (auto simp: get_sequence_def Let_def split: list.splits outcome.splits)

declare read_template_loop.simps [simp del]

fun read_template :: "extern \<Rightarrow> int \<Rightarrow> int \<Rightarrow> world \<Rightarrow> (buffer_t, world) outcome" where
  "read_template C inst object_definition_size (d0, w0) =
     then_do (session_gate 10 ''Target did not connected. get_tag_list will not be executed.'' (d0, w0))
       (\<lambda>_ (d, w).
     case map_of (template_cache d) inst of
       Some cached \<Rightarrow> Return cached (d, w)
     | None \<Rightarrow>
        as_DataError (
          then_do (read_template_loop C inst object_definition_size
                     (d\<lparr>byte_offset := 0, buffer := Buf_bytes [], get_template_in_progress := True\<rparr>, w))
            (\<lambda>_ (d, w).
          Return (buffer d)
            (d\<lparr>get_template_in_progress := False,
               template_cache := AList.update inst (buffer d) (template_cache d)\<rparr>, w))))"

subsection \<open>\<^verbatim>\<open>_isolating_user_tag\<close>\<close>

text \<open>
  The body of \<^verbatim>\<open>for tag in lst\<close> on one entry: the entry is skipped (\<^verbatim>\<open>continue\<close>),
  its name goes to \<^verbatim>\<open>_program_names\<close>, or a tag is appended to \<^verbatim>\<open>_tag_list\<close>.
\<close>

datatype isolated = Skipped | Program_name string | Emitted tag_entry

definition isolate_entry :: "extern \<Rightarrow> symbol_entry \<Rightarrow> error + isolated" where
  "isolate_entry C tag =
     (case bytes_decode C (sym_tag_name tag) of
        None \<Rightarrow> Inl UnicodeDecodeError
      | Some name \<Rightarrow>
         if contains ''Program:'' name then Inr (Program_name name)
         else if CHR '':'' \<in> set name \<or> contains ''__'' name then Inr Skipped
         else if symbol_type tag AND 0b0001000000000000 \<noteq> 0 then Inr Skipped
         else
           (let dimension = drop_bit 13 (symbol_type tag AND 0b0110000000000000) in
            if symbol_type tag AND 0b1000000000000000 \<noteq> 0 then
              Inr (Emitted
                \<lparr>instance_id = sym_instance_id tag,
                 template_instance_id = Some (symbol_type tag AND 0b0000111111111111),
                 tag_name = name, dim = dimension, tag_type = ''struct'',
                 data_type = ''user-created'', bit_position = None\<rparr>)
            else
              (let datatype = symbol_type tag AND 0b0000000011111111 in
               case I_DATA_TYPE C datatype of
                 None \<Rightarrow> Inl KeyError
               | Some dt \<Rightarrow>
                  (case S_DATA_TYPE C ''BOOL'' of
                     None \<Rightarrow> Inl KeyError
                   | Some bool_code \<Rightarrow>
                      if datatype = bool_code then
                        Inr (Emitted
                          \<lparr>instance_id = sym_instance_id tag, template_instance_id = None,
                           tag_name = name, dim = dimension, tag_type = ''atomic'',
                           data_type = dt,
                           bit_position = Some (drop_bit 8 (symbol_type tag AND 0b0000011100000000))\<rparr>)
                      else
                        Inr (Emitted
                          \<lparr>instance_id = sym_instance_id tag, template_instance_id = None,
                           tag_name = name, dim = dimension, tag_type = ''atomic'',
                           data_type = dt, bit_position = None\<rparr>)))))"

text \<open>
  An item of the old list that is not a dictionary with a bytes \<^verbatim>\<open>tag_name\<close> makes
  \<^verbatim>\<open>tag['tag_name'].decode()\<close> raise. \<open>out\<close> is the new \<^verbatim>\<open>_tag_list\<close>, which starts empty.
\<close>

fun isolating_user_tag_loop ::
  "extern \<Rightarrow> tl_item list \<Rightarrow> tl_item list \<Rightarrow> driver \<Rightarrow> (unit, driver) outcome" where
  "isolating_user_tag_loop C [] out d = Return () (d\<lparr>tag_list := Lst out\<rparr>)"
| "isolating_user_tag_loop C (item # lst) out d =
     (case item of
        Symbol_item tag \<Rightarrow>
          (case isolate_entry C tag of
             Inl e \<Rightarrow> Raise e (d\<lparr>tag_list := Lst out\<rparr>)
           | Inr Skipped \<Rightarrow> isolating_user_tag_loop C lst out d
           | Inr (Program_name name) \<Rightarrow>
               isolating_user_tag_loop C lst out (d\<lparr>program_names := program_names d @ [name]\<rparr>)
           | Inr (Emitted t) \<Rightarrow> isolating_user_tag_loop C lst (out @ [Tag_item t]) d)
      | Tag_item t \<Rightarrow> Raise AttributeError (d\<lparr>tag_list := Lst out\<rparr>)
      | Value_item pos v \<Rightarrow> Raise TypeError (d\<lparr>tag_list := Lst out\<rparr>)
      | Byte_item b \<Rightarrow> Raise TypeError (d\<lparr>tag_list := Lst out\<rparr>))"

text \<open>An entry that none of the three \<^verbatim>\<open>continue\<close> statements of the loop drops.\<close>

definition passes_filters :: "extern \<Rightarrow> symbol_entry \<Rightarrow> bool" where
  "passes_filters C tag =
     (case bytes_decode C (sym_tag_name tag) of
        None \<Rightarrow> False
      | Some name \<Rightarrow>
          \<not> contains ''Program:'' name
          \<and> \<not> (CHR '':'' \<in> set name \<or> contains ''__'' name)
          \<and> symbol_type tag AND 0b0001000000000000 = 0)"

text \<open>
  \<^verbatim>\<open>for tag in lst\<close> over a \<^verbatim>\<open>str\<close> takes its characters: \<^verbatim>\<open>tag['tag_name']\<close> on the
  first one raises \<^verbatim>\<open>TypeError\<close>; only the empty string passes, as the empty list does.
\<close>

definition isolating_user_tag :: "extern \<Rightarrow> driver \<Rightarrow> (unit, driver) outcome" where
  "isolating_user_tag C d =
     as_DataError
       (case tag_list d of
          Str s \<Rightarrow>
            if s = [] then Return () (d\<lparr>tag_list := Lst []\<rparr>)
            else Raise TypeError (d\<lparr>tag_list := Lst []\<rparr>)
        | Lst xs \<Rightarrow> isolating_user_tag_loop C xs [] d)"

section \<open>Writing\<close>

subsection \<open>\<^verbatim>\<open>_write_tag_multi_write\<close>\<close>

text \<open>
  The body of the \<^verbatim>\<open>try\<close> for one tuple: the sub-request and the name under which the
  tuple is reported.
\<close>

definition write_request ::
  "extern \<Rightarrow> string \<Rightarrow> int option \<Rightarrow> pyval \<Rightarrow> string \<Rightarrow> bytes \<Rightarrow> error + (bytes \<times> string)" where
  "write_request C name b v typ rp =
     (case b of
        Some n \<Rightarrow>
          (case create_tag_rp C name True of
             None \<Rightarrow> Inl TypeError
           | Some rp2 \<Rightarrow>
              sum_bind (make_write_bit_data n v (CHR ''['' \<in> set name)) (\<lambda>masks.
              sum_bind
                (if typ = ''BOOL'' \<and> CHR ''['' \<in> set name then dword_to_boolarray C name n
                 else Inr (name @ ''.'' @ py_str C n)) (\<lambda>name'.
              Inr ([TAG_SERVICES_REQUEST C ''Read Modify Write Tag''] @ rp2 @ concat masks, name'))))
      | None \<Rightarrow>
          (case S_DATA_TYPE C typ of
             None \<Rightarrow> Inl KeyError
           | Some code \<Rightarrow>
              sum_bind (pack_uint code) (\<lambda>c.
              (case PACK_DATA_FUNCTION C typ of
                 None \<Rightarrow> Inl KeyError
               | Some pack \<Rightarrow>
                  sum_bind (pack v) (\<lambda>data.
                  Inr ([TAG_SERVICES_REQUEST C ''Write Tag''] @ rp @ c @ [1, 0] @ data, name))))))"

text \<open>\<^verbatim>\<open>except (LookupError, struct.error)\<close>\<close>

definition lookup_or_struct_error :: "error \<Rightarrow> bool" where
  "lookup_or_struct_error e = (e = KeyError \<or> e = IndexError \<or> e = StructError)"

text \<open>
  The body of \<^verbatim>\<open>for name, value, typ in tags\<close> on one tuple: \<open>None\<close> when the request path
  cannot be built, else what the \<^verbatim>\<open>try\<close> gives, an exception or the sub-request with the
  tuple to report.
\<close>

definition frame_write_tuple :: "extern \<Rightarrow> write_tuple \<Rightarrow> (error + bytes \<times> write_tuple) option" where
  "frame_write_tuple C t =
     (case t of
        (name0, v, typ) \<Rightarrow>
          (case prep_bools C name0 typ False of
             (name, b) \<Rightarrow>
               (case create_tag_rp C name True of
                  None \<Rightarrow> None
                | Some rp \<Rightarrow>
                    Some (case write_request C name b v typ rp of
                            Inl e \<Rightarrow> Inl e
                          | Inr (request, name') \<Rightarrow> Inr (request, (name', v, typ))))))"

fun write_tag_multi_write_loop ::
  "extern \<Rightarrow> write_tuple list \<Rightarrow> bytes list \<Rightarrow> write_tuple list \<Rightarrow> driver
     \<Rightarrow> ((bytes list \<times> write_tuple list) option, driver) outcome" where
  "write_tag_multi_write_loop C [] rp_list tags_added d = Return (Some (rp_list, tags_added)) d"
| "write_tag_multi_write_loop C (t # tags) rp_list tags_added d =
     (case frame_write_tuple C t of
        None \<Rightarrow>
          Return None
            (d\<lparr>status := (8, ''Cannot create tag{0} req. packet. write_tag will not be executed'')\<rparr>)
      | Some (Inl e) \<Rightarrow>
          if lookup_or_struct_error e then
            write_tag_multi_write_loop C tags rp_list tags_added
              (d\<lparr>status := (8, ''Tag:{0} type:{1} removed from write list. Error:{2}.'')\<rparr>)
          else Raise e d
      | Some (Inr (request, added)) \<Rightarrow>
          write_tag_multi_write_loop C tags (rp_list @ [request]) (tags_added @ [added]) d)"

text \<open>The tuples of a batch that were framed, each with its sub-request, in order.\<close>

definition framed_tuples :: "extern \<Rightarrow> write_tuple list \<Rightarrow> (bytes \<times> write_tuple) list" where
  "framed_tuples C tags =
     List.map_filter (\<lambda>t. case frame_write_tuple C t of Some (Inr x) \<Rightarrow> Some x | _ \<Rightarrow> None) tags"

text \<open>A tuple whose path can be built and whose framing raises nothing but what the loop catches.\<close>

definition framed_or_dropped :: "extern \<Rightarrow> write_tuple \<Rightarrow> bool" where
  "framed_or_dropped C t =
     (case frame_write_tuple C t of
        None \<Rightarrow> False
      | Some (Inl e) \<Rightarrow> lookup_or_struct_error e
      | Some (Inr x) \<Rightarrow> True)"

fun write_tag_multi_write ::
  "extern \<Rightarrow> write_tuple list \<Rightarrow> world \<Rightarrow> ((bytes list \<times> write_tuple list) option, world) outcome" where
  "write_tag_multi_write C tags (d0, w0) =
     then_do (on_driver (write_tag_multi_write_loop C tags [] [] d0) w0) (\<lambda>r (d, w).
     case r of
       None \<Rightarrow> Return None (d, w)
     | Some (rp_list, tags_added) \<Rightarrow>
        (case get_sequence w of
           (seq, w) \<Rightarrow> Return (Some (build_multiple_service C rp_list seq, tags_added)) (d, w)))"

subsection \<open>\<^verbatim>\<open>_write_tag_single_write\<close>\<close>

fun write_tag_single_write ::
  "extern \<Rightarrow> string \<Rightarrow> pyval \<Rightarrow> string \<Rightarrow> world \<Rightarrow> (bytes list option, world) outcome" where
  "write_tag_single_write C tag v typ (d, w) =
     (case prep_bools C tag typ False of
        (name, b) \<Rightarrow>
          (case create_tag_rp C name False of
             None \<Rightarrow>
               Return None
                 (d\<lparr>status := (8, ''Cannot create tag {0} request packet. write_tag will not be executed.'')\<rparr>, w)
           | Some rp \<Rightarrow>
              (case get_sequence w of
                 (seq, w) \<Rightarrow>
                   then_do (lift_sum
                      (sum_bind (pack_uint seq) (\<lambda>s.
                       sum_bind (bytes1 (int (length rp) div 2)) (\<lambda>n.
                       Inr [s, [TAG_SERVICES_REQUEST C
                                  (if b \<noteq> None then ''Read Modify Write Tag'' else ''Write Tag'')],
                            n, rp]))) (d, w)) (\<lambda>message_request (d, w).
                   case b of
                     Some n \<Rightarrow>
                       as_DataError (lift_sum
                         (sum_bind (make_write_bit_data n v (CHR ''['' \<in> set name)) (\<lambda>masks.
                          Inr (Some (message_request @ masks)))) (d, w))
                   | None \<Rightarrow>
                       lift_sum
                         (case S_DATA_TYPE C typ of
                            None \<Rightarrow> Inl KeyError
                          | Some code \<Rightarrow>
                             sum_bind (pack_uint code) (\<lambda>c.
                             sum_bind (pack_uint 1) (\<lambda>one.
                             (case PACK_DATA_FUNCTION C typ of
                                None \<Rightarrow> Inl KeyError
                              | Some pack \<Rightarrow>
                                 sum_bind (pack v) (\<lambda>data.
                                 Inr (Some (message_request @ [c, one, data]))))))) (d, w)))))"

subsection \<open>\<^verbatim>\<open>write_tag\<close>\<close>

text \<open>
  A list of tuples is a multi write. \<^verbatim>\<open>message_request, tag = self._write_tag_multi_write(tag)\<close>
  and \<^verbatim>\<open>b''.join(message_request)\<close> raise \<^verbatim>\<open>TypeError\<close> on \<^verbatim>\<open>None\<close>.
\<close>

datatype write_arg = Write_single string pyval string | Write_multi "write_tuple list"

datatype write_result =
    WR_List "(string \<times> pyval \<times> string \<times> string) list"
  | WR_Reply bytes

fun write_tag :: "extern \<Rightarrow> write_arg \<Rightarrow> world \<Rightarrow> (write_result, world) outcome" where
  "write_tag C arg (d0, w0) =
     then_do (session_gate 8 ''Target did not connected. write_tag will not be executed.'' (clear d0, w0))
       (\<lambda>_ (d, w).
     case arg of
       Write_multi tags \<Rightarrow>
         then_do (write_tag_multi_write C tags (d, w)) (\<lambda>r (d, w).
         case r of
           None \<Rightarrow> Raise TypeError (d, w)
         | Some (message_request, tags_added) \<Rightarrow>
            then_do (send_request C message_request (d, w)) (\<lambda>ret_val (d, w).
            on_driver
              (then_do (parse_multiple_request_write tags_added d) (\<lambda>l d. Return (WR_List l) d)) w))
     | Write_single name v typ \<Rightarrow>
         then_do (write_tag_single_write C name v typ (d, w)) (\<lambda>r (d, w).
         case r of
           None \<Rightarrow> Raise TypeError (d, w)
         | Some message_request \<Rightarrow>
            then_do (send_request C message_request (d, w)) (\<lambda>ret_val (d, w).
            case ret_val of
              None \<Rightarrow> Raise DataError (d, w)
            | Some r \<Rightarrow> Return (WR_Reply r) (d, w))))"

section \<open>Strings: \<^verbatim>\<open>read_string\<close>\<close>





section \<open>A concrete target for evaluation\<close>

text \<open>
  Modelled from the spec: an instance of the tables and helpers of
  \<^verbatim>\<open>pycomm3/cip/cip_base.py\<close> (not among the sources), used only to run the model on
  concrete inputs; no general theorem mentions it. The request service codes are those of
  the spec (6 Wire constants, 4.3), a reply service is the request service with the top
  bit set, \<^verbatim>\<open>0xC4\<close> is \<^verbatim>\<open>DINT\<close> (scenario S1) and its neighbours follow the CIP
  numbering, the two encapsulation commands are \<^verbatim>\<open>0x6F\<close> and \<^verbatim>\<open>0x70\<close>, a request path is
  the symbolic segment \<^verbatim>\<open>0x91 len name pad\<close> of the spec (4.2), and the one tag whose path
  cannot be built is one whose subscript is beyond what an element segment can hold.
  \<^verbatim>\<open>int\<close> and \<^verbatim>\<open>str\<close> are decimal, and names are ASCII.
\<close>

definition parse_nat :: "string \<Rightarrow> nat option" where
  "parse_nat s =
     (if s \<noteq> [] \<and> list_all (\<lambda>c. 48 \<le> (of_char c :: nat) \<and> (of_char c :: nat) \<le> 57) s
      then Some (foldl (\<lambda>a c. 10 * a + (of_char c - 48)) 0 s) else None)"

definition example_int :: "string \<Rightarrow> int option" where
  "example_int s =
     (case s of
        [] \<Rightarrow> None
      | c # cs \<Rightarrow>
          if c = CHR ''-'' then map_option (\<lambda>n. - int n) (parse_nat cs)
          else map_option int (parse_nat s))"

fun show_nat :: "nat \<Rightarrow> nat \<Rightarrow> string" where
  "show_nat 0 n = []"
| "show_nat (Suc fuel) n =
     (if n < 10 then [char_of (48 + n)] else show_nat fuel (n div 10) @ [char_of (48 + n mod 10)])"

definition example_str :: "int \<Rightarrow> string" where
  "example_str i = (if i < 0 then CHR ''-'' # show_nat (Suc (nat (- i))) (nat (- i))
                    else show_nat (Suc (nat i)) (nat i))"

definition example_rp :: "string \<Rightarrow> bool \<Rightarrow> bytes option" where
  "example_rp tag multi_requests =
     (if contains ''[68719476736]'' tag then None
      else
        (let rp = [0x91, of_nat (length tag)] @ map of_char tag
                    @ (if length tag mod 2 \<noteq> 0 then [0] else [])
         in Some (if multi_requests then of_nat (length rp div 2) # rp else rp)))"

definition example_unpack :: "nat \<Rightarrow> bytes \<Rightarrow> error + pyval" where
  "example_unpack n st =
     (if length st < n then Inl StructError
      else let u = int (le_val (take n st))
           in Inr (PInt (if u < 2 ^ (8 * n - 1) then u else u - 2 ^ (8 * n))))"

definition example_pack :: "nat \<Rightarrow> pyval \<Rightarrow> error + bytes" where
  "example_pack n v =
     (case v of
        PInt i \<Rightarrow>
          if - (2 ^ (8 * n - 1)) \<le> i \<and> i < 2 ^ (8 * n - 1) then Inr (le_bytes n (i mod 2 ^ (8 * n)))
          else Inl StructError
      | PBool t \<Rightarrow> Inr (le_bytes n (if t then 1 else 0))
      | PFloat f \<Rightarrow> Inl StructError)"

definition example_extern :: extern where
  "example_extern =
     \<lparr>I_DATA_TYPE = map_of [(0xC1, ''BOOL''), (0xC2, ''SINT''), (0xC3, ''INT''), (0xC4, ''DINT'')],
      S_DATA_TYPE = map_of [(''BOOL'', 0xC1), (''SINT'', 0xC2), (''INT'', 0xC3), (''DINT'', 0xC4)],
      DATA_FUNCTION_SIZE = map_of [(''SINT'', 1), (''INT'', 2), (''DINT'', 4)],
      UNPACK_DATA_FUNCTION =
        map_of [(''SINT'', example_unpack 1), (''INT'', example_unpack 2), (''DINT'', example_unpack 4)],
      PACK_DATA_FUNCTION =
        map_of [(''SINT'', example_pack 1), (''INT'', example_pack 2), (''DINT'', example_pack 4)],
      BITS_PER_INT_TYPE = map_of [(''SINT'', 8), (''INT'', 16), (''DINT'', 32)],
      SERVICE_STATUS = map_of [(0, ''Success''), (4, ''Path segment error''), (6, ''Partial transfer'')],
      REPLAY_INFO = map_of [(0x6F, ''send_rr_data''), (0x70, ''send_unit_data'')],
      ENCAPSULATION_COMMAND = (\<lambda>k. if k = ''send_rr_data'' then [0x6F, 0] else [0x70, 0]),
      I_TAG_SERVICES_REPLY =
        (\<lambda>k. if k = ''Read Tag Fragmented'' then 0xD2
             else if k = ''Get Instance Attributes List'' then 0xD5
             else if k = ''Get Attributes'' then 0x83
             else if k = ''Read Template'' then 0xCB
             else 0xCC),
      TAG_SERVICES_REQUEST =
        (\<lambda>k. if k = ''Read Tag'' then 0x4C
             else if k = ''Read Tag Fragmented'' then 0x52
             else if k = ''Write Tag'' then 0x4D
             else if k = ''Write Tag Fragmented'' then 0x53
             else if k = ''Read Modify Write Tag'' then 0x4E
             else if k = ''Get Instance Attributes List'' then 0x55
             else if k = ''Get Attributes'' then 0x03
             else 0x4B),
      CLASS_ID = (\<lambda>k. [0x20]),
      CLASS_CODE = (\<lambda>k. if k = ''Symbol Object'' then [0x6B] else [0x6C]),
      INSTANCE_ID = (\<lambda>k. [0x25]),
      EXTENDED_SYMBOL = [0x91],
      get_extended_status = (\<lambda>r n. Inr []),
      create_tag_rp = example_rp,
      build_multiple_service = (\<lambda>rp_list seq. le_bytes 2 seq # le_bytes 2 (int (length rp_list)) # rp_list),
      build_common_packet_format = (\<lambda>message cid. cid @ message),
      py_int = example_int,
      py_str = example_str,
      bytes_decode = (\<lambda>bs. if list_all (\<lambda>b. b < 0x80) bs then Some (map (\<lambda>b. char_of (unat b)) bs) else None),
      str_encode = map of_char\<rparr>"

text \<open>
  A reply as \<^verbatim>\<open>_check_reply\<close> reads it: the command \<^verbatim>\<open>send_unit_data\<close> at offset 0,
  encapsulation status 0 at offset 8, the reply service at offset 46, the general status
  at offset 48 and the payload from offset 50.
\<close>

definition unit_data_reply :: "byte \<Rightarrow> byte \<Rightarrow> bytes \<Rightarrow> bytes" where
  "unit_data_reply service st payload = [0x70, 0] @ replicate 44 0 @ [service, 0, st, 0] @ payload"

definition fresh_driver :: driver where
  "fresh_driver =
     \<lparr>reply = None, status = (0, []), more_packets_available = False,
      target_is_connected = True, target_cid = [], buffer = Buf_dict [],
      get_template_in_progress = False, struct_cache = [], template_cache = [],
      program_names = [], tag_list = Lst [], last_instance = 0, byte_offset = 0,
      last_position = 0, output_raw = False, last_tag_read = None, last_tag_write = None\<rparr>"

definition target :: "bytes option list \<Rightarrow> net" where
  "target rs = \<lparr>replies = rs, opens = [], sent = [], sequence = 0\<rparr>"

text \<open>
  Four entries as \<^verbatim>\<open>_parse_instance_attribute_list\<close> leaves them: a structure with
  template 0x123, a BOOL at bit 3, a system tag (bit 12) and a one-dimensional DINT array.
\<close>

definition example_symbols :: "symbol_entry list" where
  "example_symbols =
     [\<lparr>sym_instance_id = 1, sym_tag_name = [0x41], symbol_type = 0x8123\<rparr>,
      \<lparr>sym_instance_id = 2, sym_tag_name = [0x42], symbol_type = 0x03C1\<rparr>,
      \<lparr>sym_instance_id = 3, sym_tag_name = [0x43], symbol_type = 0x10C4\<rparr>,
      \<lparr>sym_instance_id = 4, sym_tag_name = [0x44], symbol_type = 0x20C4\<rparr>]"

definition example_tags :: "tag_entry list" where
  "example_tags =
     [\<lparr>instance_id = 1, template_instance_id = Some 0x123, tag_name = ''A'', dim = 0,
       tag_type = ''struct'', data_type = ''user-created'', bit_position = None\<rparr>,
      \<lparr>instance_id = 2, template_instance_id = None, tag_name = ''B'', dim = 0,
       tag_type = ''atomic'', data_type = ''BOOL'', bit_position = Some 3\<rparr>,
      \<lparr>instance_id = 4, template_instance_id = None, tag_name = ''D'', dim = 1,
       tag_type = ''atomic'', data_type = ''DINT'', bit_position = None\<rparr>]"

text \<open>
  Two replies to a Multiple Service Packet: one sub-response (a DINT of value 6), and three
  sub-responses of which the second has general status 0x04.
\<close>

definition example_multi_reply_1 :: bytes where
  "example_multi_reply_1 =
     unit_data_reply 0x8A 0 [1, 0, 4, 0, 0xCC, 0, 0, 0, 0xC4, 0, 6, 0, 0, 0]"

definition example_multi_reply_3 :: bytes where
  "example_multi_reply_3 =
     unit_data_reply 0x8A 0
       [3, 0, 8, 0, 18, 0, 22, 0,
        0xCC, 0, 0, 0, 0xC4, 0, 6, 0, 0, 0,
        0xCC, 0, 4, 0,
        0xCC, 0, 0, 0, 0xC3, 0, 7, 0]"


definition array_driver :: driver where
  "array_driver =
     fresh_driver\<lparr>status := (0, []), byte_offset := 0, last_position := 0, output_raw := False,
                   tag_list := Lst []\<rparr>"

text \<open>
  A Get Attributes reply for a structure of definition size 30, structure size 8, two
  members and handle 0x123, and a Read Template reply that ends the transfer.
\<close>

definition example_makeup_reply :: bytes where
  "example_makeup_reply =
     unit_data_reply 0x83 0
       [4, 0, 4, 0, 0, 0, 30, 0, 0, 0,
        5, 0, 0, 0, 8, 0, 0, 0,
        2, 0, 0, 0, 2, 0,
        1, 0, 0, 0, 0x23, 0x01]"

definition example_template_reply :: bytes where
  "example_template_reply = unit_data_reply 0xCB 0 [1, 2, 3, 4]"




definition example_page_empty :: bytes where
  "example_page_empty = unit_data_reply 0xD5 6 []"

text \<open>
  Replies to a fragmented read of DINT elements: a first fragment (general status 0x06),
  a last fragment (general status 0), and a reply of general status 0x04 with no element.
  Then a first part of a template (general status 0x06).
\<close>

definition example_fragment_1 :: bytes where
  "example_fragment_1 = unit_data_reply 0xD2 6 [0xC4, 0, 1, 0, 0, 0]"

definition example_fragment_2 :: bytes where
  "example_fragment_2 = unit_data_reply 0xD2 0 [0xC4, 0, 2, 0, 0, 0]"

definition example_fragment_error :: bytes where
  "example_fragment_error = unit_data_reply 0xD2 4 [0xC4, 0]"

definition example_template_part :: bytes where
  "example_template_part = unit_data_reply 0xCB 6 [1, 2]"

section \<open>Properties of the codec\<close>

lemma le_val_le_bytes: "int (le_val (le_bytes n k)) = take_bit (8 * n) k"
proof (induction n arbitrary: k)
  case 0
  then show ?case by simp
next
  case (Suc n)
  have "int (le_val (le_bytes (Suc n) k))
          = int (unat (word_of_int k :: byte)) + 256 * take_bit (8 * n) (k div 256)"
    using Suc by simp
  also have "int (unat (word_of_int k :: byte)) = k mod 256"
    by (simp add: unsigned_of_int take_bit_eq_mod)
  also have "k mod 256 + 256 * take_bit (8 * n) (k div 256) = take_bit (8 * Suc n) k"
  proof -
    have "(2::int) ^ (8 * Suc n) = 256 * 2 ^ (8 * n)" by (simp add: power_add)
    moreover have "k mod (256 * 2 ^ (8 * n)) = 256 * (k div 256 mod 2 ^ (8 * n)) + k mod 256"
      by (rule zmod_zmult2_eq) simp
    ultimately show ?thesis
      by (simp add: take_bit_eq_mod)
  qed
  finally show ?case .
qed

lemma take_le_bytes: "m \<le> n \<Longrightarrow> take m (le_bytes n k) = le_bytes m k"
proof (induction m arbitrary: n k)
  case 0
  then show ?case by simp
next
  case (Suc m)
  then obtain n' where "n = Suc n'" by (cases n) auto
  with Suc show ?case by simp
qed

lemma length_le_bytes: "length (le_bytes n k) = n"
  by (induction n arbitrary: k) auto

lemma pack_udint_take:
  assumes "0 \<le> k" "k < 2 ^ 32" "m \<le> 4"
  shows "\<exists>bs. pack_udint k = Inr bs \<and> length (take m bs) = m
           \<and> int (le_val (take m bs)) = take_bit (8 * m) k"
  using assms by (simp add: pack_udint_def take_le_bytes length_le_bytes le_val_le_bytes)

lemma and_mask_range:
  "0 \<le> (0xFFFFFFFF :: int) AND NOT m" "(0xFFFFFFFF :: int) AND NOT m < 2 ^ 32"
proof -
  have "(0xFFFFFFFF :: int) = mask 32" by (simp add: mask_eq_exp_minus_1)
  then have e: "(0xFFFFFFFF :: int) AND NOT m = take_bit 32 (NOT m)"
    by (simp add: take_bit_eq_mask and.commute)
  show "0 \<le> (0xFFFFFFFF :: int) AND NOT m" unfolding e by simp
  show "(0xFFFFFFFF :: int) AND NOT m < 2 ^ 32"
    unfolding e using take_bit_int_less_exp [of 32 "NOT m"] by simp
qed

lemma bit_and_mask:
  "bit ((0xFFFFFFFF :: int) AND NOT m) i \<longleftrightarrow> i < 32 \<and> \<not> bit m i"
proof -
  have "(0xFFFFFFFF :: int) = mask 32" by (simp add: mask_eq_exp_minus_1)
  then have "bit ((0xFFFFFFFF :: int) AND NOT m) i = bit (mask 32 AND NOT m) i" by simp
  also have "\<dots> \<longleftrightarrow> i < 32 \<and> \<not> bit m i" by (simp add: bit_simps)
  finally show ?thesis .
qed

section \<open>Bit writes\<close>

text \<open>
  C4. For a bit write of bit \<open>b\<close> (a bit number, so \<open>0 \<le> b\<close>) with value \<open>v\<close>: on an
  element of a BOOL array the mask size is 4 and the bit is \<open>b mod 32\<close>; otherwise the mask
  size is 1 below 8, 2 below 16 and 4 from 16 on. The three byte strings emitted are the
  mask size as a 16-bit integer, the OR mask and the AND mask, both of mask-size bytes.
  Read as little-endian numbers, the OR mask is \<open>1 << b\<close> when \<open>v\<close> is true and 0
  otherwise, and the AND mask has exactly the bits below \<open>8 * mask_size\<close> set, except bit
  \<open>b\<close> when \<open>v\<close> is false. The one input on which nothing is emitted is a true value for
  a bit from 32 on outside an array: \<open>1 << b\<close> does not fit \<^verbatim>\<open>pack_udint\<close>.
\<close>

theorem make_write_bit_data_masks:
  fixes b :: int
  assumes "0 \<le> b"
  shows "let ms = (if bool_ary then 4 else if b < 8 then 1 else if b < 16 then 2 else 4 :: nat);
             b' = nat (if bool_ary then b mod 32 else b)
         in if truthy v \<and> 32 \<le> b' then make_write_bit_data b v bool_ary = Inl StructError
            else \<exists>sz om am. make_write_bit_data b v bool_ary = Inr [sz, om, am]
               \<and> unpack_uint sz = Inr (int ms)
               \<and> length om = ms \<and> length am = ms
               \<and> int (le_val om) = (if truthy v then 2 ^ b' else 0)
               \<and> (\<forall>i. bit (int (le_val am)) i \<longleftrightarrow> i < 8 * ms \<and> (truthy v \<or> i \<noteq> b'))"
proof -
  define ms :: nat where "ms = (if bool_ary then 4 else if b < 8 then 1 else if b < 16 then 2 else 4)"
  define b' where "b' = (if bool_ary then b mod 32 else b)"
  have b'0: "0 \<le> b'" using assms by (simp add: b'_def)
  have ms4: "ms \<le> 4" by (simp add: ms_def)
  have msz: "(if bool_ary then 4 else if b < 8 then 1 else if b < 16 then 2 else 4 :: int) = int ms"
    by (simp add: ms_def)
  have sz: "pack_uint (int ms) = Inr (le_bytes 2 (int ms))"
           "unpack_uint (le_bytes 2 (int ms)) = Inr (int ms)"
    using ms4 by (simp_all add: pack_uint_def unpack_uint_def length_le_bytes le_val_le_bytes
        take_bit_eq_mod ms_def)
  have shl: "shl1 b' = Inr (2 ^ nat b')" using b'0 by (simp add: shl1_def)
  have small: "b' < 32 \<Longrightarrow> nat b' < 8 * ms"
    using assms by (auto simp: b'_def ms_def)
  show ?thesis
  proof (cases "truthy v")
    case True
    show ?thesis
    proof (cases "32 \<le> nat b'")
      case big: True
      then have "(2::int) ^ 32 \<le> 2 ^ nat b'" by (intro power_increasing) auto
      then have "pack_udint (2 ^ nat b') = Inl StructError" by (simp add: pack_udint_def)
      with True big shl sz show ?thesis
        by (simp add: make_write_bit_data_def Let_def b'_def [symmetric] msz)
    next
      case False
      then have lt: "nat b' < 32" by simp
      then have r: "(2::int) ^ nat b' < 2 ^ 32" by (intro power_strict_increasing) auto
      obtain om where om: "pack_udint (2 ^ nat b') = Inr om" "length (take ms om) = ms"
          "int (le_val (take ms om)) = take_bit (8 * ms) (2 ^ nat b')"
        using pack_udint_take [of "2 ^ nat b'" ms] r ms4 by auto
      obtain am where am: "pack_udint 0xFFFFFFFF = Inr am" "length (take ms am) = ms"
          "int (le_val (take ms am)) = take_bit (8 * ms) 0xFFFFFFFF"
        using pack_udint_take [of "0xFFFFFFFF" ms] ms4 by auto
      have o: "take_bit (8 * ms) ((2::int) ^ nat b') = 2 ^ nat b'"
        using small lt b'0 by (simp add: take_bit_int_eq_self_iff)
      have a: "bit (take_bit (8 * ms) (0xFFFFFFFF::int)) i \<longleftrightarrow> i < 8 * ms" for i
        using bit_and_mask [of 0 i] ms4 by (auto simp: bit_simps)
      from True False shl sz om am o a show ?thesis
        by (simp add: make_write_bit_data_def Let_def b'_def [symmetric] msz ms_def [symmetric])
    qed
  next
    case False
    obtain om where om: "pack_udint 0 = Inr om" "length (take ms om) = ms"
        "int (le_val (take ms om)) = take_bit (8 * ms) 0"
      using pack_udint_take [of 0 ms] ms4 by auto
    obtain am where am: "pack_udint (0xFFFFFFFF AND NOT (2 ^ nat b')) = Inr am"
        "length (take ms am) = ms"
        "int (le_val (take ms am)) = take_bit (8 * ms) (0xFFFFFFFF AND NOT (2 ^ nat b'))"
      using pack_udint_take [of "0xFFFFFFFF AND NOT (2 ^ nat b')" ms] ms4
        and_mask_range [of "2 ^ nat b'"]
      by auto
    have a: "bit (take_bit (8 * ms) ((0xFFFFFFFF::int) AND NOT (2 ^ nat b'))) i
               \<longleftrightarrow> i < 8 * ms \<and> i \<noteq> nat b'" for i
      using bit_and_mask [of "2 ^ nat b'" i] ms4 by (auto simp: bit_simps)
    from False shl sz om am a show ?thesis
      by (simp add: make_write_bit_data_def Let_def b'_def [symmetric] msz ms_def [symmetric])
  qed
qed

theorem make_write_bit_data_masks_witness:
  "(0::int) \<le> 12 \<and> (\<exists>sz om am. make_write_bit_data 12 (PBool False) False = Inr [sz, om, am]
      \<and> unpack_uint sz = Inr 2 \<and> length om = 2 \<and> length am = 2 \<and> int (le_val om) = 0
      \<and> (\<forall>i. bit (int (le_val am)) i \<longleftrightarrow> i < 16 \<and> i \<noteq> 12))"
  using make_write_bit_data_masks [of 12 False "PBool False"] by simp

section \<open>Isolating user tags\<close>

lemma bit_position_shift: "drop_bit 8 ((S::int) AND 0b0000011100000000) = drop_bit 8 S AND 0b111"
proof -
  have "(0b0000011100000000 :: int) = push_bit 8 7" by simp
  then have "drop_bit 8 (S AND 0b0000011100000000) = drop_bit 8 (S AND push_bit 8 7)" by simp
  also have "\<dots> = drop_bit 8 S AND 7" by (simp add: drop_bit_and)
  finally show ?thesis by simp
qed

lemma isolate_entry_emitted:
  assumes "isolate_entry C e = Inr (Emitted t)"
  shows "passes_filters C e
       \<and> (if symbol_type e AND 0x8000 \<noteq> 0
          then tag_type t = ''struct'' \<and> template_instance_id t = Some (symbol_type e AND 0x0FFF)
          else tag_type t = ''atomic''
             \<and> I_DATA_TYPE C (symbol_type e AND 0xFF) = Some (data_type t)
             \<and> bit_position t =
                 (if S_DATA_TYPE C ''BOOL'' = Some (symbol_type e AND 0xFF)
                  then Some (drop_bit 8 (symbol_type e) AND 0b111) else None))"
  using assms
  by (auto simp: isolate_entry_def passes_filters_def Let_def bit_position_shift
           split: option.splits if_splits)

lemma isolate_entry_dropped:
  assumes "isolate_entry C e = Inr Skipped \<or> isolate_entry C e = Inr (Program_name n)"
  shows "\<not> passes_filters C e"
  using assms
  by (auto simp: isolate_entry_def passes_filters_def Let_def split: option.splits if_splits)

lemma isolating_user_tag_loop_result:
  assumes "isolating_user_tag_loop C items out d = Return () d'"
  shows "\<exists>es ts. items = map Symbol_item es \<and> tag_list d' = Lst (out @ map Tag_item ts)
          \<and> list_all2 (\<lambda>e t. isolate_entry C e = Inr (Emitted t)) (filter (passes_filters C) es) ts"
  using assms
proof (induction items arbitrary: out d)
  case Nil
  then show ?case by auto
next
  case (Cons item items)
  then obtain e where item: "item = Symbol_item e"
    by (cases item) auto
  from Cons.prems item obtain r where r: "isolate_entry C e = Inr r"
    by (cases "isolate_entry C e") auto
  show ?case
  proof (cases r)
    case Skipped
    with Cons.prems item r have "isolating_user_tag_loop C items out d = Return () d'" by simp
    from Cons.IH [OF this] obtain es ts where
      "items = map Symbol_item es" "tag_list d' = Lst (out @ map Tag_item ts)"
      "list_all2 (\<lambda>e t. isolate_entry C e = Inr (Emitted t)) (filter (passes_filters C) es) ts"
      by blast
    moreover have "\<not> passes_filters C e" using isolate_entry_dropped r Skipped by blast
    ultimately show ?thesis using item
      by (intro exI [of _ "e # es"] exI [of _ ts]) simp
  next
    case (Program_name n)
    with Cons.prems item r have
      "isolating_user_tag_loop C items out (d\<lparr>program_names := program_names d @ [n]\<rparr>) = Return () d'"
      by simp
    from Cons.IH [OF this] obtain es ts where
      "items = map Symbol_item es" "tag_list d' = Lst (out @ map Tag_item ts)"
      "list_all2 (\<lambda>e t. isolate_entry C e = Inr (Emitted t)) (filter (passes_filters C) es) ts"
      by blast
    moreover have "\<not> passes_filters C e" using isolate_entry_dropped r Program_name by blast
    ultimately show ?thesis using item
      by (intro exI [of _ "e # es"] exI [of _ ts]) simp
  next
    case (Emitted t)
    with Cons.prems item r have
      "isolating_user_tag_loop C items (out @ [Tag_item t]) d = Return () d'"
      by simp
    from Cons.IH [OF this] obtain es ts where
      "items = map Symbol_item es" "tag_list d' = Lst ((out @ [Tag_item t]) @ map Tag_item ts)"
      "list_all2 (\<lambda>e t. isolate_entry C e = Inr (Emitted t)) (filter (passes_filters C) es) ts"
      by blast
    moreover have "passes_filters C e" using isolate_entry_emitted r Emitted by blast
    ultimately show ?thesis using item r Emitted
      by (intro exI [of _ "e # es"] exI [of _ "t # ts"]) simp
  qed
qed

text \<open>
  C2. Whenever the isolation step returns, the old list held only symbol entries and the
  new list holds one tag for every entry that passes the three filters, in order. For such
  an entry with symbol type \<open>S\<close>: it is a struct exactly when \<open>S & 0x8000\<close> is non-zero;
  a struct has \<open>template_instance_id = S & 0x0FFF\<close>; an atomic entry has
  \<open>data_type = I_DATA_TYPE[S & 0xFF]\<close>, and \<open>bit_position = (S >> 8) & 0b111\<close> when
  \<open>S & 0xFF\<close> is the code of BOOL (no \<open>bit_position\<close> otherwise).
\<close>

theorem isolating_user_tag_classification:
  assumes "isolating_user_tag C d = Return () d'"
  shows "\<exists>es ts. (case tag_list d of Str s \<Rightarrow> [] | Lst xs \<Rightarrow> xs) = map Symbol_item es
          \<and> tag_list d' = Lst (map Tag_item ts)
          \<and> list_all2 (\<lambda>e t.
               if symbol_type e AND 0x8000 \<noteq> 0
               then tag_type t = ''struct'' \<and> template_instance_id t = Some (symbol_type e AND 0x0FFF)
               else tag_type t = ''atomic''
                  \<and> I_DATA_TYPE C (symbol_type e AND 0xFF) = Some (data_type t)
                  \<and> bit_position t =
                      (if S_DATA_TYPE C ''BOOL'' = Some (symbol_type e AND 0xFF)
                       then Some (drop_bit 8 (symbol_type e) AND 0b111) else None))
             (filter (passes_filters C) es) ts"
proof -
  from assms have "isolating_user_tag_loop C (case tag_list d of Str s \<Rightarrow> [] | Lst xs \<Rightarrow> xs) [] d
      = Return () d'"
    by (auto simp: isolating_user_tag_def as_DataError_def
             split: outcome.splits tag_list_t.splits if_splits)
  from isolating_user_tag_loop_result [OF this] obtain es ts where
    a: "(case tag_list d of Str s \<Rightarrow> [] | Lst xs \<Rightarrow> xs) = map Symbol_item es"
    and b: "tag_list d' = Lst (map Tag_item ts)"
    and c: "list_all2 (\<lambda>e t. isolate_entry C e = Inr (Emitted t)) (filter (passes_filters C) es) ts"
    by auto
  from c have "list_all2 (\<lambda>e t.
               if symbol_type e AND 0x8000 \<noteq> 0
               then tag_type t = ''struct'' \<and> template_instance_id t = Some (symbol_type e AND 0x0FFF)
               else tag_type t = ''atomic''
                  \<and> I_DATA_TYPE C (symbol_type e AND 0xFF) = Some (data_type t)
                  \<and> bit_position t =
                      (if S_DATA_TYPE C ''BOOL'' = Some (symbol_type e AND 0xFF)
                       then Some (drop_bit 8 (symbol_type e) AND 0b111) else None))
             (filter (passes_filters C) es) ts"
    by (rule list_all2_mono) (use isolate_entry_emitted in blast)
  with a b show ?thesis by blast
qed

theorem isolating_user_tag_classification_witness:
  "isolating_user_tag example_extern (fresh_driver\<lparr>tag_list := Lst (map Symbol_item example_symbols)\<rparr>)
     = Return () (fresh_driver\<lparr>tag_list := Lst (map Tag_item example_tags)\<rparr>)
   \<and> (\<exists>es ts. map Symbol_item example_symbols = map Symbol_item es
          \<and> map Tag_item example_tags = map Tag_item ts
          \<and> list_all2 (\<lambda>e t.
               if symbol_type e AND 0x8000 \<noteq> 0
               then tag_type t = ''struct'' \<and> template_instance_id t = Some (symbol_type e AND 0x0FFF)
               else tag_type t = ''atomic''
                  \<and> I_DATA_TYPE example_extern (symbol_type e AND 0xFF) = Some (data_type t)
                  \<and> bit_position t =
                      (if S_DATA_TYPE example_extern ''BOOL'' = Some (symbol_type e AND 0xFF)
                       then Some (drop_bit 8 (symbol_type e) AND 0b111) else None))
             (filter (passes_filters example_extern) es) ts)"
proof -
  have h: "isolating_user_tag example_extern
             (fresh_driver\<lparr>tag_list := Lst (map Symbol_item example_symbols)\<rparr>)
           = Return () (fresh_driver\<lparr>tag_list := Lst (map Tag_item example_tags)\<rparr>)"
    by code_simp
  from isolating_user_tag_classification [OF h] h show ?thesis by simp
qed

section \<open>Reading a bit of an integer\<close>

lemma bit_value_int:
  assumes "BITS_PER_INT_TYPE C typ = Some w" and "0 \<le> b"
  shows "bit_value C typ (PInt i) b
           = Inr (if b < w then Some (PBool (drop_bit (nat b) i AND 1 = 1)) else None)"
proof -
  have "(i AND push_bit (nat b) 1 \<noteq> 0) = (drop_bit (nat b) i AND 1 = 1)"
    using bit_iff_and_push_bit_not_eq_0 [of i "nat b"] bit_iff_and_drop_bit_eq_1 [of i "nat b"]
    by simp
  with assms show ?thesis
    by (simp add: bit_value_def shl1_def)
qed

lemma bits_tuples_int:
  assumes "BITS_PER_INT_TYPE C typ = Some w" and "list_all (\<lambda>b. 0 \<le> b) bits"
  shows "bits_tuples C tag typ (PInt i) bits
           = Inr (map (\<lambda>b. (tag @ ''.'' @ py_str C b,
                            if b < w then Some (PBool (drop_bit (nat b) i AND 1 = 1)) else None,
                            Some ''BOOL'')) bits)"
  using assms(2)
  by (induction bits) (simp_all add: bit_value_int [OF assms(1)])

text \<open>
  C5. A bit read from an integer host: the type \<open>typ\<close> of the reply has a width \<open>w\<close> in
  \<^verbatim>\<open>BITS_PER_INT_TYPE\<close>, the value decodes to the integer \<open>i\<close>, and \<open>b\<close> is a bit
  number (\<open>0 \<le> b\<close>; on a negative \<open>b\<close> the shift \<^verbatim>\<open>1 << b\<close> raises). Then the single
  read returns \<open>None\<close> for the bit when \<open>b \<ge> w\<close> and the boolean \<open>(i >> b) & 1\<close> when
  \<open>b < w\<close>, and a successful sub-response of a multi read whose tag has recorded bits emits,
  for each recorded bit, the same: \<open>None\<close> from the width on, \<open>(j >> b) & 1\<close> below it.
\<close>

theorem bit_read_within_width:
  assumes "BITS_PER_INT_TYPE C typ = Some w"
      and "0 \<le> b" and "list_all (\<lambda>b. 0 \<le> b) bits"
      and "fst (status d) = 0"
      and "sum_bind (reply_slice d 50 52) unpack_uint = Inr code"
      and "I_DATA_TYPE C code = Some typ"
      and "UNPACK_DATA_FUNCTION C typ = Some unpack"
      and "sum_bind (reply_from d 52) unpack = Inr (PInt i)"
      and "sum_bind (reply_slice m (50 + 2 * (index + 1)) (50 + 2 * (index + 1) + 2)) unpack_uint = Inr off"
      and "sum_bind (reply_slice m (50 + nat off + 2) (50 + nat off + 3)) unpack_usint = Inr 0"
      and "index < length tags"
      and "sum_bind (reply_slice m (50 + nat off + 4) (50 + nat off + 6)) unpack_uint = Inr code"
      and "DATA_FUNCTION_SIZE C typ = Some sz"
      and "sum_bind (reply_slice m (50 + nat off + 6) (50 + nat off + 6 + sz)) unpack = Inr (PInt j)"
      and "map_of tag_bits (tags ! index) = Some bits"
  shows "read_tag_value C (Some b) d
           = Return (RT_Value (if b < w then Some (PBool (drop_bit (nat b) i AND 1 = 1)) else None) typ) d
       \<and> parse_multiple_request_read_step C tags tag_bits index m
           = Return (map (\<lambda>b. (tags ! index @ ''.'' @ py_str C b,
                               if b < w then Some (PBool (drop_bit (nat b) j AND 1 = 1)) else None,
                               Some ''BOOL'')) bits) m"
proof
  show "read_tag_value C (Some b) d
           = Return (RT_Value (if b < w then Some (PBool (drop_bit (nat b) i AND 1 = 1)) else None) typ) d"
    using assms(4-8) bit_value_int [OF assms(1,2), of i]
    by (simp add: read_tag_value_def then_do_def lift_sum_def as_DataError_def)
  show "parse_multiple_request_read_step C tags tag_bits index m
           = Return (map (\<lambda>b. (tags ! index @ ''.'' @ py_str C b,
                               if b < w then Some (PBool (drop_bit (nat b) j AND 1 = 1)) else None,
                               Some ''BOOL'')) bits) m"
    using assms(9-15) assms(6,7) bits_tuples_int [OF assms(1,3), of "tags ! index" j]
    by (simp add: parse_multiple_request_read_step_def then_do_def lift_sum_def Let_def)
qed



theorem bit_read_within_width_witness:
  "BITS_PER_INT_TYPE example_extern ''DINT'' = Some 32
   \<and> read_tag_value example_extern (Some 3)
         (fresh_driver\<lparr>reply := Some (unit_data_reply 0xCC 0 [0xC4, 0, 0x0A, 0, 0, 0])\<rparr>)
       = Return (RT_Value (Some (PBool True)) ''DINT'')
           (fresh_driver\<lparr>reply := Some (unit_data_reply 0xCC 0 [0xC4, 0, 0x0A, 0, 0, 0])\<rparr>)
   \<and> parse_multiple_request_read_step example_extern [''A''] [(''A'', [1, 40])] 0
         (fresh_driver\<lparr>reply := Some (unit_data_reply 0x8A 0
            [1, 0, 4, 0, 0xCC, 0, 0, 0, 0xC4, 0, 6, 0, 0, 0])\<rparr>)
       = Return [(''A.1'', Some (PBool True), Some ''BOOL''), (''A.40'', None, Some ''BOOL'')]
           (fresh_driver\<lparr>reply := Some (unit_data_reply 0x8A 0
            [1, 0, 4, 0, 0xCC, 0, 0, 0, 0xC4, 0, 6, 0, 0, 0])\<rparr>)"
proof -
  let ?d = "fresh_driver\<lparr>reply := Some (unit_data_reply 0xCC 0 [0xC4, 0, 0x0A, 0, 0, 0])\<rparr>"
  let ?m = "fresh_driver\<lparr>reply := Some (unit_data_reply 0x8A 0
            [1, 0, 4, 0, 0xCC, 0, 0, 0, 0xC4, 0, 6, 0, 0, 0])\<rparr>"
  have h1: "BITS_PER_INT_TYPE example_extern ''DINT'' = Some 32"
    by (simp add: example_extern_def)
  have h2: "(0::int) \<le> 3" by simp
  have h3: "list_all (\<lambda>b. 0 \<le> b) [1, 40 :: int]" by simp
  have h4: "fst (status ?d) = 0" by (simp add: fresh_driver_def)
  have h5: "sum_bind (reply_slice ?d 50 52) unpack_uint = Inr 0xC4" by code_simp
  have h6: "I_DATA_TYPE example_extern 0xC4 = Some ''DINT''" by (simp add: example_extern_def)
  have h7: "UNPACK_DATA_FUNCTION example_extern ''DINT'' = Some (example_unpack 4)"
    by (simp add: example_extern_def)
  have h8: "sum_bind (reply_from ?d 52) (example_unpack 4) = Inr (PInt 10)" by code_simp
  have h9: "sum_bind (reply_slice ?m (50 + 2 * (0 + 1)) (50 + 2 * (0 + 1) + 2)) unpack_uint = Inr 4"
    by code_simp
  have h10: "sum_bind (reply_slice ?m (50 + nat 4 + 2) (50 + nat 4 + 3)) unpack_usint = Inr 0"
    by code_simp
  have h11: "0 < length [''A'']" by simp
  have h12: "sum_bind (reply_slice ?m (50 + nat 4 + 4) (50 + nat 4 + 6)) unpack_uint = Inr 0xC4"
    by code_simp
  have h13: "DATA_FUNCTION_SIZE example_extern ''DINT'' = Some 4" by (simp add: example_extern_def)
  have h14: "sum_bind (reply_slice ?m (50 + nat 4 + 6) (50 + nat 4 + 6 + 4)) (example_unpack 4)
               = Inr (PInt 6)"
    by code_simp
  have h15: "map_of [(''A'', [1, 40 :: int])] ([''A''] ! 0) = Some [1, 40]" by simp
  have s1: "example_str 1 = ''1''" "example_str 40 = ''40''" by code_simp+
  have b: "(drop_bit (nat 3) (10::int) AND 1 = 1) = True" "(drop_bit (nat 1) (6::int) AND 1 = 1) = True"
    by code_simp+
  from bit_read_within_width [OF h1 h2 h3 h4 h5 h6 h7 h8 h9 h10 h11 h12 h13 h14 h15] h1 s1 b
  show ?thesis by (simp add: example_extern_def)
qed

section \<open>Parsing a multiple-service read reply\<close>

lemma bits_tuples_names:
  "bits_tuples C tag typ v bits = Inr g \<Longrightarrow> map fst g = map (\<lambda>b. tag @ ''.'' @ py_str C b) bits"
  by (induction bits arbitrary: g) (auto split: sum.splits)

lemma parse_multiple_request_read_step_group:
  assumes "parse_multiple_request_read_step C tags tag_bits index d = Return g d'"
    and "reply d = Some r"
  shows "reply d' = Some r \<and> index < length tags
       \<and> (case sub_response_status r index of
            Inl e \<Rightarrow> False
          | Inr st \<Rightarrow>
              if st \<noteq> 0 then g = [(tags ! index, None, None)]
              else (case map_of tag_bits (tags ! index) of
                      None \<Rightarrow> map fst g = [tags ! index]
                    | Some bits \<Rightarrow> map fst g = map (\<lambda>b. tags ! index @ ''.'' @ py_str C b) bits))"
  using assms
  by (auto simp: parse_multiple_request_read_step_def sub_response_status_def then_do_def
                 lift_sum_def sum_bind_def reply_slice_def Let_def
           dest: bits_tuples_names
           split: sum.splits option.splits if_splits)

lemma parse_multiple_request_read_loop_status_groups:
  assumes "parse_multiple_request_read_loop C tags tag_bits k index acc d = Return l d'"
    and "reply d = Some r"
  shows "\<exists>groups. l = acc @ concat groups \<and> length groups = k
          \<and> (k = 0 \<or> index + k \<le> length tags)
          \<and> list_all2 (\<lambda>i g. case sub_response_status r i of
                 Inl e \<Rightarrow> False
               | Inr st \<Rightarrow>
                   if st \<noteq> 0 then g = [(tags ! i, None, None)]
                   else (case map_of tag_bits (tags ! i) of
                           None \<Rightarrow> map fst g = [tags ! i]
                         | Some bits \<Rightarrow> map fst g = map (\<lambda>b. tags ! i @ ''.'' @ py_str C b) bits))
               [index..<index + k] groups"
  using assms
proof (induction k arbitrary: index acc d)
  case 0
  then show ?case by simp
next
  case (Suc k)
  from Suc.prems(1) obtain g d1 where
    st: "parse_multiple_request_read_step C tags tag_bits index d = Return g d1"
    and rest: "parse_multiple_request_read_loop C tags tag_bits k (Suc index) (acc @ g) d1 = Return l d'"
    by (auto split: outcome.splits)
  from parse_multiple_request_read_step_group [OF st Suc.prems(2)] have
    r1: "reply d1 = Some r"
    and i: "index < length tags"
    and h: "case sub_response_status r index of
            Inl e \<Rightarrow> False
          | Inr st \<Rightarrow>
              if st \<noteq> 0 then g = [(tags ! index, None, None)]
              else (case map_of tag_bits (tags ! index) of
                      None \<Rightarrow> map fst g = [tags ! index]
                    | Some bits \<Rightarrow> map fst g = map (\<lambda>b. tags ! index @ ''.'' @ py_str C b) bits)"
    by auto
  from Suc.IH [OF rest r1] obtain groups where
    g: "l = (acc @ g) @ concat groups" "length groups = k"
       "k = 0 \<or> Suc index + k \<le> length tags"
       "list_all2 (\<lambda>i g. case sub_response_status r i of
                 Inl e \<Rightarrow> False
               | Inr st \<Rightarrow>
                   if st \<noteq> 0 then g = [(tags ! i, None, None)]
                   else (case map_of tag_bits (tags ! i) of
                           None \<Rightarrow> map fst g = [tags ! i]
                         | Some bits \<Rightarrow> map fst g = map (\<lambda>b. tags ! i @ ''.'' @ py_str C b) bits))
               [Suc index..<Suc index + k] groups"
    by blast
  have u: "[index..<index + Suc k] = index # [Suc index..<Suc index + k]"
    by (simp add: upt_conv_Cons)
  from g(3) i have b: "index + Suc k \<le> length tags" by auto
  show ?case
    unfolding u using g(1,2,4) h b
    by (intro exI [of _ "g # groups"]) simp
qed

lemma names_of_single_groups:
  "list_all2 (\<lambda>x g. map fst g = [f x]) xs gs
     \<Longrightarrow> map fst (concat gs) = map f xs \<and> length (concat gs) = length xs"
proof (induction rule: list_all2_induct)
  case Nil
  then show ?case by simp
next
  case (Cons x xs g gs)
  from Cons(1) have "length g = 1" by (metis length_map length_Cons list.size(3) One_nat_def)
  with Cons show ?case by simp
qed


text \<open>
  C3, as the code has it. When the parser returns, the reply announces \<open>n\<close> sub-responses,
  no more than there are sub-requests, and the result is the concatenation of \<open>n\<close>
  groups of tuples, one per sub-response, in the order of the sub-requests. The group of a
  sub-response whose general status is not 0 is the one tuple \<^verbatim>\<open>(tag, None, None)\<close>. The
  group of a sub-response of general status 0 is one tuple under the name of the tag when
  the tag has no recorded bits, and one tuple per recorded bit, named \<open>tag.bit\<close>, when it
  has. So when no tag read has recorded bits, exactly \<open>n\<close> tuples come out and the tuple
  at position \<open>i\<close> carries the name of the \<open>i\<close>-th sub-request.
\<close>

theorem parse_multiple_request_read_groups:
  assumes "parse_multiple_request_read C tags tag_bits d = Return l d'"
  shows "\<exists>n groups r. reply d = Some r \<and> unpack_uint (py_slice r 50 52) = Inr (int n)
          \<and> l = concat groups \<and> length groups = n \<and> n \<le> length tags
          \<and> list_all2 (\<lambda>i g. case sub_response_status r i of
                 Inl e \<Rightarrow> False
               | Inr st \<Rightarrow>
                   if st \<noteq> 0 then g = [(tags ! i, None, None)]
                   else (case map_of tag_bits (tags ! i) of
                           None \<Rightarrow> map fst g = [tags ! i]
                         | Some bits \<Rightarrow> map fst g = map (\<lambda>b. tags ! i @ ''.'' @ py_str C b) bits))
               [0..<n] groups
          \<and> (if list_all (\<lambda>t. map_of tag_bits t = None) (take n tags)
              then length l = n \<and> map fst l = take n tags else True)"
proof -
  from assms obtain k where
    k: "sum_bind (reply_slice d 50 52) unpack_uint = Inr k"
    and loop: "parse_multiple_request_read_loop C tags tag_bits (nat k) 0 [] d = Return l d'"
    by (auto simp: parse_multiple_request_read_def as_DataError_def then_do_def lift_sum_def
             split: outcome.splits sum.splits)
  from k obtain r where r: "reply d = Some r" and kr: "unpack_uint (py_slice r 50 52) = Inr k"
    by (auto simp: sum_bind_def reply_slice_def split: option.splits sum.splits)
  have k0: "0 \<le> k"
    using kr by (auto simp: unpack_uint_def split: if_splits)
  from parse_multiple_request_read_loop_status_groups [OF loop r] obtain groups where
    g: "l = concat groups" "length groups = nat k" "nat k \<le> length tags"
       "list_all2 (\<lambda>i g. case sub_response_status r i of
                 Inl e \<Rightarrow> False
               | Inr st \<Rightarrow>
                   if st \<noteq> 0 then g = [(tags ! i, None, None)]
                   else (case map_of tag_bits (tags ! i) of
                           None \<Rightarrow> map fst g = [tags ! i]
                         | Some bits \<Rightarrow> map fst g = map (\<lambda>b. tags ! i @ ''.'' @ py_str C b) bits))
               [0..<nat k] groups"
    by auto
  have nobits: "length l = nat k \<and> map fst l = take (nat k) tags"
    if nb: "list_all (\<lambda>t. map_of tag_bits t = None) (take (nat k) tags)"
  proof -
    have "map_of tag_bits (tags ! i) = None" if "i < nat k" for i
    proof -
      from that g(3) have "tags ! i \<in> set (take (nat k) tags)"
        by (metis in_set_conv_nth length_take min.absorb2 nth_take)
      with nb show ?thesis by (simp add: list_all_iff)
    qed
    note none = this
    have "map fst (groups ! i) = [tags ! i]" if "i < nat k" for i
    proof -
      from that have e: "[0..<nat k] ! i = i" by simp
      from that have "i < length [0..<nat k]" by simp
      from list_all2_nthD [OF g(4) this] have
        "case sub_response_status r i of
           Inl e \<Rightarrow> False
         | Inr st \<Rightarrow>
             if st \<noteq> 0 then groups ! i = [(tags ! i, None, None)]
             else (case map_of tag_bits (tags ! i) of
                     None \<Rightarrow> map fst (groups ! i) = [tags ! i]
                   | Some bits \<Rightarrow>
                       map fst (groups ! i) = map (\<lambda>b. tags ! i @ ''.'' @ py_str C b) bits)"
        unfolding e .
      with none [OF that] show ?thesis
        by (cases "sub_response_status r i") (auto split: if_splits)
    qed
    with g(2) have "list_all2 (\<lambda>i g. map fst g = [tags ! i]) [0..<nat k] groups"
      by (simp add: list_all2_conv_all_nth)
    from names_of_single_groups [OF this] g(1)
    have "map fst l = map (\<lambda>i. tags ! i) [0..<nat k]" "length l = nat k" by simp_all
    moreover from g(3) have "map (\<lambda>i. tags ! i) [0..<nat k] = take (nat k) tags"
      by (auto intro!: nth_equalityI)
    ultimately show ?thesis by simp
  qed
  from r kr k0 g nobits show ?thesis
    by (intro exI [of _ "nat k"] exI [of _ groups] exI [of _ r]) auto
qed


theorem parse_multiple_request_read_groups_witness:
  "parse_multiple_request_read example_extern [''A'', ''B'', ''C''] [(''A'', [1, 2]), (''B'', [0])]
       (fresh_driver\<lparr>reply := Some example_multi_reply_3\<rparr>)
     = Return [(''A.1'', Some (PBool True), Some ''BOOL''), (''A.2'', Some (PBool True), Some ''BOOL''),
               (''B'', None, None), (''C'', Some (PInt 7), Some ''INT'')]
         (fresh_driver\<lparr>reply := Some example_multi_reply_3,
                        last_tag_read := Some (''C'', Some (PInt 7), Some ''INT'')\<rparr>)
   \<and> (\<exists>n groups r. reply (fresh_driver\<lparr>reply := Some example_multi_reply_3\<rparr>) = Some r \<and> unpack_uint (py_slice r 50 52) = Inr (int n)
          \<and> [(''A.1'', Some (PBool True), Some ''BOOL''), (''A.2'', Some (PBool True), Some ''BOOL''),
               (''B'', None, None), (''C'', Some (PInt 7), Some ''INT'')] = concat groups
          \<and> length groups = n \<and> n \<le> length [''A'', ''B'', ''C'']
          \<and> list_all2 (\<lambda>i g. case sub_response_status r i of
                 Inl e \<Rightarrow> False
               | Inr st \<Rightarrow>
                   if st \<noteq> 0 then g = [([''A'', ''B'', ''C''] ! i, None, None)]
                   else (case map_of [(''A'', [1, 2]), (''B'', [0])] ([''A'', ''B'', ''C''] ! i) of
                           None \<Rightarrow> map fst g = [[''A'', ''B'', ''C''] ! i]
                         | Some bits \<Rightarrow>
                             map fst g = map (\<lambda>b. [''A'', ''B'', ''C''] ! i @ ''.'' @ py_str example_extern b) bits))
               [0..<n] groups
          \<and> (if list_all (\<lambda>t. map_of ([(''A'', [1, 2]), (''B'', [0])] :: (string \<times> int list) list) t = None) (take n [''A'', ''B'', ''C''])
              then length [(''A.1'', Some (PBool True), Some ''BOOL''), (''A.2'', Some (PBool True), Some ''BOOL''),
               (''B'', None, None), (''C'', Some (PInt 7), Some ''INT'')] = n
                 \<and> map fst [(''A.1'', Some (PBool True), Some ''BOOL''), (''A.2'', Some (PBool True), Some ''BOOL''),
               (''B'', None, None), (''C'', Some (PInt 7), Some ''INT'')] = take n [''A'', ''B'', ''C'']
              else True))"
proof (rule conjI)
  show h: "parse_multiple_request_read example_extern [''A'', ''B'', ''C''] [(''A'', [1, 2]), (''B'', [0])]
       (fresh_driver\<lparr>reply := Some example_multi_reply_3\<rparr>)
     = Return [(''A.1'', Some (PBool True), Some ''BOOL''), (''A.2'', Some (PBool True), Some ''BOOL''),
               (''B'', None, None), (''C'', Some (PInt 7), Some ''INT'')]
         (fresh_driver\<lparr>reply := Some example_multi_reply_3,
                        last_tag_read := Some (''C'', Some (PInt 7), Some ''INT'')\<rparr>)"
    by code_simp
  show "\<exists>n groups r. reply (fresh_driver\<lparr>reply := Some example_multi_reply_3\<rparr>) = Some r \<and> unpack_uint (py_slice r 50 52) = Inr (int n)
          \<and> [(''A.1'', Some (PBool True), Some ''BOOL''), (''A.2'', Some (PBool True), Some ''BOOL''),
               (''B'', None, None), (''C'', Some (PInt 7), Some ''INT'')] = concat groups
          \<and> length groups = n \<and> n \<le> length [''A'', ''B'', ''C'']
          \<and> list_all2 (\<lambda>i g. case sub_response_status r i of
                 Inl e \<Rightarrow> False
               | Inr st \<Rightarrow>
                   if st \<noteq> 0 then g = [([''A'', ''B'', ''C''] ! i, None, None)]
                   else (case map_of [(''A'', [1, 2]), (''B'', [0])] ([''A'', ''B'', ''C''] ! i) of
                           None \<Rightarrow> map fst g = [[''A'', ''B'', ''C''] ! i]
                         | Some bits \<Rightarrow>
                             map fst g = map (\<lambda>b. [''A'', ''B'', ''C''] ! i @ ''.'' @ py_str example_extern b) bits))
               [0..<n] groups
          \<and> (if list_all (\<lambda>t. map_of ([(''A'', [1, 2]), (''B'', [0])] :: (string \<times> int list) list) t = None) (take n [''A'', ''B'', ''C''])
              then length [(''A.1'', Some (PBool True), Some ''BOOL''), (''A.2'', Some (PBool True), Some ''BOOL''),
               (''B'', None, None), (''C'', Some (PInt 7), Some ''INT'')] = n
                 \<and> map fst [(''A.1'', Some (PBool True), Some ''BOOL''), (''A.2'', Some (PBool True), Some ''BOOL''),
               (''B'', None, None), (''C'', Some (PInt 7), Some ''INT'')] = take n [''A'', ''B'', ''C'']
              else True)"
    by (rule parse_multiple_request_read_groups [OF h])
qed

text \<open>
  C3 as stated fails: \<^verbatim>\<open>read_tag(['A.1', 'A.2'])\<close> builds one sub-request, for \<^verbatim>\<open>A\<close>, and
  records the bits 1 and 2; on a reply that holds one sub-response the parser emits two
  tuples.
\<close>

theorem multi_read_two_tuples_for_one_sub_response:
  "value_of (read_tag_multi_loop example_extern [''A.1'', ''A.2''] [] [] [] fresh_driver)
     = Some ([(''A'', [1, 2])], [''A''], [[0x4C, 2, 0x91, 1, 0x41, 0, 1, 0]])
   \<and> unpack_uint (py_slice example_multi_reply_1 50 52) = Inr 1
   \<and> value_of (parse_multiple_request_read example_extern [''A''] [(''A'', [1, 2])]
                 (fresh_driver\<lparr>reply := Some example_multi_reply_1\<rparr>))
       = Some [(''A.1'', Some (PBool True), Some ''BOOL''),
               (''A.2'', Some (PBool True), Some ''BOOL'')]"
  by code_simp

section \<open>Reading a string\<close>

lemma outcome_eqI: "raised m = None \<Longrightarrow> value_of m = Some v \<Longrightarrow> m = Return v (state_of m)"
  by (cases m) (auto simp: raised_def value_of_def state_of_def)







section \<open>Reading a tag whose request path cannot be built\<close>






section \<open>Writing several tags\<close>

lemma then_do_simps:
  "then_do (Return v s) f = f v s" "then_do (Raise e s) f = Raise e s"
  by (simp_all add: then_do_def)

lemma on_driver_simps:
  "on_driver (Return v d) w = Return v (d, w)" "on_driver (Raise e d) w = Raise e (d, w)"
  by (simp_all add: on_driver_def)

lemma length_framed_tuples: "length (framed_tuples C tags) \<le> length tags"
  by (induction tags) (auto simp: framed_tuples_def map_filter_simps split: option.splits sum.splits)

lemma framed_tuples_Cons:
  "framed_tuples C (t # tags)
     = (case frame_write_tuple C t of Some (Inr x) \<Rightarrow> x # framed_tuples C tags | _ \<Rightarrow> framed_tuples C tags)"
  by (auto simp: framed_tuples_def map_filter_simps split: option.splits sum.splits)

lemma write_tag_multi_write_loop_prefix:
  assumes "list_all (framed_or_dropped C) pre"
  shows "\<exists>d'. write_tag_multi_write_loop C (pre @ rest) rp_list tags_added d
               = write_tag_multi_write_loop C rest (rp_list @ map fst (framed_tuples C pre))
                   (tags_added @ map snd (framed_tuples C pre)) d'
             \<and> (if length (framed_tuples C pre) = length pre then d' = d else fst (status d') = 8)"
  using assms
proof (induction pre arbitrary: rp_list tags_added d)
  case Nil
  then show ?case by (simp add: framed_tuples_def map_filter_simps)
next
  case (Cons t pre)
  then have t: "framed_or_dropped C t" and pre: "list_all (framed_or_dropped C) pre" by simp_all
  from t obtain r where fr: "frame_write_tuple C t = Some r"
    by (auto simp: framed_or_dropped_def split: option.splits)
  show ?case
  proof (cases r)
    case (Inl e)
    with t fr have c: "lookup_or_struct_error e" by (simp add: framed_or_dropped_def)
    let ?d = "d\<lparr>status := (8, ''Tag:{0} type:{1} removed from write list. Error:{2}.'')\<rparr>"
    from Cons.IH [OF pre, of rp_list tags_added ?d] obtain d' where
      d': "write_tag_multi_write_loop C (pre @ rest) rp_list tags_added ?d
               = write_tag_multi_write_loop C rest (rp_list @ map fst (framed_tuples C pre))
                   (tags_added @ map snd (framed_tuples C pre)) d'"
      "if length (framed_tuples C pre) = length pre then d' = ?d else fst (status d') = 8"
      by blast
    have "fst (status d') = 8" using d'(2) by (auto split: if_splits)
    moreover have "length (framed_tuples C (t # pre)) \<noteq> length (t # pre)"
      using length_framed_tuples [of C pre] fr Inl by (simp add: framed_tuples_Cons)
    ultimately show ?thesis using d'(1) fr Inl c
      by (intro exI [of _ d']) (simp add: framed_tuples_Cons)
  next
    case (Inr x)
    obtain request added where x: "x = (request, added)" by (cases x)
    from Cons.IH [OF pre, of "rp_list @ [request]" "tags_added @ [added]" d] obtain d' where
      d': "write_tag_multi_write_loop C (pre @ rest) (rp_list @ [request]) (tags_added @ [added]) d
               = write_tag_multi_write_loop C rest ((rp_list @ [request]) @ map fst (framed_tuples C pre))
                   ((tags_added @ [added]) @ map snd (framed_tuples C pre)) d'"
      "if length (framed_tuples C pre) = length pre then d' = d else fst (status d') = 8"
      by blast
    then show ?thesis using fr Inr x
      by (intro exI [of _ d']) (simp add: framed_tuples_Cons)
  qed
qed


text \<open>
  C7, as the code has it. Past the guard at the head of \<^verbatim>\<open>write_tag\<close>, take a batch in which
  every path can be built and framing raises nothing but a \<^verbatim>\<open>LookupError\<close> or a
  \<^verbatim>\<open>struct.error\<close>: the tuples on which it raises are left out, status code 8 is recorded
  if there is one, and the sub-requests of the others, in order, are what goes to
  \<^verbatim>\<open>build_multiple_service\<close> and \<^verbatim>\<open>send_unit_data\<close>; the reply is parsed against the
  tuples that were framed. A tuple whose path cannot be built, after such a batch, ends the
  call instead: status code 8, \<^verbatim>\<open>_write_tag_multi_write\<close> returns \<open>None\<close>, \<^verbatim>\<open>write_tag\<close>
  raises on it, and nothing is handed to \<^verbatim>\<open>send_unit_data\<close>.
\<close>

theorem multi_write_batch:
  assumes "session_gate 8 ''Target did not connected. write_tag will not be executed.'' (clear d, w)
             = Return () (d1, w1)"
      and "list_all (framed_or_dropped C) pre"
  shows "(\<exists>d2. write_tag C (Write_multi pre) (d, w)
               = then_do (send_request C
                            (build_multiple_service C (map fst (framed_tuples C pre)) (sequence w1 mod 65536))
                            (d2, w1\<lparr>sequence := sequence w1 + 1\<rparr>))
                   (\<lambda>ret_val (d, w).
                      on_driver
                        (then_do (parse_multiple_request_write (map snd (framed_tuples C pre)) d)
                           (\<lambda>l d. Return (WR_List l) d)) w)
             \<and> (if length (framed_tuples C pre) = length pre then d2 = d1 else fst (status d2) = 8))
       \<and> (if frame_write_tuple C t = None
          then \<exists>d2. write_tag C (Write_multi (pre @ t # rest)) (d, w) = Raise TypeError (d2, w1)
                 \<and> fst (status d2) = 8
          else True)
       \<and> sent w1 = sent w"
proof (intro conjI)
  from write_tag_multi_write_loop_prefix [OF assms(2), of "[]" "[]" "[]" d1] obtain d2 where
    d2: "write_tag_multi_write_loop C pre [] [] d1
           = Return (Some (map fst (framed_tuples C pre), map snd (framed_tuples C pre))) d2"
        "if length (framed_tuples C pre) = length pre then d2 = d1 else fst (status d2) = 8"
    by auto
  show "\<exists>d2. write_tag C (Write_multi pre) (d, w)
               = then_do (send_request C
                            (build_multiple_service C (map fst (framed_tuples C pre)) (sequence w1 mod 65536))
                            (d2, w1\<lparr>sequence := sequence w1 + 1\<rparr>))
                   (\<lambda>ret_val (d, w).
                      on_driver
                        (then_do (parse_multiple_request_write (map snd (framed_tuples C pre)) d)
                           (\<lambda>l d. Return (WR_List l) d)) w)
             \<and> (if length (framed_tuples C pre) = length pre then d2 = d1 else fst (status d2) = 8)"
    using assms(1) d2
    by (intro exI [of _ d2])
       (simp add: then_do_simps on_driver_simps get_sequence_def del: session_gate.simps send_request.simps)
  show "if frame_write_tuple C t = None
          then \<exists>d2. write_tag C (Write_multi (pre @ t # rest)) (d, w) = Raise TypeError (d2, w1)
                 \<and> fst (status d2) = 8
          else True"
  proof (cases "frame_write_tuple C t")
    case None
    from write_tag_multi_write_loop_prefix [OF assms(2), of "t # rest" "[]" "[]" d1] obtain d3 where
      "write_tag_multi_write_loop C (pre @ t # rest) [] [] d1
         = write_tag_multi_write_loop C (t # rest) (map fst (framed_tuples C pre))
             (map snd (framed_tuples C pre)) d3"
      by auto
    with None have "write_tag_multi_write_loop C (pre @ t # rest) [] [] d1
         = Return None (d3\<lparr>status := (8, ''Cannot create tag{0} req. packet. write_tag will not be executed'')\<rparr>)"
      by simp
    with assms(1) None show ?thesis
      by (simp add: then_do_simps on_driver_simps del: session_gate.simps send_request.simps)
  next
    case (Some r)
    then show ?thesis by simp
  qed
  show "sent w1 = sent w"
    using assms(1) by (auto split: if_splits list.splits option.splits)
qed

theorem multi_write_batch_witness:
  "session_gate 8 ''Target did not connected. write_tag will not be executed.''
       (clear fresh_driver, target [Some example_multi_reply_1])
     = Return () (clear fresh_driver, target [Some example_multi_reply_1])
   \<and> list_all (framed_or_dropped example_extern)
         [(''A'', PInt 1, ''DINT''), (''B'', PInt 5, ''NOPE''), (''C.3'', PBool True, ''BOOL'')]
   \<and> map snd (framed_tuples example_extern
         [(''A'', PInt 1, ''DINT''), (''B'', PInt 5, ''NOPE''), (''C.3'', PBool True, ''BOOL'')])
       = [(''A'', PInt 1, ''DINT''), (''C.3'', PBool True, ''BOOL'')]
   \<and> frame_write_tuple example_extern (''A[68719476736]'', PInt 1, ''DINT'') = None
   \<and> (\<exists>d2. write_tag example_extern
               (Write_multi ([(''A'', PInt 1, ''DINT''), (''B'', PInt 5, ''NOPE''),
                              (''C.3'', PBool True, ''BOOL'')] @ (''A[68719476736]'', PInt 1, ''DINT'') # []))
               (fresh_driver, target [Some example_multi_reply_1])
             = Raise TypeError (d2, target [Some example_multi_reply_1])
          \<and> fst (status d2) = 8)"
proof -
  have g: "session_gate 8 ''Target did not connected. write_tag will not be executed.''
       (clear fresh_driver, target [Some example_multi_reply_1])
     = Return () (clear fresh_driver, target [Some example_multi_reply_1])"
    by (simp add: clear_def fresh_driver_def)
  have p: "list_all (framed_or_dropped example_extern)
         [(''A'', PInt 1, ''DINT''), (''B'', PInt 5, ''NOPE''), (''C.3'', PBool True, ''BOOL'')]"
    by code_simp
  have f: "map snd (framed_tuples example_extern
         [(''A'', PInt 1, ''DINT''), (''B'', PInt 5, ''NOPE''), (''C.3'', PBool True, ''BOOL'')])
       = [(''A'', PInt 1, ''DINT''), (''C.3'', PBool True, ''BOOL'')]"
    by code_simp
  have n: "frame_write_tuple example_extern (''A[68719476736]'', PInt 1, ''DINT'') = None"
    by code_simp
  from multi_write_batch [OF g p, of "(''A[68719476736]'', PInt 1, ''DINT'')" "[]"] g p f n
  show ?thesis by (simp only: if_True simp_thms)
qed

text \<open>
  C7 as stated fails on a path that cannot be built: the tuple is not dropped from the
  batch, the batch is; the second tuple is never sent.
\<close>

theorem multi_write_stops_on_unbuildable_path:
  "frame_write_tuple example_extern (''A[68719476736]'', PInt 1, ''DINT'') = None
   \<and> framed_or_dropped example_extern (''B'', PInt 2, ''DINT'')
   \<and> raised (write_tag example_extern
               (Write_multi [(''A[68719476736]'', PInt 1, ''DINT''), (''B'', PInt 2, ''DINT'')])
               (fresh_driver, target [Some example_multi_reply_1]))
       = Some TypeError
   \<and> sent (snd (state_of (write_tag example_extern
               (Write_multi [(''A[68719476736]'', PInt 1, ''DINT''), (''B'', PInt 2, ''DINT'')])
               (fresh_driver, target [Some example_multi_reply_1])))) = []
   \<and> fst (status (fst (state_of (write_tag example_extern
               (Write_multi [(''A[68719476736]'', PInt 1, ''DINT''), (''B'', PInt 2, ''DINT'')])
               (fresh_driver, target [Some example_multi_reply_1]))))) = 8"
  by code_simp

section \<open>The structure and template caches\<close>

text \<open>
  Neither a reply parser nor the transport ever closes the session: a call that returns
  leaves \<^verbatim>\<open>_target_is_connected\<close> as it was.
\<close>

lemma then_doE:
  assumes "then_do m f = Return v s"
  obtains x t where "m = Return x t" "f x t = Return v s"
  using assms by (cases m) (auto simp: then_do_def)

lemma as_DataError_Return: "as_DataError m = Return v s \<longleftrightarrow> m = Return v s"
  by (cases m) (auto simp: as_DataError_def)

lemma lift_sum_Return: "lift_sum r s = Return v t \<longleftrightarrow> r = Inr v \<and> t = s"
  by (cases r) (auto simp: lift_sum_def)

lemma parse_instance_attribute_list_loop_connected:
  "parse_instance_attribute_list_loop tr idx inst d = Return v d'
     \<Longrightarrow> target_is_connected d' = target_is_connected d"
proof (induction tr idx inst d rule: parse_instance_attribute_list_loop.induct)
  case (1 tr idx inst d)
  from "1.prems" show ?case
    apply (subst (asm) parse_instance_attribute_list_loop.simps)
    apply (auto simp: Let_def split: if_splits sum.splits tag_list_t.splits dest!: "1.IH")
    done
qed

lemma parse_instance_attribute_list_connected:
  "parse_instance_attribute_list p st d = Return v d' \<Longrightarrow> target_is_connected d' = target_is_connected d"
  by (auto simp: parse_instance_attribute_list_def as_DataError_Return lift_sum_Return
           elim!: then_doE split: if_splits
           dest!: parse_instance_attribute_list_loop_connected)

lemma parse_template_connected:
  "parse_template p st d = Return v d' \<Longrightarrow> target_is_connected d' = target_is_connected d"
  by (auto simp: parse_template_def lift_sum_Return Let_def
           elim!: then_doE split: if_splits buffer_t.splits)

lemma parse_fragment_step_connected:
  "parse_fragment_step C dt fr idx d = Return v d' \<Longrightarrow> target_is_connected d' = target_is_connected d"
  by (auto simp: parse_fragment_step_def Let_def
           split: option.splits if_splits sum.splits tag_list_t.splits)

lemma parse_fragment_loop_connected:
  "parse_fragment_loop C dt fr idx d = Return v d' \<Longrightarrow> target_is_connected d' = target_is_connected d"
proof (induction C dt fr idx d rule: parse_fragment_loop.induct)
  case (1 C dt fr idx d)
  show ?case
  proof (cases "idx < length fr")
    case True
    with "1.prems" obtain sz d1 where
      st: "parse_fragment_step C dt fr idx d = Return sz d1" and nz: "sz \<noteq> 0"
      and rest: "parse_fragment_loop C dt fr (idx + sz) d1 = Return v d'"
      by (subst (asm) parse_fragment_loop.simps) (auto split: outcome.splits if_splits)
    from "1.IH" [OF True st nz rest] parse_fragment_step_connected [OF st]
    show ?thesis by simp
  next
    case False
    with "1.prems" show ?thesis
      by (subst (asm) parse_fragment_loop.simps) simp
  qed
qed

lemma parse_fragment_connected:
  "parse_fragment C p st d = Return v d' \<Longrightarrow> target_is_connected d' = target_is_connected d"
  by (auto simp: parse_fragment_def as_DataError_Return lift_sum_Return Let_def
           elim!: then_doE split: if_splits option.splits sum.splits
           dest!: parse_fragment_loop_connected)

lemma parse_structure_makeup_attributes_connected:
  "parse_structure_makeup_attributes p st d = Return v d' \<Longrightarrow> target_is_connected d' = target_is_connected d"
  by (auto simp: parse_structure_makeup_attributes_def as_DataError_Return lift_sum_Return Let_def
           elim!: then_doE split: if_splits)

lemma check_reply_connected:
  "check_reply C d = Return ok d' \<Longrightarrow> target_is_connected d' = target_is_connected d"
  by (auto simp: check_reply_def as_DataError_Return lift_sum_Return Let_def
           elim!: then_doE split: if_splits option.splits sum.splits
           dest!: parse_fragment_connected parse_instance_attribute_list_connected
                  parse_structure_makeup_attributes_connected parse_template_connected)

lemma send_request_connected:
  "send_request C m (d, w) = Return ret (d', w') \<Longrightarrow> target_is_connected d' = target_is_connected d"
  by (auto simp: Let_def split: list.splits outcome.splits dest!: check_reply_connected)

lemma read_template_loop_connected:
  "read_template_loop C inst ods s = Return v s'
     \<Longrightarrow> target_is_connected (fst s') = target_is_connected (fst s)"
proof (induction C inst ods s rule: read_template_loop.induct)
  case (1 C inst ods d w)
  show ?case
  proof (cases "get_template_in_progress d")
    case True
    obtain seq w1 where gs: "get_sequence w = (seq, w1)" by (cases "get_sequence w")
    have unf: "read_template_loop C inst ods (d, w)
        = (case read_template_message C seq inst ods (byte_offset d) of
             Inl e \<Rightarrow> Raise e (d, w1)
           | Inr message_request \<Rightarrow>
              (case send_request C message_request (d, w1) of
                 Raise e s \<Rightarrow> Raise e s
               | Return ret (d', w') \<Rightarrow>
                   if ret = None \<or> ret = Some [] then Raise DataError (d', w')
                   else read_template_loop C inst ods (d', w')))"
      by (subst read_template_loop.simps) (simp add: True gs del: send_request.simps)
    from "1.prems" have e: "(case read_template_message C seq inst ods (byte_offset d) of
             Inl e \<Rightarrow> Raise e (d, w1)
           | Inr message_request \<Rightarrow>
              (case send_request C message_request (d, w1) of
                 Raise e s \<Rightarrow> Raise e s
               | Return ret (d', w') \<Rightarrow>
                   if ret = None \<or> ret = Some [] then Raise DataError (d', w')
                   else read_template_loop C inst ods (d', w'))) = Return v s'"
      unfolding unf .
    then obtain m where m: "read_template_message C seq inst ods (byte_offset d) = Inr m"
      by (cases "read_template_message C seq inst ods (byte_offset d)") auto
    from e m obtain ret s1 where sr0: "send_request C m (d, w1) = Return ret s1"
      by (cases "send_request C m (d, w1)") (auto simp del: send_request.simps)
    obtain d1 w2 where s1: "s1 = (d1, w2)" by (cases s1)
    from sr0 s1 have sr: "send_request C m (d, w1) = Return ret (d1, w2)" by simp
    from e m sr have nn: "\<not> (ret = None \<or> ret = Some [])"
      by (cases "ret = None \<or> ret = Some []") (simp_all del: send_request.simps)
    with e m sr have rest: "read_template_loop C inst ods (d1, w2) = Return v s'"
      by (simp del: send_request.simps)
    from "1.IH" [OF True gs [symmetric] m sr _ nn rest] send_request_connected [OF sr]
    show ?thesis by simp
  next
    case False
    with "1.prems" show ?thesis
      by (subst (asm) read_template_loop.simps) auto
  qed
qed

lemma session_gate_connected:
  "session_gate code msg s = Return () s' \<Longrightarrow> target_is_connected (fst s')"
  by (cases s) (auto split: if_splits list.splits option.splits)

lemma session_gate_idle:
  "target_is_connected (fst s) \<Longrightarrow> session_gate code msg s = Return () s"
  by (cases s) simp


lemma get_structure_makeup_again:
  assumes "get_structure_makeup C i s = Return v s'"
  shows "get_structure_makeup C i s' = Return v s'"
proof -
  obtain d0 w0 where s: "s = (d0, w0)" by (cases s)
  show ?thesis
  proof (cases "map_of (struct_cache d0) i")
    case (Some c)
    with assms s have "v = c" "s' = (d0, w0)" by simp_all
    with Some show ?thesis by simp
  next
    case None
    with assms s obtain d2 w2 where
      "s' = (d2\<lparr>struct_cache := AList.update i (buffer d2) (struct_cache d2)\<rparr>, w2)"
      "v = buffer d2"
      by (auto simp: lift_sum_Return elim!: then_doE split: prod.splits if_splits
               simp del: session_gate.simps send_request.simps)
    then show ?thesis by (simp add: update_conv')
  qed
qed

lemma read_template_again:
  assumes "read_template C i ods s = Return v s'"
  shows "read_template C i ods s' = Return v s'"
proof -
  obtain d0 w0 where s: "s = (d0, w0)" by (cases s)
  from assms s obtain d w where
    gate: "session_gate 10 ''Target did not connected. get_tag_list will not be executed.'' (d0, w0)
             = Return () (d, w)"
    and body: "(case map_of (template_cache d) i of
       Some cached \<Rightarrow> Return cached (d, w)
     | None \<Rightarrow>
        as_DataError (
          then_do (read_template_loop C i ods
                     (d\<lparr>byte_offset := 0, buffer := Buf_bytes [], get_template_in_progress := True\<rparr>, w))
            (\<lambda>_ (d, w).
          Return (buffer d)
            (d\<lparr>get_template_in_progress := False,
               template_cache := AList.update i (buffer d) (template_cache d)\<rparr>, w)))) = Return v s'"
    by (auto elim!: then_doE simp del: session_gate.simps)
  from session_gate_connected [OF gate] have con: "target_is_connected d" by simp
  show ?thesis
  proof (cases "map_of (template_cache d) i")
    case (Some c)
    with body have "v = c" "s' = (d, w)" by simp_all
    with Some con show ?thesis by (simp add: then_do_def)
  next
    case None
    with body obtain d2 w2 where
      loop: "read_template_loop C i ods
               (d\<lparr>byte_offset := 0, buffer := Buf_bytes [], get_template_in_progress := True\<rparr>, w)
             = Return () (d2, w2)"
      and s': "s' = (d2\<lparr>get_template_in_progress := False,
                        template_cache := AList.update i (buffer d2) (template_cache d2)\<rparr>, w2)"
      and v: "v = buffer d2"
      by (auto simp: as_DataError_Return elim!: then_doE)
    from read_template_loop_connected [OF loop] con have "target_is_connected d2" by simp
    with s' v show ?thesis by (simp add: then_do_def update_conv')
  qed
qed

text \<open>
  C9. A call of \<^verbatim>\<open>_get_structure_makeup(i)\<close> or \<^verbatim>\<open>_read_template(i, s)\<close> that returns leaves a
  state in which the same call returns the same value and changes nothing, neither the
  driver nor the target: nothing is sent, no reply is consumed, no \<^verbatim>\<open>forward_open\<close> is
  tried. More generally, any state whose cache holds the instance id returns the cached
  value in this way; for \<^verbatim>\<open>_read_template\<close>, whose session guard stands before the cache
  lookup, the state is one of an open session, as every state left by a completed call is.
\<close>

theorem cache_idempotence:
  "(get_structure_makeup C i s = Return v s' \<longrightarrow> get_structure_makeup C i s' = Return v s')
   \<and> (read_template C j ods t = Return u t' \<longrightarrow> read_template C j ods t' = Return u t')
   \<and> (map_of (struct_cache d) i = Some x \<longrightarrow> get_structure_makeup C i (d, w) = Return x (d, w))
   \<and> (target_is_connected d \<and> map_of (template_cache d) j = Some y
        \<longrightarrow> read_template C j ods (d, w) = Return y (d, w))"
  using get_structure_makeup_again read_template_again
  by (auto simp: then_do_def)


theorem cache_idempotence_witness:
  "get_structure_makeup example_extern 0x123 (fresh_driver, target [Some example_makeup_reply])
     = Return (Buf_dict [(''object_definition_size'', DInt 30), (''structure_size'', DInt 8),
                         (''member_count'', DInt 2), (''structure_handle'', DInt 0x123)])
         (state_of (get_structure_makeup example_extern 0x123
                      (fresh_driver, target [Some example_makeup_reply])))
   \<and> get_structure_makeup example_extern 0x123
         (state_of (get_structure_makeup example_extern 0x123
                      (fresh_driver, target [Some example_makeup_reply])))
       = Return (Buf_dict [(''object_definition_size'', DInt 30), (''structure_size'', DInt 8),
                           (''member_count'', DInt 2), (''structure_handle'', DInt 0x123)])
           (state_of (get_structure_makeup example_extern 0x123
                        (fresh_driver, target [Some example_makeup_reply])))
   \<and> read_template example_extern 0x123 30 (fresh_driver, target [Some example_template_reply])
       = Return (Buf_bytes [1, 2, 3, 4])
           (state_of (read_template example_extern 0x123 30
                        (fresh_driver, target [Some example_template_reply])))
   \<and> read_template example_extern 0x123 30
         (state_of (read_template example_extern 0x123 30
                      (fresh_driver, target [Some example_template_reply])))
       = Return (Buf_bytes [1, 2, 3, 4])
           (state_of (read_template example_extern 0x123 30
                        (fresh_driver, target [Some example_template_reply])))
   \<and> map_of (struct_cache (fresh_driver\<lparr>struct_cache := [(0x123, Buf_dict [])],
                                          template_cache := [(0x123, Buf_bytes [7])]\<rparr>)) 0x123
       = Some (Buf_dict [])
   \<and> get_structure_makeup example_extern 0x123
         (fresh_driver\<lparr>struct_cache := [(0x123, Buf_dict [])],
                        template_cache := [(0x123, Buf_bytes [7])]\<rparr>, target [])
       = Return (Buf_dict [])
           (fresh_driver\<lparr>struct_cache := [(0x123, Buf_dict [])],
                          template_cache := [(0x123, Buf_bytes [7])]\<rparr>, target [])
   \<and> target_is_connected (fresh_driver\<lparr>struct_cache := [(0x123, Buf_dict [])],
                                          template_cache := [(0x123, Buf_bytes [7])]\<rparr>)
   \<and> map_of (template_cache (fresh_driver\<lparr>struct_cache := [(0x123, Buf_dict [])],
                                            template_cache := [(0x123, Buf_bytes [7])]\<rparr>)) 0x123
       = Some (Buf_bytes [7])
   \<and> read_template example_extern 0x123 30
         (fresh_driver\<lparr>struct_cache := [(0x123, Buf_dict [])],
                        template_cache := [(0x123, Buf_bytes [7])]\<rparr>, target [])
       = Return (Buf_bytes [7])
           (fresh_driver\<lparr>struct_cache := [(0x123, Buf_dict [])],
                          template_cache := [(0x123, Buf_bytes [7])]\<rparr>, target [])"
proof -
  let ?A = "get_structure_makeup example_extern 0x123 (fresh_driver, target [Some example_makeup_reply])"
  let ?B = "read_template example_extern 0x123 30 (fresh_driver, target [Some example_template_reply])"
  let ?d = "fresh_driver\<lparr>struct_cache := [(0x123, Buf_dict [])],
                          template_cache := [(0x123, Buf_bytes [7])]\<rparr>"
  let ?V = "Buf_dict [(''object_definition_size'', DInt 30), (''structure_size'', DInt 8),
                      (''member_count'', DInt 2), (''structure_handle'', DInt 0x123)]"
  have ra: "raised ?A = None" by code_simp
  have va: "value_of ?A = Some ?V" by code_simp
  have a: "?A = Return ?V (state_of ?A)" by (rule outcome_eqI [OF ra va])
  have rb: "raised ?B = None" by code_simp
  have vb: "value_of ?B = Some (Buf_bytes [1, 2, 3, 4])" by code_simp
  have b: "?B = Return (Buf_bytes [1, 2, 3, 4]) (state_of ?B)" by (rule outcome_eqI [OF rb vb])
  have c: "map_of (struct_cache ?d) 0x123 = Some (Buf_dict [])" by simp
  have t: "target_is_connected ?d" by (simp add: fresh_driver_def)
  have e: "map_of (template_cache ?d) 0x123 = Some (Buf_bytes [7])" by simp
  note th = cache_idempotence [of example_extern "0x123" "(fresh_driver, target [Some example_makeup_reply])"
              ?V "state_of ?A" "0x123" 30 "(fresh_driver, target [Some example_template_reply])"
              "Buf_bytes [1, 2, 3, 4]" "state_of ?B" ?d "Buf_dict []" "target []" "Buf_bytes [7]"]
  from th a have 1: "get_structure_makeup example_extern 0x123 (state_of ?A) = Return ?V (state_of ?A)"
    by blast
  from th b have 2: "read_template example_extern 0x123 30 (state_of ?B)
                       = Return (Buf_bytes [1, 2, 3, 4]) (state_of ?B)"
    by blast
  from th c have 3: "get_structure_makeup example_extern 0x123 (?d, target [])
                       = Return (Buf_dict []) (?d, target [])"
    by blast
  from th t e have 4: "read_template example_extern 0x123 30 (?d, target [])
                       = Return (Buf_bytes [7]) (?d, target [])"
    by blast
  from a 1 b 2 c 3 t e 4 show ?thesis by blast
qed

section \<open>The dispatch of a unit-data reply\<close>

text \<open>
  Where \<^verbatim>\<open>_check_reply\<close> hands a frame to a parser, and what a \<^verbatim>\<open>send_unit_data\<close> that
  returns has done.
\<close>

lemma check_reply_fragment:
  assumes "reply d = Some r"
    and "is_unit_data_reply C r (I_TAG_SERVICES_REPLY C ''Read Tag Fragmented'') st"
  shows "check_reply C d
           = as_DataError (then_do (parse_fragment C 50 st (d\<lparr>more_packets_available := False\<rparr>))
                             (\<lambda>_ d. Return True d))"
  using assms
  by (auto simp: check_reply_def is_unit_data_reply_def Let_def then_do_def lift_sum_def
           split: sum.splits)


lemma check_reply_template:
  assumes "reply d = Some r"
    and "is_unit_data_reply C r (I_TAG_SERVICES_REPLY C ''Read Template'') st"
    and "I_TAG_SERVICES_REPLY C ''Read Template'' \<noteq> I_TAG_SERVICES_REPLY C ''Read Tag Fragmented''"
    and "I_TAG_SERVICES_REPLY C ''Read Template''
           \<noteq> I_TAG_SERVICES_REPLY C ''Get Instance Attributes List''"
    and "I_TAG_SERVICES_REPLY C ''Read Template'' \<noteq> I_TAG_SERVICES_REPLY C ''Get Attributes''"
    and "get_template_in_progress d"
  shows "check_reply C d
           = as_DataError (then_do (parse_template 50 st (d\<lparr>more_packets_available := False\<rparr>))
                             (\<lambda>_ d. Return True d))"
  using assms
  by (auto simp: check_reply_def is_unit_data_reply_def Let_def then_do_def lift_sum_def
           split: sum.splits)

lemma send_unit_data_Return:
  assumes "send_unit_data C m (d, w) = Return ret (d', w')"
  shows "\<exists>rs ok. replies w = ret # rs \<and> w' = w\<lparr>sent := sent w @ [m], replies := rs\<rparr>
                 \<and> check_reply C (d\<lparr>reply := ret\<rparr>) = Return ok d'"
  using assms by (auto simp: Let_def split: list.splits outcome.splits)

section \<open>Enumerating the symbols\<close>





lemma send_request_sent:
  "send_request C m (d, w) = Return r (d', w') \<Longrightarrow> length (sent w') = Suc (length (sent w))"
  by (auto simp: Let_def split: list.splits outcome.splits)

lemma send_request_state_sent:
  "sent (snd (state_of (send_request C m (d, w))))
     = sent w @ [build_common_packet_format C (concat m) (target_cid d)]"
  by (auto simp: Let_def state_of_def split: list.splits outcome.splits)

lemma get_sequence_sent: "get_sequence w = (seq, w1) \<Longrightarrow> sent w1 = sent w \<and> seq = sequence w mod 65536"
  by (auto simp: get_sequence_def)












section \<open>Fragmented exchanges\<close>

lemma parse_fragment_step_byte_offset:
  "parse_fragment_step C dt fr idx d = Return v d' \<Longrightarrow>
     byte_offset d' = byte_offset d \<and> status d' = status d \<and> reply d' = reply d"
  by (auto simp: parse_fragment_step_def Let_def
           split: option.splits if_splits sum.splits tag_list_t.splits)

lemma parse_fragment_loop_byte_offset:
  "parse_fragment_loop C dt fr idx d = Return v d' \<Longrightarrow>
     byte_offset d' = byte_offset d \<and> status d' = status d \<and> reply d' = reply d"
proof (induction C dt fr idx d rule: parse_fragment_loop.induct)
  case (1 C dt fr idx d)
  show ?case
  proof (cases "idx < length fr")
    case True
    with "1.prems" obtain sz d1 where
      st: "parse_fragment_step C dt fr idx d = Return sz d1" and nz: "sz \<noteq> 0"
      and rest: "parse_fragment_loop C dt fr (idx + sz) d1 = Return v d'"
      by (subst (asm) parse_fragment_loop.simps) (auto split: outcome.splits if_splits)
    from "1.IH" [OF True st nz rest] parse_fragment_step_byte_offset [OF st]
    show ?thesis by simp
  next
    case False
    with "1.prems" show ?thesis
      by (subst (asm) parse_fragment_loop.simps) simp
  qed
qed

lemma parse_fragment_byte_offset:
  assumes "parse_fragment C p st d = Return v d'" and "reply d = Some r"
  shows "byte_offset d' = (if st = 6 then byte_offset d + int (length (drop (p + 2) r)) else - 1)
         \<and> status d' = (if st = 0 \<or> st = 6 then status d else (2, ''{0}: {1}''))"
proof -
  let ?fin = "\<lambda>fr d. (if st = 0 then Return () (d\<lparr>byte_offset := - 1\<rparr>)
       else if st = 0x06 then
         Return () (d\<lparr>byte_offset := byte_offset d + int (length (fr :: bytes))\<rparr>)
       else
         (case SERVICE_STATUS C st of
            None \<Rightarrow> Raise KeyError d
          | Some txt \<Rightarrow>
             (case reply d of
                None \<Rightarrow> Raise TypeError d
              | Some r \<Rightarrow>
                 (case get_extended_status C r 48 of
                    Inl e \<Rightarrow> Raise e d
                  | Inr ext \<Rightarrow>
                      Return () (d\<lparr>status := (2, ''{0}: {1}''), byte_offset := - 1\<rparr>)))))"
  from assms(1) obtain y where
    y: "sum_bind (reply_slice d p (p + 2)) (\<lambda>s.
         sum_bind (unpack_uint s) (\<lambda>dtype.
         sum_bind (reply_from d (p + 2)) (\<lambda>fragment_returned.
         Inr (dtype, fragment_returned)))) = Inr y"
    and body: "(case y of (dtype, fragment_returned) \<Rightarrow> \<lambda>d.
       then_do (parse_fragment_loop C dtype fragment_returned 0 d) (\<lambda>_ d.
         ?fin fragment_returned d)) d = Return v d'"
    unfolding parse_fragment_def Let_def
    by (elim then_doE) (simp add: as_DataError_Return lift_sum_Return)
  obtain dt fr where yy: "y = (dt, fr)" by (cases y)
  from y yy assms(2) have fr: "fr = drop (p + 2) r"
    by (auto simp: sum_bind_def reply_slice_def reply_from_def split: sum.splits)
  from body yy obtain x d1 where
    loop: "parse_fragment_loop C dt fr 0 d = Return x d1"
    and fin: "?fin fr d1 = Return v d'"
    by (auto elim!: then_doE)
  from parse_fragment_loop_byte_offset [OF loop] have
    same: "byte_offset d1 = byte_offset d" "status d1 = status d" by simp_all
  show ?thesis
  proof (cases "st = 0 \<or> st = 6")
    case True
    with fin same fr show ?thesis by (auto split: if_splits)
  next
    case False
    with fin have
      "d' = d1\<lparr>status := (2, ''{0}: {1}''), byte_offset := - 1\<rparr>"
      by (auto split: option.splits sum.splits)
    with False show ?thesis by simp
  qed
qed


lemma parse_template_byte_offset:
  assumes "parse_template p st d = Return v d'" and "reply d = Some r"
  shows "byte_offset d' = (if st = 6 then byte_offset d + int (length (drop p r)) else byte_offset d)
         \<and> get_template_in_progress d' = (st \<noteq> 0 \<and> get_template_in_progress d)
         \<and> status d' = (if st = 0 \<or> st = 6 then status d
                         else (1, ''unknown status {0} during _parse_template''))"
  using assms
  by (auto simp: parse_template_def lift_sum_Return Let_def reply_from_def
           elim!: then_doE split: if_splits buffer_t.splits)

lemma read_array_loop_done:
  "byte_offset d = - 1 \<Longrightarrow> read_array_loop C tag counts (d, w) = Return (Some (tag_list d)) (d, w)"
  by (subst read_array_loop.simps) simp

lemma read_template_loop_done:
  "\<not> get_template_in_progress d \<Longrightarrow> read_template_loop C inst ods (d, w) = Return () (d, w)"
  by (subst read_template_loop.simps) simp

lemma read_array_loop_turn:
  assumes "byte_offset d \<noteq> - 1"
  shows "read_array_loop C tag counts (d, w) =
        (case create_tag_rp C tag False of
           None \<Rightarrow>
             Return None
               (d\<lparr>status := (7, ''Cannot create tag {0} request packet. read_tag will not be executed.'')\<rparr>, w)
         | Some rp \<Rightarrow>
            (case read_array_message C (sequence w mod 65536) rp counts (byte_offset d) of
               Inl e \<Rightarrow> Raise e (d, w\<lparr>sequence := sequence w + 1\<rparr>)
             | Inr message_request \<Rightarrow>
                (case send_request C message_request (d, w\<lparr>sequence := sequence w + 1\<rparr>) of
                   Raise e s \<Rightarrow> Raise e s
                 | Return ret (d', w') \<Rightarrow>
                     if ret = None then Raise DataError (d', w')
                     else read_array_loop C tag counts (d', w'))))"
  using assms
  by (subst read_array_loop.simps)
     (simp add: Let_def get_sequence_def del: send_request.simps split: option.split)

lemma read_template_loop_turn:
  assumes "get_template_in_progress d"
  shows "read_template_loop C inst ods (d, w) =
        (case read_template_message C (sequence w mod 65536) inst ods (byte_offset d) of
           Inl e \<Rightarrow> Raise e (d, w\<lparr>sequence := sequence w + 1\<rparr>)
         | Inr message_request \<Rightarrow>
            (case send_request C message_request (d, w\<lparr>sequence := sequence w + 1\<rparr>) of
               Raise e s \<Rightarrow> Raise e s
             | Return ret (d', w') \<Rightarrow>
                 if ret = None \<or> ret = Some [] then Raise DataError (d', w')
                 else read_template_loop C inst ods (d', w')))"
  using assms
  by (subst read_template_loop.simps)
     (simp add: Let_def get_sequence_def del: send_request.simps)

lemma read_array_loop_sent:
  "prefix (sent (snd s)) (sent (snd (state_of (read_array_loop C tag counts s))))"
proof (induction C tag counts s rule: read_array_loop.induct)
  case (1 C tag counts d w)
  show ?case
  proof (cases "byte_offset d = - 1")
    case True
    then show ?thesis by (simp add: read_array_loop_done state_of_def)
  next
    case False
    note turn = read_array_loop_turn [OF False, of C tag counts w]
    show ?thesis
    proof (cases "create_tag_rp C tag False")
      case None
      with turn show ?thesis by (simp add: state_of_def)
    next
      case (Some rp)
      let ?w1 = "w\<lparr>sequence := sequence w + 1\<rparr>"
      have gs: "(sequence w mod 65536, ?w1) = get_sequence w" by (simp add: get_sequence_def)
      show ?thesis
      proof (cases "read_array_message C (sequence w mod 65536) rp counts (byte_offset d)")
        case (Inl e)
        with turn Some show ?thesis by (simp add: state_of_def)
      next
        case (Inr m)
        from send_request_state_sent [of C m d ?w1]
        have sr: "prefix (sent w) (sent (snd (state_of (send_request C m (d, ?w1)))))"
          by simp
        show ?thesis
        proof (cases "send_request C m (d, ?w1)")
          case (Raise e s)
          with turn Some Inr sr show ?thesis
            by (simp add: state_of_def del: send_request.simps)
        next
          case (Return ret s1)
          obtain d1 w2 where s1: "s1 = (d1, w2)" by (cases s1)
          from Return s1 have send: "send_request C m (d, ?w1) = Return ret (d1, w2)" by simp
          from sr send have p: "prefix (sent w) (sent w2)"
            by (simp add: state_of_def del: send_request.simps)
          show ?thesis
          proof (cases "ret = None")
            case True
            with turn Some Inr send p show ?thesis
              by (simp add: state_of_def del: send_request.simps)
          next
            case nn: False
            from "1.IH" [OF False Some gs Inr send refl nn]
            have "prefix (sent w2) (sent (snd (state_of (read_array_loop C tag counts (d1, w2)))))"
              by simp
            with p turn Some Inr send nn show ?thesis
              by (auto simp del: send_request.simps)
          qed
        qed
      qed
    qed
  qed
qed

lemma read_template_loop_sent:
  "prefix (sent (snd s)) (sent (snd (state_of (read_template_loop C inst ods s))))"
proof (induction C inst ods s rule: read_template_loop.induct)
  case (1 C inst ods d w)
  show ?case
  proof (cases "get_template_in_progress d")
    case False
    then show ?thesis by (simp add: read_template_loop_done state_of_def)
  next
    case True
    note turn = read_template_loop_turn [OF True, of C inst ods w]
    let ?w1 = "w\<lparr>sequence := sequence w + 1\<rparr>"
    have gs: "(sequence w mod 65536, ?w1) = get_sequence w" by (simp add: get_sequence_def)
    show ?thesis
    proof (cases "read_template_message C (sequence w mod 65536) inst ods (byte_offset d)")
      case (Inl e)
      with turn show ?thesis by (simp add: state_of_def)
    next
      case (Inr m)
      from send_request_state_sent [of C m d ?w1]
      have sr: "prefix (sent w) (sent (snd (state_of (send_request C m (d, ?w1)))))"
        by simp
      show ?thesis
      proof (cases "send_request C m (d, ?w1)")
        case (Raise e s)
        with turn Inr sr show ?thesis
          by (simp add: state_of_def del: send_request.simps)
      next
        case (Return ret s1)
        obtain d1 w2 where s1: "s1 = (d1, w2)" by (cases s1)
        from Return s1 have send: "send_request C m (d, ?w1) = Return ret (d1, w2)" by simp
        from sr send have p: "prefix (sent w) (sent w2)"
          by (simp add: state_of_def del: send_request.simps)
        show ?thesis
        proof (cases "ret = None \<or> ret = Some []")
          case True
          with turn Inr send p show ?thesis
            by (simp add: state_of_def del: send_request.simps)
        next
          case nn: False
          from "1.IH" [OF True gs Inr send refl nn]
          have "prefix (sent w2) (sent (snd (state_of (read_template_loop C inst ods (d1, w2)))))"
            by simp
          with p turn Inr send nn show ?thesis
            by (auto simp del: send_request.simps)
        qed
      qed
    qed
  qed
qed

lemma read_array_loop_next_turn:
  "(if byte_offset d = - 1
             then read_array_loop C tag counts (d, w) = Return (Some (tag_list d)) (d, w)
             else
               (case create_tag_rp C tag False of
                  None \<Rightarrow>
                    read_array_loop C tag counts (d, w)
                      = Return None
                          (d\<lparr>status := (7, ''Cannot create tag {0} request packet. read_tag will not be executed.'')\<rparr>,
                           w)
                | Some rp \<Rightarrow>
                   (case read_array_message C (sequence w mod 65536) rp counts (byte_offset d) of
                      Inl e \<Rightarrow>
                        read_array_loop C tag counts (d, w)
                          = Raise e (d, w\<lparr>sequence := sequence w + 1\<rparr>)
                    | Inr message_request \<Rightarrow>
                        prefix (sent w @ [build_common_packet_format C (concat message_request)
                                             (target_cid d)])
                          (sent (snd (state_of (read_array_loop C tag counts (d, w))))))))"
proof (cases "byte_offset d = - 1")
  case True
  then show ?thesis by (simp add: read_array_loop_done)
next
  case False
  note turn = read_array_loop_turn [OF False, of C tag counts w]
  show ?thesis
  proof (cases "create_tag_rp C tag False")
    case None
    with turn False show ?thesis by simp
  next
    case (Some rp)
    let ?w1 = "w\<lparr>sequence := sequence w + 1\<rparr>"
    show ?thesis
    proof (cases "read_array_message C (sequence w mod 65536) rp counts (byte_offset d)")
      case (Inl e)
      with turn Some False show ?thesis by simp
    next
      case (Inr m)
      let ?f = "build_common_packet_format C (concat m) (target_cid d)"
      from send_request_state_sent [of C m d ?w1]
      have sr: "sent (snd (state_of (send_request C m (d, ?w1)))) = sent w @ [?f]"
        by simp
      have "prefix (sent w @ [?f]) (sent (snd (state_of (read_array_loop C tag counts (d, w)))))"
      proof (cases "send_request C m (d, ?w1)")
        case (Raise e s)
        with turn Some Inr sr show ?thesis
          by (simp add: state_of_def del: send_request.simps)
      next
        case (Return ret s1)
        obtain d1 w2 where s1: "s1 = (d1, w2)" by (cases s1)
        from Return s1 have send: "send_request C m (d, ?w1) = Return ret (d1, w2)" by simp
        from sr send have w2: "sent w2 = sent w @ [?f]"
          by (simp add: state_of_def del: send_request.simps)
        show ?thesis
        proof (cases "ret = None")
          case True
          with turn Some Inr send w2 show ?thesis
            by (simp add: state_of_def del: send_request.simps)
        next
          case nn: False
          from read_array_loop_sent [of "(d1, w2)" C tag counts] w2
          have "prefix (sent w @ [?f]) (sent (snd (state_of (read_array_loop C tag counts (d1, w2)))))"
            by simp
          with turn Some Inr send nn show ?thesis
            by (simp del: send_request.simps)
        qed
      qed
      with False Some Inr show ?thesis by simp
    qed
  qed
qed

lemma read_template_loop_next_turn:
  "(if \<not> get_template_in_progress d
             then read_template_loop C inst ods (d, w) = Return () (d, w)
             else
               (case read_template_message C (sequence w mod 65536) inst ods (byte_offset d) of
                  Inl e \<Rightarrow>
                    read_template_loop C inst ods (d, w)
                      = Raise e (d, w\<lparr>sequence := sequence w + 1\<rparr>)
                | Inr message_request \<Rightarrow>
                    prefix (sent w @ [build_common_packet_format C (concat message_request)
                                         (target_cid d)])
                      (sent (snd (state_of (read_template_loop C inst ods (d, w)))))))"
proof (cases "get_template_in_progress d")
  case False
  then show ?thesis by (simp add: read_template_loop_done)
next
  case True
  note turn = read_template_loop_turn [OF True, of C inst ods w]
  let ?w1 = "w\<lparr>sequence := sequence w + 1\<rparr>"
  show ?thesis
  proof (cases "read_template_message C (sequence w mod 65536) inst ods (byte_offset d)")
    case (Inl e)
    with turn True show ?thesis by simp
  next
    case (Inr m)
    let ?f = "build_common_packet_format C (concat m) (target_cid d)"
    from send_request_state_sent [of C m d ?w1]
    have sr: "sent (snd (state_of (send_request C m (d, ?w1)))) = sent w @ [?f]"
      by simp
    have "prefix (sent w @ [?f]) (sent (snd (state_of (read_template_loop C inst ods (d, w)))))"
    proof (cases "send_request C m (d, ?w1)")
      case (Raise e s)
      with turn Inr sr show ?thesis
        by (simp add: state_of_def del: send_request.simps)
    next
      case (Return ret s1)
      obtain d1 w2 where s1: "s1 = (d1, w2)" by (cases s1)
      from Return s1 have send: "send_request C m (d, ?w1) = Return ret (d1, w2)" by simp
      from sr send have w2: "sent w2 = sent w @ [?f]"
        by (simp add: state_of_def del: send_request.simps)
      show ?thesis
      proof (cases "ret = None \<or> ret = Some []")
        case True
        with turn Inr send w2 show ?thesis
          by (simp add: state_of_def del: send_request.simps)
      next
        case nn: False
        from read_template_loop_sent [of "(d1, w2)" C inst ods] w2
        have "prefix (sent w @ [?f]) (sent (snd (state_of (read_template_loop C inst ods (d1, w2)))))"
          by simp
        with turn Inr send nn show ?thesis
          by (simp del: send_request.simps)
      qed
    qed
    with True Inr show ?thesis by simp
  qed
qed

text \<open>
  C1. In a fragmented exchange, a reply of general status 0x06 adds the length of the
  fragment received to \<^verbatim>\<open>_byte_offset\<close>: the offset never decreases, and stays where it
  is when the fragment is empty. The loop of \<^verbatim>\<open>read_array\<close> runs while
  \<^verbatim>\<open>_byte_offset\<close> is not \<open>-1\<close>: a reply of general status 0 sets it to \<open>-1\<close>, and so does
  a reply of any other status than 0x06, which also records status code 2; after either
  the loop returns the list at once, sending nothing. The loop of \<^verbatim>\<open>_read_template\<close> runs
  while \<^verbatim>\<open>_get_template_in_progress\<close> is set: only a reply of general status 0 clears it;
  any other status than 0x06 records status code 1 and leaves the flag and the offset as
  they are. A loop that goes on raises when its next request cannot be packed, and else
  its next request, built from the new offset and the next sequence number, is the next
  frame sent (\<^verbatim>\<open>read_array\<close> first returns \<^verbatim>\<open>None\<close> when the request path cannot be
  built).
\<close>

theorem fragment_exchange_step:
  assumes "replies w = Some r # rs"
    and "is_unit_data_reply C r service st"
    and "send_unit_data C m (d, w) = Return ret (d', w')"
  shows
    "(service = I_TAG_SERVICES_REPLY C ''Read Tag Fragmented'' \<longrightarrow>
        byte_offset d' = (if st = 6 then byte_offset d + int (length (drop 52 r)) else - 1)
        \<and> status d' = (if st = 0 \<or> st = 6 then status d else (2, ''{0}: {1}''))
        \<and> (if st = 6 \<and> 0 \<le> byte_offset d
             then byte_offset d \<le> byte_offset d' \<and> byte_offset d' \<noteq> - 1 else True)
        \<and> (if byte_offset d' = - 1
             then read_array_loop C tag counts (d', w') = Return (Some (tag_list d')) (d', w')
             else
               (case create_tag_rp C tag False of
                  None \<Rightarrow>
                    read_array_loop C tag counts (d', w')
                      = Return None
                          (d'\<lparr>status := (7, ''Cannot create tag {0} request packet. read_tag will not be executed.'')\<rparr>,
                           w')
                | Some rp \<Rightarrow>
                   (case read_array_message C (sequence w' mod 65536) rp counts (byte_offset d') of
                      Inl e \<Rightarrow>
                        read_array_loop C tag counts (d', w')
                          = Raise e (d', w'\<lparr>sequence := sequence w' + 1\<rparr>)
                    | Inr message_request \<Rightarrow>
                        prefix (sent w' @ [build_common_packet_format C (concat message_request)
                                             (target_cid d')])
                          (sent (snd (state_of (read_array_loop C tag counts (d', w')))))))))
     \<and> (service = I_TAG_SERVICES_REPLY C ''Read Template''
        \<and> service \<noteq> I_TAG_SERVICES_REPLY C ''Read Tag Fragmented''
        \<and> service \<noteq> I_TAG_SERVICES_REPLY C ''Get Instance Attributes List''
        \<and> service \<noteq> I_TAG_SERVICES_REPLY C ''Get Attributes''
        \<and> get_template_in_progress d \<longrightarrow>
        byte_offset d' = (if st = 6 then byte_offset d + int (length (drop 50 r)) else byte_offset d)
        \<and> get_template_in_progress d' = (st \<noteq> 0)
        \<and> status d' = (if st = 0 \<or> st = 6 then status d
                        else (1, ''unknown status {0} during _parse_template''))
        \<and> (if \<not> get_template_in_progress d'
             then read_template_loop C inst ods (d', w') = Return () (d', w')
             else
               (case read_template_message C (sequence w' mod 65536) inst ods (byte_offset d') of
                  Inl e \<Rightarrow>
                    read_template_loop C inst ods (d', w')
                      = Raise e (d', w'\<lparr>sequence := sequence w' + 1\<rparr>)
                | Inr message_request \<Rightarrow>
                    prefix (sent w' @ [build_common_packet_format C (concat message_request)
                                         (target_cid d')])
                      (sent (snd (state_of (read_template_loop C inst ods (d', w'))))))))"
proof -
  let ?d = "d\<lparr>reply := Some r\<rparr>"
  let ?e = "?d\<lparr>more_packets_available := False\<rparr>"
  from send_unit_data_Return [OF assms(3)] assms(1) obtain ok where
    cr: "check_reply C ?d = Return ok d'"
    by auto
  have rd: "reply ?d = Some r" by simp
  have re: "reply ?e = Some r" by simp
  have A: "byte_offset d' = (if st = 6 then byte_offset d + int (length (drop 52 r)) else - 1)
        \<and> status d' = (if st = 0 \<or> st = 6 then status d else (2, ''{0}: {1}''))
        \<and> (if st = 6 \<and> 0 \<le> byte_offset d
             then byte_offset d \<le> byte_offset d' \<and> byte_offset d' \<noteq> - 1 else True)
        \<and> (if byte_offset d' = - 1
             then read_array_loop C tag counts (d', w') = Return (Some (tag_list d')) (d', w')
             else
               (case create_tag_rp C tag False of
                  None \<Rightarrow>
                    read_array_loop C tag counts (d', w')
                      = Return None
                          (d'\<lparr>status := (7, ''Cannot create tag {0} request packet. read_tag will not be executed.'')\<rparr>,
                           w')
                | Some rp \<Rightarrow>
                   (case read_array_message C (sequence w' mod 65536) rp counts (byte_offset d') of
                      Inl e \<Rightarrow>
                        read_array_loop C tag counts (d', w')
                          = Raise e (d', w'\<lparr>sequence := sequence w' + 1\<rparr>)
                    | Inr message_request \<Rightarrow>
                        prefix (sent w' @ [build_common_packet_format C (concat message_request)
                                             (target_cid d')])
                          (sent (snd (state_of (read_array_loop C tag counts (d', w'))))))))"
    if s: "service = I_TAG_SERVICES_REPLY C ''Read Tag Fragmented''"
  proof -
    from assms(2) s have
      "is_unit_data_reply C r (I_TAG_SERVICES_REPLY C ''Read Tag Fragmented'') st" by simp
    from cr [unfolded check_reply_fragment [OF rd this]]
    have "then_do (parse_fragment C 50 st ?e) (\<lambda>_ d. Return True d) = Return ok d'"
      by (simp only: as_DataError_Return)
    then obtain x where "parse_fragment C 50 st ?e = Return x d'"
      by (auto elim!: then_doE)
    from parse_fragment_byte_offset [OF this re]
    have off: "byte_offset d' = (if st = 6 then byte_offset d + int (length (drop 52 r)) else - 1)"
      and sta: "status d' = (if st = 0 \<or> st = 6 then status d else (2, ''{0}: {1}''))"
      by (simp_all cong: if_cong)
    from off have mono: "if st = 6 \<and> 0 \<le> byte_offset d
             then byte_offset d \<le> byte_offset d' \<and> byte_offset d' \<noteq> - 1 else True"
      by auto
    from off sta mono read_array_loop_next_turn [of d' C tag counts w']
    show ?thesis by (intro conjI)
  qed
  have B: "byte_offset d' = (if st = 6 then byte_offset d + int (length (drop 50 r)) else byte_offset d)
        \<and> get_template_in_progress d' = (st \<noteq> 0)
        \<and> status d' = (if st = 0 \<or> st = 6 then status d
                        else (1, ''unknown status {0} during _parse_template''))
        \<and> (if \<not> get_template_in_progress d'
             then read_template_loop C inst ods (d', w') = Return () (d', w')
             else
               (case read_template_message C (sequence w' mod 65536) inst ods (byte_offset d') of
                  Inl e \<Rightarrow>
                    read_template_loop C inst ods (d', w')
                      = Raise e (d', w'\<lparr>sequence := sequence w' + 1\<rparr>)
                | Inr message_request \<Rightarrow>
                    prefix (sent w' @ [build_common_packet_format C (concat message_request)
                                         (target_cid d')])
                      (sent (snd (state_of (read_template_loop C inst ods (d', w')))))))"
    if s: "service = I_TAG_SERVICES_REPLY C ''Read Template''"
      and n1: "service \<noteq> I_TAG_SERVICES_REPLY C ''Read Tag Fragmented''"
      and n2: "service \<noteq> I_TAG_SERVICES_REPLY C ''Get Instance Attributes List''"
      and n3: "service \<noteq> I_TAG_SERVICES_REPLY C ''Get Attributes''"
      and g: "get_template_in_progress d"
  proof -
    from assms(2) s have u:
      "is_unit_data_reply C r (I_TAG_SERVICES_REPLY C ''Read Template'') st" by simp
    from g have g': "get_template_in_progress ?d" by simp
    from cr [unfolded check_reply_template [OF rd u n1 [unfolded s] n2 [unfolded s] n3 [unfolded s] g']]
    have "then_do (parse_template 50 st ?e) (\<lambda>_ d. Return True d) = Return ok d'"
      by (simp only: as_DataError_Return)
    then obtain x where "parse_template 50 st ?e = Return x d'"
      by (auto elim!: then_doE)
    from parse_template_byte_offset [OF this re] g
    have off: "byte_offset d' = (if st = 6 then byte_offset d + int (length (drop 50 r)) else byte_offset d)"
      and prog: "get_template_in_progress d' = (st \<noteq> 0)"
      and sta: "status d' = (if st = 0 \<or> st = 6 then status d
                        else (1, ''unknown status {0} during _parse_template''))"
      by (simp_all cong: if_cong)
    from off prog sta read_template_loop_next_turn [of d' C inst ods w']
    show ?thesis by (intro conjI)
  qed
  from A B show ?thesis by blast
qed

theorem fragment_exchange_step_witness:
  "replies (target [Some example_fragment_1, Some example_fragment_2]) = Some example_fragment_1 # [Some example_fragment_2]
   \<and> is_unit_data_reply example_extern example_fragment_1 (I_TAG_SERVICES_REPLY example_extern ''Read Tag Fragmented'') 6
   \<and> send_unit_data example_extern [] (array_driver, target [Some example_fragment_1, Some example_fragment_2])
       = Return (Some example_fragment_1) (fst (state_of (send_unit_data example_extern [] (array_driver, target [Some example_fragment_1, Some example_fragment_2]))), snd (state_of (send_unit_data example_extern [] (array_driver, target [Some example_fragment_1, Some example_fragment_2]))))
   \<and> (byte_offset (fst (state_of (send_unit_data example_extern [] (array_driver, target [Some example_fragment_1, Some example_fragment_2])))) = (if (6::int) = 6 then byte_offset array_driver + int (length (drop 52 example_fragment_1)) else - 1)
        \<and> status (fst (state_of (send_unit_data example_extern [] (array_driver, target [Some example_fragment_1, Some example_fragment_2])))) = (if (6::int) = 0 \<or> (6::int) = 6 then status array_driver else (2, ''{0}: {1}''))
        \<and> (if (6::int) = 6 \<and> 0 \<le> byte_offset array_driver
             then byte_offset array_driver \<le> byte_offset (fst (state_of (send_unit_data example_extern [] (array_driver, target [Some example_fragment_1, Some example_fragment_2])))) \<and> byte_offset (fst (state_of (send_unit_data example_extern [] (array_driver, target [Some example_fragment_1, Some example_fragment_2])))) \<noteq> - 1 else True)
        \<and> (if byte_offset (fst (state_of (send_unit_data example_extern [] (array_driver, target [Some example_fragment_1, Some example_fragment_2])))) = - 1
             then read_array_loop example_extern ''Tbl'' (PInt 2) (fst (state_of (send_unit_data example_extern [] (array_driver, target [Some example_fragment_1, Some example_fragment_2]))), snd (state_of (send_unit_data example_extern [] (array_driver, target [Some example_fragment_1, Some example_fragment_2])))) = Return (Some (tag_list (fst (state_of (send_unit_data example_extern [] (array_driver, target [Some example_fragment_1, Some example_fragment_2])))))) (fst (state_of (send_unit_data example_extern [] (array_driver, target [Some example_fragment_1, Some example_fragment_2]))), snd (state_of (send_unit_data example_extern [] (array_driver, target [Some example_fragment_1, Some example_fragment_2]))))
             else
               (case create_tag_rp example_extern ''Tbl'' False of
                  None \<Rightarrow>
                    read_array_loop example_extern ''Tbl'' (PInt 2) (fst (state_of (send_unit_data example_extern [] (array_driver, target [Some example_fragment_1, Some example_fragment_2]))), snd (state_of (send_unit_data example_extern [] (array_driver, target [Some example_fragment_1, Some example_fragment_2]))))
                      = Return None
                          ((fst (state_of (send_unit_data example_extern [] (array_driver, target [Some example_fragment_1, Some example_fragment_2]))))\<lparr>status := (7, ''Cannot create tag {0} request packet. read_tag will not be executed.'')\<rparr>,
                           snd (state_of (send_unit_data example_extern [] (array_driver, target [Some example_fragment_1, Some example_fragment_2]))))
                | Some rp \<Rightarrow>
                   (case read_array_message example_extern (sequence (snd (state_of (send_unit_data example_extern [] (array_driver, target [Some example_fragment_1, Some example_fragment_2])))) mod 65536) rp (PInt 2) (byte_offset (fst (state_of (send_unit_data example_extern [] (array_driver, target [Some example_fragment_1, Some example_fragment_2]))))) of
                      Inl e \<Rightarrow>
                        read_array_loop example_extern ''Tbl'' (PInt 2) (fst (state_of (send_unit_data example_extern [] (array_driver, target [Some example_fragment_1, Some example_fragment_2]))), snd (state_of (send_unit_data example_extern [] (array_driver, target [Some example_fragment_1, Some example_fragment_2]))))
                          = Raise e (fst (state_of (send_unit_data example_extern [] (array_driver, target [Some example_fragment_1, Some example_fragment_2]))), (snd (state_of (send_unit_data example_extern [] (array_driver, target [Some example_fragment_1, Some example_fragment_2]))))\<lparr>sequence := sequence (snd (state_of (send_unit_data example_extern [] (array_driver, target [Some example_fragment_1, Some example_fragment_2])))) + 1\<rparr>)
                    | Inr message_request \<Rightarrow>
                        prefix (sent (snd (state_of (send_unit_data example_extern [] (array_driver, target [Some example_fragment_1, Some example_fragment_2])))) @ [build_common_packet_format example_extern (concat message_request)
                                             (target_cid (fst (state_of (send_unit_data example_extern [] (array_driver, target [Some example_fragment_1, Some example_fragment_2])))))])
                          (sent (snd (state_of (read_array_loop example_extern ''Tbl'' (PInt 2) (fst (state_of (send_unit_data example_extern [] (array_driver, target [Some example_fragment_1, Some example_fragment_2]))), snd (state_of (send_unit_data example_extern [] (array_driver, target [Some example_fragment_1, Some example_fragment_2]))))))))))))
   \<and> byte_offset (fst (state_of (send_unit_data example_extern [] (array_driver, target [Some example_fragment_1, Some example_fragment_2])))) = 4
   \<and> value_of (read_array_loop example_extern ''Tbl'' (PInt 2) (state_of (send_unit_data example_extern [] (array_driver, target [Some example_fragment_1, Some example_fragment_2]))))
       = Some (Some (Lst [Value_item 0 (PInt 1), Value_item 1 (PInt 2)]))
   \<and> length (sent (snd (state_of (read_array_loop example_extern ''Tbl'' (PInt 2) (state_of (send_unit_data example_extern [] (array_driver, target [Some example_fragment_1, Some example_fragment_2]))))))) = 2
   \<and> replies (target [Some example_template_part, Some example_template_reply]) = Some example_template_part # [Some example_template_reply]
   \<and> is_unit_data_reply example_extern example_template_part (I_TAG_SERVICES_REPLY example_extern ''Read Template'') 6
   \<and> send_unit_data example_extern [] ((fresh_driver\<lparr>buffer := Buf_bytes [], get_template_in_progress := True\<rparr>), target [Some example_template_part, Some example_template_reply])
       = Return (Some example_template_part) (fst (state_of (send_unit_data example_extern [] ((fresh_driver\<lparr>buffer := Buf_bytes [], get_template_in_progress := True\<rparr>), target [Some example_template_part, Some example_template_reply]))), snd (state_of (send_unit_data example_extern [] ((fresh_driver\<lparr>buffer := Buf_bytes [], get_template_in_progress := True\<rparr>), target [Some example_template_part, Some example_template_reply]))))
   \<and> I_TAG_SERVICES_REPLY example_extern ''Read Template'' \<noteq> I_TAG_SERVICES_REPLY example_extern ''Read Tag Fragmented''
   \<and> I_TAG_SERVICES_REPLY example_extern ''Read Template'' \<noteq> I_TAG_SERVICES_REPLY example_extern ''Get Instance Attributes List''
   \<and> I_TAG_SERVICES_REPLY example_extern ''Read Template'' \<noteq> I_TAG_SERVICES_REPLY example_extern ''Get Attributes''
   \<and> get_template_in_progress (fresh_driver\<lparr>buffer := Buf_bytes [], get_template_in_progress := True\<rparr>)
   \<and> (byte_offset (fst (state_of (send_unit_data example_extern [] ((fresh_driver\<lparr>buffer := Buf_bytes [], get_template_in_progress := True\<rparr>), target [Some example_template_part, Some example_template_reply])))) = (if (6::int) = 6 then byte_offset (fresh_driver\<lparr>buffer := Buf_bytes [], get_template_in_progress := True\<rparr>) + int (length (drop 50 example_template_part)) else byte_offset (fresh_driver\<lparr>buffer := Buf_bytes [], get_template_in_progress := True\<rparr>))
        \<and> get_template_in_progress (fst (state_of (send_unit_data example_extern [] ((fresh_driver\<lparr>buffer := Buf_bytes [], get_template_in_progress := True\<rparr>), target [Some example_template_part, Some example_template_reply])))) = ((6::int) \<noteq> 0)
        \<and> status (fst (state_of (send_unit_data example_extern [] ((fresh_driver\<lparr>buffer := Buf_bytes [], get_template_in_progress := True\<rparr>), target [Some example_template_part, Some example_template_reply])))) = (if (6::int) = 0 \<or> (6::int) = 6 then status (fresh_driver\<lparr>buffer := Buf_bytes [], get_template_in_progress := True\<rparr>)
                        else (1, ''unknown status {0} during _parse_template''))
        \<and> (if \<not> get_template_in_progress (fst (state_of (send_unit_data example_extern [] ((fresh_driver\<lparr>buffer := Buf_bytes [], get_template_in_progress := True\<rparr>), target [Some example_template_part, Some example_template_reply]))))
             then read_template_loop example_extern 0x123 30 (fst (state_of (send_unit_data example_extern [] ((fresh_driver\<lparr>buffer := Buf_bytes [], get_template_in_progress := True\<rparr>), target [Some example_template_part, Some example_template_reply]))), snd (state_of (send_unit_data example_extern [] ((fresh_driver\<lparr>buffer := Buf_bytes [], get_template_in_progress := True\<rparr>), target [Some example_template_part, Some example_template_reply])))) = Return () (fst (state_of (send_unit_data example_extern [] ((fresh_driver\<lparr>buffer := Buf_bytes [], get_template_in_progress := True\<rparr>), target [Some example_template_part, Some example_template_reply]))), snd (state_of (send_unit_data example_extern [] ((fresh_driver\<lparr>buffer := Buf_bytes [], get_template_in_progress := True\<rparr>), target [Some example_template_part, Some example_template_reply]))))
             else
               (case read_template_message example_extern (sequence (snd (state_of (send_unit_data example_extern [] ((fresh_driver\<lparr>buffer := Buf_bytes [], get_template_in_progress := True\<rparr>), target [Some example_template_part, Some example_template_reply])))) mod 65536) 0x123 30 (byte_offset (fst (state_of (send_unit_data example_extern [] ((fresh_driver\<lparr>buffer := Buf_bytes [], get_template_in_progress := True\<rparr>), target [Some example_template_part, Some example_template_reply]))))) of
                  Inl e \<Rightarrow>
                    read_template_loop example_extern 0x123 30 (fst (state_of (send_unit_data example_extern [] ((fresh_driver\<lparr>buffer := Buf_bytes [], get_template_in_progress := True\<rparr>), target [Some example_template_part, Some example_template_reply]))), snd (state_of (send_unit_data example_extern [] ((fresh_driver\<lparr>buffer := Buf_bytes [], get_template_in_progress := True\<rparr>), target [Some example_template_part, Some example_template_reply]))))
                      = Raise e (fst (state_of (send_unit_data example_extern [] ((fresh_driver\<lparr>buffer := Buf_bytes [], get_template_in_progress := True\<rparr>), target [Some example_template_part, Some example_template_reply]))), (snd (state_of (send_unit_data example_extern [] ((fresh_driver\<lparr>buffer := Buf_bytes [], get_template_in_progress := True\<rparr>), target [Some example_template_part, Some example_template_reply]))))\<lparr>sequence := sequence (snd (state_of (send_unit_data example_extern [] ((fresh_driver\<lparr>buffer := Buf_bytes [], get_template_in_progress := True\<rparr>), target [Some example_template_part, Some example_template_reply])))) + 1\<rparr>)
                | Inr message_request \<Rightarrow>
                    prefix (sent (snd (state_of (send_unit_data example_extern [] ((fresh_driver\<lparr>buffer := Buf_bytes [], get_template_in_progress := True\<rparr>), target [Some example_template_part, Some example_template_reply])))) @ [build_common_packet_format example_extern (concat message_request)
                                         (target_cid (fst (state_of (send_unit_data example_extern [] ((fresh_driver\<lparr>buffer := Buf_bytes [], get_template_in_progress := True\<rparr>), target [Some example_template_part, Some example_template_reply])))))])
                      (sent (snd (state_of (read_template_loop example_extern 0x123 30 (fst (state_of (send_unit_data example_extern [] ((fresh_driver\<lparr>buffer := Buf_bytes [], get_template_in_progress := True\<rparr>), target [Some example_template_part, Some example_template_reply]))), snd (state_of (send_unit_data example_extern [] ((fresh_driver\<lparr>buffer := Buf_bytes [], get_template_in_progress := True\<rparr>), target [Some example_template_part, Some example_template_reply])))))))))))
   \<and> byte_offset (fst (state_of (send_unit_data example_extern [] ((fresh_driver\<lparr>buffer := Buf_bytes [], get_template_in_progress := True\<rparr>), target [Some example_template_part, Some example_template_reply])))) = 2
   \<and> raised (read_template_loop example_extern 0x123 30 (state_of (send_unit_data example_extern [] ((fresh_driver\<lparr>buffer := Buf_bytes [], get_template_in_progress := True\<rparr>), target [Some example_template_part, Some example_template_reply])))) = None
   \<and> length (sent (snd (state_of (read_template_loop example_extern 0x123 30 (state_of (send_unit_data example_extern [] ((fresh_driver\<lparr>buffer := Buf_bytes [], get_template_in_progress := True\<rparr>), target [Some example_template_part, Some example_template_reply]))))))) = 2"
proof -
  let ?w = "target [Some example_fragment_1, Some example_fragment_2]"
  let ?A = "send_unit_data example_extern [] (array_driver, ?w)"
  let ?d = "(fresh_driver\<lparr>buffer := Buf_bytes [], get_template_in_progress := True\<rparr>)"
  let ?v = "target [Some example_template_part, Some example_template_reply]"
  let ?B = "send_unit_data example_extern [] (?d, ?v)"
  have h1: "replies ?w = Some example_fragment_1 # [Some example_fragment_2]"
    by (simp add: target_def)
  have h2: "is_unit_data_reply example_extern example_fragment_1 (I_TAG_SERVICES_REPLY example_extern ''Read Tag Fragmented'') 6"
    by code_simp
  have ra: "raised ?A = None" by code_simp
  have va: "value_of ?A = Some (Some example_fragment_1)" by code_simp
  have h3: "?A = Return (Some example_fragment_1) (fst (state_of ?A), snd (state_of ?A))"
    using outcome_eqI [OF ra va] by simp
  have a: "byte_offset (fst (state_of ?A)) = (if (6::int) = 6 then byte_offset array_driver + int (length (drop 52 example_fragment_1)) else - 1)
        \<and> status (fst (state_of ?A)) = (if (6::int) = 0 \<or> (6::int) = 6 then status array_driver else (2, ''{0}: {1}''))
        \<and> (if (6::int) = 6 \<and> 0 \<le> byte_offset array_driver
             then byte_offset array_driver \<le> byte_offset (fst (state_of ?A)) \<and> byte_offset (fst (state_of ?A)) \<noteq> - 1 else True)
        \<and> (if byte_offset (fst (state_of ?A)) = - 1
             then read_array_loop example_extern ''Tbl'' (PInt 2) (fst (state_of ?A), snd (state_of ?A)) = Return (Some (tag_list (fst (state_of ?A)))) (fst (state_of ?A), snd (state_of ?A))
             else
               (case create_tag_rp example_extern ''Tbl'' False of
                  None \<Rightarrow>
                    read_array_loop example_extern ''Tbl'' (PInt 2) (fst (state_of ?A), snd (state_of ?A))
                      = Return None
                          ((fst (state_of ?A))\<lparr>status := (7, ''Cannot create tag {0} request packet. read_tag will not be executed.'')\<rparr>,
                           snd (state_of ?A))
                | Some rp \<Rightarrow>
                   (case read_array_message example_extern (sequence (snd (state_of ?A)) mod 65536) rp (PInt 2) (byte_offset (fst (state_of ?A))) of
                      Inl e \<Rightarrow>
                        read_array_loop example_extern ''Tbl'' (PInt 2) (fst (state_of ?A), snd (state_of ?A))
                          = Raise e (fst (state_of ?A), (snd (state_of ?A))\<lparr>sequence := sequence (snd (state_of ?A)) + 1\<rparr>)
                    | Inr message_request \<Rightarrow>
                        prefix (sent (snd (state_of ?A)) @ [build_common_packet_format example_extern (concat message_request)
                                             (target_cid (fst (state_of ?A)))])
                          (sent (snd (state_of (read_array_loop example_extern ''Tbl'' (PInt 2) (fst (state_of ?A), snd (state_of ?A)))))))))"
    by (rule fragment_exchange_step [OF h1 h2 h3, THEN conjunct1, THEN mp, OF refl])
  have a1: "byte_offset (fst (state_of ?A)) = 4" by code_simp
  have a2: "value_of (read_array_loop example_extern ''Tbl'' (PInt 2) (state_of ?A))
              = Some (Some (Lst [Value_item 0 (PInt 1), Value_item 1 (PInt 2)]))"
    by code_simp
  have a3: "length (sent (snd (state_of (read_array_loop example_extern ''Tbl'' (PInt 2) (state_of ?A))))) = 2"
    by code_simp
  have k1: "replies ?v = Some example_template_part # [Some example_template_reply]"
    by (simp add: target_def)
  have k2: "is_unit_data_reply example_extern example_template_part (I_TAG_SERVICES_REPLY example_extern ''Read Template'') 6"
    by code_simp
  have rb: "raised ?B = None" by code_simp
  have vb: "value_of ?B = Some (Some example_template_part)" by code_simp
  have k3: "?B = Return (Some example_template_part) (fst (state_of ?B), snd (state_of ?B))"
    using outcome_eqI [OF rb vb] by simp
  have n1: "I_TAG_SERVICES_REPLY example_extern ''Read Template'' \<noteq> I_TAG_SERVICES_REPLY example_extern ''Read Tag Fragmented''"
    and n2: "I_TAG_SERVICES_REPLY example_extern ''Read Template'' \<noteq> I_TAG_SERVICES_REPLY example_extern ''Get Instance Attributes List''"
    and n3: "I_TAG_SERVICES_REPLY example_extern ''Read Template'' \<noteq> I_TAG_SERVICES_REPLY example_extern ''Get Attributes''"
    by (simp_all add: example_extern_def)
  have g: "get_template_in_progress ?d" by simp
  have b: "byte_offset (fst (state_of ?B)) = (if (6::int) = 6 then byte_offset ?d + int (length (drop 50 example_template_part)) else byte_offset ?d)
        \<and> get_template_in_progress (fst (state_of ?B)) = ((6::int) \<noteq> 0)
        \<and> status (fst (state_of ?B)) = (if (6::int) = 0 \<or> (6::int) = 6 then status ?d
                        else (1, ''unknown status {0} during _parse_template''))
        \<and> (if \<not> get_template_in_progress (fst (state_of ?B))
             then read_template_loop example_extern 0x123 30 (fst (state_of ?B), snd (state_of ?B)) = Return () (fst (state_of ?B), snd (state_of ?B))
             else
               (case read_template_message example_extern (sequence (snd (state_of ?B)) mod 65536) 0x123 30 (byte_offset (fst (state_of ?B))) of
                  Inl e \<Rightarrow>
                    read_template_loop example_extern 0x123 30 (fst (state_of ?B), snd (state_of ?B))
                      = Raise e (fst (state_of ?B), (snd (state_of ?B))\<lparr>sequence := sequence (snd (state_of ?B)) + 1\<rparr>)
                | Inr message_request \<Rightarrow>
                    prefix (sent (snd (state_of ?B)) @ [build_common_packet_format example_extern (concat message_request)
                                         (target_cid (fst (state_of ?B)))])
                      (sent (snd (state_of (read_template_loop example_extern 0x123 30 (fst (state_of ?B), snd (state_of ?B))))))))"
    by (rule fragment_exchange_step [OF k1 k2 k3, THEN conjunct2, THEN mp])
       (intro conjI refl n1 n2 n3 g)
  have b1: "byte_offset (fst (state_of ?B)) = 2" by code_simp
  have b2: "raised (read_template_loop example_extern 0x123 30 (state_of ?B)) = None" by code_simp
  have b3: "length (sent (snd (state_of (read_template_loop example_extern 0x123 30 (state_of ?B))))) = 2"
    by code_simp
  from h1 h2 h3 a a1 a2 a3 k1 k2 k3 n1 n2 n3 g b b1 b2 b3 show ?thesis by blast
qed

text \<open>
  C1 as stated fails twice. The loop of \<^verbatim>\<open>read_array\<close> ends on a reply of general status
  0x04: the call returns the (empty) list with status code 2 after one request, and the
  target's next reply is never asked for. And a reply of general status 0x06 whose fragment
  is empty leaves the offset where it is.
\<close>

theorem read_array_ends_on_error_status:
  "is_unit_data_reply example_extern example_fragment_error (I_TAG_SERVICES_REPLY example_extern ''Read Tag Fragmented'') 4
   \<and> value_of (read_array example_extern ''Tbl'' (PInt 2) False
                 (fresh_driver, target [Some example_fragment_error, Some example_fragment_2]))
       = Some (Some (Lst []))
   \<and> status (fst (state_of (read_array example_extern ''Tbl'' (PInt 2) False
                 (fresh_driver, target [Some example_fragment_error, Some example_fragment_2]))))
       = (2, ''{0}: {1}'')
   \<and> byte_offset (fst (state_of (read_array example_extern ''Tbl'' (PInt 2) False
                 (fresh_driver, target [Some example_fragment_error, Some example_fragment_2]))))
       = - 1
   \<and> length (sent (snd (state_of (read_array example_extern ''Tbl'' (PInt 2) False
                 (fresh_driver, target [Some example_fragment_error, Some example_fragment_2])))))
       = 1
   \<and> replies (snd (state_of (read_array example_extern ''Tbl'' (PInt 2) False
                 (fresh_driver, target [Some example_fragment_error, Some example_fragment_2]))))
       = [Some example_fragment_2]
   \<and> is_unit_data_reply example_extern (unit_data_reply 0xD2 6 [0xC4, 0]) (I_TAG_SERVICES_REPLY example_extern ''Read Tag Fragmented'') 6
   \<and> byte_offset array_driver = 0
   \<and> byte_offset (fst (state_of (send_unit_data example_extern []
                 (array_driver, target [Some (unit_data_reply 0xD2 6 [0xC4, 0])])))) = 0"
  by code_simp

end
